theory Spec2Isabelle
  imports Main "HOL-Library.Sublist" "HOL-Library.Product_Lexorder"
begin

section \<open>Values of the Python runtime and of the chat library\<close>

text \<open>
  The exceptions the builder can meet. \<open>NotFound\<close> is the library's subclass of
  \<open>HTTPException\<close>; the constructor \<open>HTTPException\<close> stands for every other
  instance of that class, \<open>OtherException\<close> for an exception outside it.
\<close>

datatype exn =
  NotFound | HTTPException | OtherException
  | AttributeError | IndexError | ValueError | TypeError

definition is_HTTPException :: "exn \<Rightarrow> bool" where
  "is_HTTPException e = (e = NotFound \<or> e = HTTPException)"

text \<open>
  A \<open>datetime\<close>: the wall-clock reading in microseconds and, for an aware value, the
  offset of its time zone from UTC; \<open>tzinfo = None\<close> is a naive value.
\<close>

record datetime =
  wall :: int
  tzinfo :: "int option"

text \<open>\<open>timezone("UTC").localize(time)\<close>: pytz refuses a value that is already aware.\<close>

definition localize :: "datetime \<Rightarrow> exn + datetime" where
  "localize t = (case tzinfo t of None \<Rightarrow> Inr (t\<lparr>tzinfo := Some 0\<rparr>) | Some off \<Rightarrow> Inl ValueError)"

text \<open>\<open>timedelta(minutes=4)\<close> in microseconds.\<close>

definition four_minutes :: int where
  "four_minutes = 4 * 60 * 1000000"

definition add_timedelta :: "datetime \<Rightarrow> int \<Rightarrow> datetime" where
  "add_timedelta t d = t\<lparr>wall := wall t + d\<rparr>"

text \<open>\<open>a > b\<close> on datetimes: a naive and an aware value do not compare.\<close>

definition datetime_gt :: "datetime \<Rightarrow> datetime \<Rightarrow> exn + bool" where
  "datetime_gt a b =
     (case (tzinfo a, tzinfo b) of
        (None, None) \<Rightarrow> Inr (wall b < wall a)
      | (Some oa, Some ob) \<Rightarrow> Inr (wall b - ob < wall a - oa)
      | (None, Some ob) \<Rightarrow> Inl TypeError
      | (Some oa, None) \<Rightarrow> Inl TypeError)"

datatype message_type =
  DEFAULT | RECIPIENT_ADD | RECIPIENT_REMOVE | CHANNEL_PINNED_MESSAGE | THREAD_CREATED
  | OTHER_MESSAGE_TYPE nat

record Color =
  color_value :: nat
  hex :: string

datatype role_icon = Asset string | PartialEmoji nat

record Role =
  role_id :: nat
  position :: nat
  color :: Color
  icon :: "role_icon option"

text \<open>
  A \<open>User\<close> or \<open>Member\<close> object. \<open>joined_at = None\<close> is a plain user (not an
  instance of \<open>Member\<close>); \<open>roles\<close> is read from fetched guild members only.
\<close>

record User =
  user_id :: nat
  username :: string
  display_name :: string
  tag :: string
  user_bot :: bool
  verified_bot :: bool
  avatar_url :: string
  user_created_at :: datetime
  joined_at :: "datetime option"
  roles :: "Role list"

record MessageReference =
  ref_message_id :: nat
  ref_channel_id :: nat

record MessageInteraction =
  interaction_user :: User
  interaction_name :: string
  interaction_id :: nat

text \<open>
  The attributes \<open>message_reference\<close> and \<open>interaction\<close> of a message hold the library's
  object or \<open>None\<close> when the message arrives; the builder overwrites them with markup.
\<close>

datatype reference_slot = NoReference | Reference MessageReference | ReferenceMarkup string

datatype interaction_slot = NoInteraction | Interaction MessageInteraction | InteractionMarkup string

record Message =
  msg_id :: nat
  author :: User
  content :: string
  created_at :: datetime
  edited_timestamp :: "datetime option"
  msg_type :: message_type
  message_reference :: reference_slot
  interaction :: interaction_slot
  embeds :: "string list"
  attachments :: "string list"
  components :: "string list"
  reactions :: "string list"
  webhook_id :: "nat option"
  mention_ids :: "nat list"
  channel_id :: nat
  channel_type :: string

text \<open>Python truthiness of the two slots, and the comparison \<open>!= ""\<close>.\<close>

definition reference_truthy :: "reference_slot \<Rightarrow> bool" where
  "reference_truthy r = (case r of NoReference \<Rightarrow> False | Reference x \<Rightarrow> True | ReferenceMarkup s \<Rightarrow> s \<noteq> [])"

definition interaction_truthy :: "interaction_slot \<Rightarrow> bool" where
  "interaction_truthy r = (case r of NoInteraction \<Rightarrow> False | Interaction x \<Rightarrow> True | InteractionMarkup s \<Rightarrow> s \<noteq> [])"

section \<open>The collaborators of the builder\<close>

text \<open>
  The templates of \<open>chat_exporter.ext.html_generator\<close>, by name (the one called
  \<open>message_reference\<close> there is \<open>message_reference_template\<close> here).
\<close>

datatype template =
  message_body | message_pin | message_thread | message_content
  | message_reference_template | message_interaction | start_message | end_message
  | message_thread_remove | message_thread_add

datatype parse_mode = PARSE_MODE_NONE | PARSE_MODE_MARKDOWN | PARSE_MODE_REFERENCE

type_synonym substitution = "string \<times> string \<times> parse_mode option"

text \<open>
  What the source imports and calls but does not define: the guild's lookups, the
  template engine, the asset renderers, the clock library and the markup constants.
  A lookup returns an object or \<open>None\<close>, or raises.
\<close>

record env =
  guild_id :: nat
  fetch_member :: "nat \<Rightarrow> exn + User option"
  fetch_message :: "nat \<Rightarrow> nat \<Rightarrow> exn + Message option"
  fetch_channel :: "nat \<Rightarrow> exn + nat option"
  fill_out :: "template \<Rightarrow> substitution list \<Rightarrow> string"
  embed_flow :: "string \<Rightarrow> string"
  attachment_flow :: "string \<Rightarrow> string"
  component_flow :: "string \<Rightarrow> string"
  reaction_flow :: "string \<Rightarrow> string"
  strftime :: "string \<Rightarrow> datetime \<Rightarrow> string"
  utcoffset :: "string \<Rightarrow> int \<Rightarrow> int"
  system_utcoffset :: "int \<Rightarrow> int"
  bot_tag :: string
  bot_tag_verified :: string
  message_reference_unknown :: string
  reference_attachment_icon :: string
  interaction_command_icon :: string
  pinned_message_icon :: string
  thread_channel_icon :: string
  thread_remove_recipient :: string
  thread_add_recipient :: string

text \<open>
  \<open>time.astimezone(timezone(name))\<close>: an aware value keeps its instant; a naive one is
  read in the system's zone.
\<close>

definition astimezone :: "env \<Rightarrow> string \<Rightarrow> datetime \<Rightarrow> datetime" where
  "astimezone env name t =
     (let instant = (case tzinfo t of
                       Some off \<Rightarrow> wall t - off
                     | None \<Rightarrow> wall t - system_utcoffset env (wall t));
          off' = utcoffset env name instant
      in \<lparr>wall = instant + off', tzinfo = Some off'\<rparr>)"

section \<open>Strings\<close>

definition escape_char :: "char \<Rightarrow> string" where
  "escape_char c =
     (if c = CHR ''&'' then ''&amp;''
      else if c = CHR ''<'' then ''&lt;''
      else if c = CHR ''>'' then ''&gt;''
      else if c = CHR 0x22 then ''&quot;''
      else if c = CHR 0x27 then ''&#x27;''
      else [c])"

text \<open>\<open>html.escape(s)\<close> with its default \<open>quote=True\<close>.\<close>

definition html_escape :: "string \<Rightarrow> string" where
  "html_escape s = concat (map escape_char s)"

definition digit_char :: "nat \<Rightarrow> char" where
  "digit_char d = char_of (48 + d)"

text \<open>\<open>str(n)\<close> of a snowflake.\<close>

fun str_nat :: "nat \<Rightarrow> string" where
  "str_nat n = (if n < 10 then [digit_char n] else str_nat (n div 10) @ [digit_char (n mod 10)])"

declare str_nat.simps [simp del]

text \<open>\<open>s.replace(pat, "")\<close> for a non-empty \<open>pat\<close>; the counter skips the matched text.\<close>

fun remove_all :: "string \<Rightarrow> nat \<Rightarrow> string \<Rightarrow> string" where
  "remove_all pat k [] = []"
| "remove_all pat (Suc k) (x # xs) = remove_all pat k xs"
| "remove_all pat 0 (x # xs) =
     (if pat \<noteq> [] \<and> prefix pat (x # xs) then remove_all pat (length pat - 1) xs
      else x # remove_all pat 0 xs)"

definition is_space :: "char \<Rightarrow> bool" where
  "is_space c = (c \<in> set [CHR '' '', CHR 0x09, CHR 0x0A, CHR 0x0B, CHR 0x0C, CHR 0x0D])"

text \<open>\<open>s.split()\<close>: the maximal runs of non-space characters; \<open>w\<close> is the current word, reversed.\<close>

fun py_split :: "string \<Rightarrow> string \<Rightarrow> string list" where
  "py_split w [] = (if w = [] then [] else [rev w])"
| "py_split w (c # cs) =
     (if is_space c then (if w = [] then py_split [] cs else rev w # py_split [] cs)
      else py_split (c # w) cs)"

text \<open>\<open>s.split()[-1]\<close>.\<close>

definition last_word :: "string \<Rightarrow> exn + string" where
  "last_word s = (case py_split [] s of [] \<Rightarrow> Inl IndexError | w # ws \<Rightarrow> Inr (last (w # ws)))"

definition set_edit_at :: "string \<Rightarrow> string" where
  \<open>set_edit_at message_edited_at =
     ''<span class="chatlog__reference-edited-timestamp" data-timestamp="'' @ message_edited_at
     @ ''">(edited)</span>''\<close>

definition gather_user_bot :: "env \<Rightarrow> User \<Rightarrow> string" where
  "gather_user_bot env a =
     (if user_bot a then (if verified_bot a then bot_tag_verified env else bot_tag env) else [])"


section \<open>State and effects\<close>

text \<open>
  Messages are objects: the list handed to the assembler, the map by id and the builder's
  \<open>message\<close> and \<open>previous_message\<close> all hold addresses into one heap, so an attribute
  written through one of them is seen through the others. The trace records the awaited
  calls on the collaborators, in order.
\<close>

datatype event = FetchMember nat | FetchMessage nat nat | FetchChannel nat | FillOut template

record state =
  heap :: "nat \<Rightarrow> Message"
  trace :: "event list"

text \<open>A computation returns a value and the next state, or raises.\<close>

type_synonym 'a io = "state \<Rightarrow> exn + 'a \<times> state"

definition io_return :: "'a \<Rightarrow> 'a io" where
  "io_return x = (\<lambda>s. Inr (x, s))"

definition io_raise :: "exn \<Rightarrow> 'a io" where
  "io_raise e = (\<lambda>s. Inl e)"

definition io_bind :: "'a io \<Rightarrow> ('a \<Rightarrow> 'b io) \<Rightarrow> 'b io" where
  "io_bind m f = (\<lambda>s. case m s of Inl e \<Rightarrow> Inl e | Inr (x, s') \<Rightarrow> f x s')"

definition io_lift :: "exn + 'a \<Rightarrow> 'a io" where
  "io_lift r = (\<lambda>s. case r of Inl e \<Rightarrow> Inl e | Inr x \<Rightarrow> Inr (x, s))"

definition read_message :: "nat \<Rightarrow> Message io" where
  "read_message a = (\<lambda>s. Inr (heap s a, s))"

definition set_content :: "nat \<Rightarrow> string \<Rightarrow> unit io" where
  "set_content a v = (\<lambda>s. Inr ((), s\<lparr>heap := (heap s)(a := (heap s a)\<lparr>content := v\<rparr>)\<rparr>))"

definition set_message_reference :: "nat \<Rightarrow> reference_slot \<Rightarrow> unit io" where
  "set_message_reference a v =
     (\<lambda>s. Inr ((), s\<lparr>heap := (heap s)(a := (heap s a)\<lparr>message_reference := v\<rparr>)\<rparr>))"

text \<open>
  A plain assignment \<open>message.message_reference = v\<close>, where the three functions above are
  \<open>object.__setattr__\<close>. The library's \<open>Message\<close> is an attrs class that converts what is
  assigned to this field (the comment at the head of \<open>build_reference\<close>: attrs will try to
  convert it): \<open>None\<close> and a reference pass, a string raises \<open>AttributeError\<close>.
\<close>

definition assign_message_reference :: "nat \<Rightarrow> reference_slot \<Rightarrow> unit io" where
  "assign_message_reference a v =
     (case v of
        NoReference \<Rightarrow> set_message_reference a NoReference
      | Reference r \<Rightarrow> set_message_reference a (Reference r)
      | ReferenceMarkup str \<Rightarrow> io_raise AttributeError)"

definition set_interaction :: "nat \<Rightarrow> interaction_slot \<Rightarrow> unit io" where
  "set_interaction a v =
     (\<lambda>s. Inr ((), s\<lparr>heap := (heap s)(a := (heap s a)\<lparr>interaction := v\<rparr>)\<rparr>))"

definition log_event :: "event \<Rightarrow> unit io" where
  "log_event ev = (\<lambda>s. Inr ((), s\<lparr>trace := trace s @ [ev]\<rparr>))"

definition await_fetch_member :: "env \<Rightarrow> nat \<Rightarrow> User option io" where
  "await_fetch_member env i = io_bind (log_event (FetchMember i)) (\<lambda>u. io_lift (fetch_member env i))"

definition await_fetch_message :: "env \<Rightarrow> nat \<Rightarrow> nat \<Rightarrow> Message option io" where
  "await_fetch_message env c i =
     io_bind (log_event (FetchMessage c i)) (\<lambda>u. io_lift (fetch_message env c i))"

definition await_fetch_channel :: "env \<Rightarrow> nat \<Rightarrow> nat option io" where
  "await_fetch_channel env c = io_bind (log_event (FetchChannel c)) (\<lambda>u. io_lift (fetch_channel env c))"

definition await_fill_out :: "env \<Rightarrow> template \<Rightarrow> substitution list \<Rightarrow> string io" where
  "await_fill_out env t subs = io_bind (log_event (FillOut t)) (\<lambda>u. io_return (fill_out env t subs))"

section \<open>The author colour and icon resolver\<close>

text \<open>
  Modelled from the spec: the order \<open>sorted\<close> puts role objects in is the library's and
  is missing from the sources. The spec gives it: by rank in the hierarchy, equal ranks
  by role id (so that the reversed list has the highest rank first, ties by id descending).
\<close>

definition role_key :: "Role \<Rightarrow> nat \<times> nat" where
  "role_key r = (position r, role_id r)"

definition sorted_roles :: "env \<Rightarrow> User \<Rightarrow> Role list" where
  "sorted_roles env member = sort_key role_key (filter (\<lambda>r. role_id r \<noteq> guild_id env) (roles member))"

text \<open>\<open>_gather_member\<close>: reading \<open>author.id\<close> of \<open>None\<close> raises.\<close>

definition gather_member :: "env \<Rightarrow> User option \<Rightarrow> User option io" where
  "gather_member env a =
     (case a of None \<Rightarrow> io_raise AttributeError | Some u \<Rightarrow> await_fetch_member env (user_id u))"

definition user_colour :: "env \<Rightarrow> User option \<Rightarrow> string" where
  "user_colour env member =
     (case member of
        None \<Rightarrow> ''#FFFFFF''
      | Some m \<Rightarrow>
          (let c = (case find (\<lambda>r. color_value (color r) \<noteq> 0) (rev (sorted_roles env m)) of
                      Some r \<Rightarrow> color r
                    | None \<Rightarrow> \<lparr>color_value = 0, hex = ''#000000''\<rparr>)
           in if hex c \<noteq> ''#000000'' then hex c else ''#FFFFFF''))"

definition gather_user_colour :: "env \<Rightarrow> User option \<Rightarrow> string io" where
  "gather_user_colour env a =
     io_bind (gather_member env a) (\<lambda>member. io_return (''color: '' @ user_colour env member @ '';''))"

definition user_icon :: "env \<Rightarrow> User option \<Rightarrow> string" where
  "user_icon env member =
     (case member of
        None \<Rightarrow> []
      | Some m \<Rightarrow>
          (case find (\<lambda>r. icon r \<noteq> None) (rev (sorted_roles env m)) of
             None \<Rightarrow> []
           | Some r \<Rightarrow>
               (let display_icon_url =
                      (case icon r of
                         Some (Asset url) \<Rightarrow> url
                       | Some (PartialEmoji i) \<Rightarrow> ''https://cdn.discordapp.com/emojis/'' @ str_nat i @ ''.png''
                       | None \<Rightarrow> [])
                in ''<img class='chatlog__role-icon' src='' @ [CHR 0x27] @ display_icon_url
                   @ ''' alt='Role Icon'>'')))"

definition gather_user_icon :: "env \<Rightarrow> User option \<Rightarrow> string io" where
  "gather_user_icon env a = io_bind (gather_member env a) (\<lambda>member. io_return (user_icon env member))"

section \<open>The message builder\<close>

text \<open>One entry of the per-author map (a seven-element list in the source; index 4 is the count).\<close>

record meta =
  meta_tag :: string
  meta_created_at :: datetime
  meta_bot :: string
  meta_avatar :: string
  meta_count :: nat
  meta_joined_at :: "datetime option"
  meta_display_name :: string

text \<open>
  The attributes of a \<open>MessageConstruct\<close>. Its accumulators \<open>embeds\<close>, \<open>reactions\<close>,
  \<open>components\<close> and \<open>attachments\<close> are \<open>self_embeds\<close> ... here, apart from the message's.
\<close>

record MessageConstruct =
  message :: nat
  previous_message :: "nat option"
  pytz_timezone :: string
  military_time :: bool
  message_dict :: "nat \<Rightarrow> nat option"
  time_format :: string
  message_created_at :: string
  message_edited_at :: string
  meta_data :: "nat \<Rightarrow> meta option"
  message_html :: string
  self_embeds :: string
  self_reactions :: string
  self_components :: string
  self_attachments :: string
  audit :: bool

text \<open>\<open>to_local_time_str\<close> tests the zone of \<open>self.message.created_at\<close>, whatever \<open>time\<close> is.\<close>

definition to_local_time_str :: "env \<Rightarrow> MessageConstruct \<Rightarrow> datetime \<Rightarrow> string io" where
  "to_local_time_str env self time =
     io_bind (read_message (message self)) (\<lambda>m.
     io_bind (if tzinfo (created_at m) = None then io_lift (localize time) else io_return time) (\<lambda>time'.
     io_return (strftime env (time_format self) (astimezone env (pytz_timezone self) time'))))"

definition set_time :: "env \<Rightarrow> MessageConstruct \<Rightarrow> Message \<Rightarrow> (string \<times> string) io" where
  "set_time env self msg =
     io_bind (to_local_time_str env self (created_at msg)) (\<lambda>created_at_str.
     io_bind (case edited_timestamp msg of
                None \<Rightarrow> io_return []
              | Some e \<Rightarrow> to_local_time_str env self e) (\<lambda>edited_at_str.
     io_return (created_at_str, edited_at_str)))"

text \<open>\<open>MessageConstruct.__init__\<close>; the guild is part of \<open>env\<close>.\<close>

definition MessageConstruct_init ::
  "env \<Rightarrow> nat \<Rightarrow> nat option \<Rightarrow> string \<Rightarrow> bool \<Rightarrow> (nat \<Rightarrow> meta option) \<Rightarrow> (nat \<Rightarrow> nat option)
   \<Rightarrow> MessageConstruct io" where
  "MessageConstruct_init env msg prev tz mil md dict =
     (let self = \<lparr>message = msg, previous_message = prev, pytz_timezone = tz, military_time = mil,
                  message_dict = dict,
                  time_format = (if mil then ''%A, %e %B %Y %H:%M'' else ''%A, %e %B %Y %I:%M %p''),
                  message_created_at = [], message_edited_at = [], meta_data = md,
                  message_html = [], self_embeds = [], self_reactions = [],
                  self_components = [], self_attachments = [], audit = False\<rparr>
      in io_bind (read_message msg) (\<lambda>m.
         io_bind (set_time env self m) (\<lambda>(c, e).
         io_return (self\<lparr>message_created_at := c, message_edited_at := e\<rparr>))))"

definition build_meta_data :: "env \<Rightarrow> MessageConstruct \<Rightarrow> MessageConstruct io" where
  \<open>build_meta_data env self =
     io_bind (read_message (message self)) (\<lambda>m.
       (let a = author m; uid = user_id a in
        case meta_data self uid of
          Some entry \<Rightarrow>
            io_return (self\<lparr>meta_data := (meta_data self)(uid \<mapsto> entry\<lparr>meta_count := meta_count entry + 1\<rparr>)\<rparr>)
        | None \<Rightarrow>
            io_return (self\<lparr>meta_data := (meta_data self)(uid \<mapsto>
              \<lparr>meta_tag = tag a, meta_created_at = user_created_at a,
               meta_bot = gather_user_bot env a, meta_avatar = avatar_url a, meta_count = 1,
               meta_joined_at = joined_at a,
               meta_display_name =
                 (if display_name a \<noteq> username a
                  then ''<div class="meta__display-name">'' @ display_name a @ ''</div>''
                  else [])\<rparr>)\<rparr>)))\<close>

definition build_content :: "env \<Rightarrow> MessageConstruct \<Rightarrow> MessageConstruct io" where
  "build_content env self =
     io_bind (read_message (message self)) (\<lambda>m.
       if content m = [] then io_bind (set_content (message self) []) (\<lambda>u. io_return self)
       else
         (let self' = (if message_edited_at self \<noteq> []
                       then self\<lparr>message_edited_at := set_edit_at (message_edited_at self)\<rparr>
                       else self)
          in io_bind (set_content (message self) (html_escape (content m))) (\<lambda>u.
             io_bind (await_fill_out env message_content
                        [(''MESSAGE_CONTENT'', html_escape (content m), Some PARSE_MODE_MARKDOWN),
                         (''EDIT'', message_edited_at self', Some PARSE_MODE_NONE)]) (\<lambda>c.
             io_bind (set_content (message self) c) (\<lambda>u. io_return self')))))"

text \<open>
  \<open>build_reference\<close> from the line \<open>is_bot = ...\<close> on: \<open>msg\<close> is the referenced message,
  \<open>loc\<close> its address when it came from the map by id (a fetched one is a fresh object), so
  that the assignment to \<open>message.content\<close> reaches the heap.
\<close>

definition reference_banner ::
  "env \<Rightarrow> MessageConstruct \<Rightarrow> MessageReference \<Rightarrow> Message \<Rightarrow> nat option \<Rightarrow> MessageConstruct io" where
  "reference_banner env self r msg loc =
     (let is_bot = gather_user_bot env (author msg) in
      io_bind (gather_user_colour env (Some (author msg))) (\<lambda>user_colour.
        (let content' =
               (if content msg = [] \<and> \<not> interaction_truthy (interaction msg) then ''Click to see attachment''
                else if content msg = [] \<and> interaction_truthy (interaction msg) then ''Click to see command''
                else content msg);
             icon' =
               (if \<not> interaction_truthy (interaction msg) \<and> (embeds msg \<noteq> [] \<or> attachments msg \<noteq> [])
                then reference_attachment_icon env
                else if interaction_truthy (interaction msg) then interaction_command_icon env
                else [])
         in io_bind (case loc of Some b \<Rightarrow> set_content b content' | None \<Rightarrow> io_return ()) (\<lambda>u.
            io_bind (set_time env self msg) (\<lambda>(c, e).
              (let edited = (if e \<noteq> [] then set_edit_at e else e) in
               io_bind (await_fill_out env message_reference_template
                          [(''AVATAR_URL'', avatar_url (author msg), Some PARSE_MODE_NONE),
                           (''BOT_TAG'', is_bot, Some PARSE_MODE_NONE),
                           (''NAME_TAG'', tag (author msg), Some PARSE_MODE_NONE),
                           (''NAME'', html_escape (display_name (author msg)), None),
                           (''USER_COLOUR'', user_colour, Some PARSE_MODE_NONE),
                           (''CONTENT'', remove_all ''<br>'' 0 (remove_all [CHR 0x0A] 0 content'),
                            Some PARSE_MODE_REFERENCE),
                           (''EDIT'', edited, Some PARSE_MODE_NONE),
                           (''ICON'', icon', Some PARSE_MODE_NONE),
                           (''USER_ID'', str_nat (user_id (author msg)), Some PARSE_MODE_NONE),
                           (''MESSAGE_ID'', str_nat (ref_message_id r), Some PARSE_MODE_NONE)])
                 (\<lambda>new_reference.
               io_bind (set_message_reference (message self) (ReferenceMarkup new_reference)) (\<lambda>u.
               io_return self))))))))"

definition build_reference :: "env \<Rightarrow> MessageConstruct \<Rightarrow> MessageConstruct io" where
  "build_reference env self =
     io_bind (read_message (message self)) (\<lambda>m.
       case message_reference m of
         NoReference \<Rightarrow>
           io_bind (set_message_reference (message self) (ReferenceMarkup [])) (\<lambda>u. io_return self)
       | ReferenceMarkup str \<Rightarrow>
           if str = []
           then io_bind (set_message_reference (message self) (ReferenceMarkup [])) (\<lambda>u. io_return self)
           else io_raise AttributeError
       | Reference r \<Rightarrow>
           (case message_dict self (ref_message_id r) of
              Some b \<Rightarrow> io_bind (read_message b) (\<lambda>msg. reference_banner env self r msg (Some b))
            | None \<Rightarrow>
                io_bind (log_event (FetchMessage (channel_id m) (ref_message_id r))) (\<lambda>u.
                  case fetch_message env (channel_id m) (ref_message_id r) of
                    Inl e \<Rightarrow>
                      if is_HTTPException e
                      then io_bind (set_message_reference (message self) (ReferenceMarkup [])) (\<lambda>u.
                           io_bind (if e = NotFound
                                    then assign_message_reference (message self)
                                           (ReferenceMarkup (message_reference_unknown env))
                                    else io_return ()) (\<lambda>u.
                           io_return self))
                      else io_raise e
                  | Inr None \<Rightarrow> io_raise AttributeError
                  | Inr (Some msg) \<Rightarrow> reference_banner env self r msg None)))"

definition build_interaction :: "env \<Rightarrow> MessageConstruct \<Rightarrow> MessageConstruct io" where
  "build_interaction env self =
     io_bind (read_message (message self)) (\<lambda>m.
       case interaction m of
         NoInteraction \<Rightarrow>
           io_bind (set_interaction (message self) (InteractionMarkup [])) (\<lambda>u. io_return self)
       | InteractionMarkup str \<Rightarrow>
           if str = []
           then io_bind (set_interaction (message self) (InteractionMarkup [])) (\<lambda>u. io_return self)
           else io_raise AttributeError
       | Interaction i \<Rightarrow>
           (let user = interaction_user i; is_bot = gather_user_bot env user in
            io_bind (gather_user_colour env (Some user)) (\<lambda>user_colour.
            io_bind (await_fill_out env message_interaction
                       [(''AVATAR_URL'', avatar_url user, Some PARSE_MODE_NONE),
                        (''BOT_TAG'', is_bot, Some PARSE_MODE_NONE),
                        (''NAME_TAG'', tag user, Some PARSE_MODE_NONE),
                        (''NAME'', html_escape (display_name user), None),
                        (''USER_COLOUR'', user_colour, Some PARSE_MODE_NONE),
                        (''FILLER'', ''used '', Some PARSE_MODE_NONE),
                        (''COMMAND'', ''/'' @ interaction_name i, Some PARSE_MODE_NONE),
                        (''USER_ID'', str_nat (user_id user), Some PARSE_MODE_NONE),
                        (''INTERACTION_ID'', str_nat (interaction_id i), Some PARSE_MODE_NONE)])
              (\<lambda>new_interaction.
            io_bind (set_interaction (message self) (InteractionMarkup new_interaction)) (\<lambda>u.
            io_return self)))))"

definition build_assets :: "env \<Rightarrow> MessageConstruct \<Rightarrow> MessageConstruct io" where
  \<open>build_assets env self =
     io_bind (read_message (message self)) (\<lambda>m.
       (let e = self_embeds self @ concat (map (embed_flow env) (embeds m));
            a = self_attachments self @ concat (map (attachment_flow env) (attachments m));
            c = self_components self @ concat (map (component_flow env) (components m));
            r = self_reactions self @ concat (map (reaction_flow env) (reactions m));
            r' = (if r \<noteq> [] then ''<div class="chatlog__reactions">'' @ r @ ''</div>'' else r)
        in io_return (self\<lparr>self_embeds := e, self_attachments := a, self_components := c,
                           self_reactions := r'\<rparr>)))\<close>

text \<open>
  \<open>_generate_message_divider_check\<close>: the disjuncts in the order of the source; only the
  last one can raise, and only when all before it are false.
\<close>

definition generate_message_divider_check :: "MessageConstruct \<Rightarrow> bool io" where
  "generate_message_divider_check self =
     io_bind (read_message (message self)) (\<lambda>m.
       case previous_message self of
         None \<Rightarrow> io_return True
       | Some p \<Rightarrow>
           io_bind (read_message p) (\<lambda>pm.
             if message_reference m \<noteq> ReferenceMarkup []
                \<or> msg_type pm \<noteq> DEFAULT
                \<or> interaction m \<noteq> InteractionMarkup []
                \<or> user_id (author pm) \<noteq> user_id (author m)
                \<or> webhook_id m \<noteq> None
             then io_return True
             else io_lift (datetime_gt (created_at m) (add_timedelta (created_at pm) four_minutes))))"

text \<open>
  \<open>self.message.message_reference or self.message.interaction\<close>, handed to the template
  engine. When the header is built both attributes already hold markup; what the engine
  does with another value is not in the sources, and the model raises there.
\<close>

definition reference_or_interaction :: "Message \<Rightarrow> exn + string" where
  "reference_or_interaction m =
     (case message_reference m of
        Reference r \<Rightarrow> Inl TypeError
      | ReferenceMarkup s \<Rightarrow>
          if s \<noteq> [] then Inr s
          else (case interaction m of InteractionMarkup t \<Rightarrow> Inr t
                | NoInteraction \<Rightarrow> Inl TypeError | Interaction i \<Rightarrow> Inl TypeError)
      | NoReference \<Rightarrow>
          (case interaction m of InteractionMarkup t \<Rightarrow> Inr t
           | NoInteraction \<Rightarrow> Inl TypeError | Interaction i \<Rightarrow> Inl TypeError))"

text \<open>
  \<open>generate_message_divider\<close> returns \<open>True\<close> after a header and \<open>None\<close> otherwise;
  the model returns the truth value the caller tests.
\<close>

text \<open>The value of \<open>default_timestamp\<close> in \<open>generate_message_divider\<close>.\<close>

definition default_timestamp :: "env \<Rightarrow> MessageConstruct \<Rightarrow> Message \<Rightarrow> string io" where
  "default_timestamp env self m =
     io_bind (if tzinfo (created_at m) = None then io_lift (localize (created_at m))
              else io_return (created_at m)) (\<lambda>time.
     io_return (strftime env ''%d-%m-%Y %H:%M'' (astimezone env (pytz_timezone self) time)))"

definition generate_message_divider :: "env \<Rightarrow> bool \<Rightarrow> MessageConstruct \<Rightarrow> (bool \<times> MessageConstruct) io" where
  "generate_message_divider env channel_audit self =
     io_bind (if channel_audit then io_return True else generate_message_divider_check self) (\<lambda>b.
       if \<not> b then io_return (False, self)
       else
         io_bind (case previous_message self of
                    None \<Rightarrow> io_return self
                  | Some p \<Rightarrow>
                      io_bind (await_fill_out env end_message []) (\<lambda>h.
                      io_return (self\<lparr>message_html := message_html self @ h\<rparr>))) (\<lambda>self.
           if channel_audit then io_return (False, self\<lparr>audit := True\<rparr>)
           else
             io_bind (read_message (message self)) (\<lambda>m.
               (let is_bot = gather_user_bot env (author m);
                    followup_symbol =
                      (if message_reference m \<noteq> ReferenceMarkup [] \<or> interaction_truthy (interaction m)
                       then ''<div class='chatlog__followup-symbol'></div>'' else [])
                in io_bind (default_timestamp env self m) (\<lambda>default_timestamp.
                   (io_bind (io_lift (reference_or_interaction m)) (\<lambda>reference.
                       io_bind (gather_user_colour env (Some (author m))) (\<lambda>colour.
                       io_bind (gather_user_icon env (Some (author m))) (\<lambda>user_icon.
                       io_bind (await_fill_out env start_message
                                  [(''REFERENCE_SYMBOL'', followup_symbol, Some PARSE_MODE_NONE),
                                   (''REFERENCE'', reference, Some PARSE_MODE_NONE),
                                   (''AVATAR_URL'', avatar_url (author m), Some PARSE_MODE_NONE),
                                   (''NAME_TAG'', tag (author m), Some PARSE_MODE_NONE),
                                   (''USER_ID'', str_nat (user_id (author m)), None),
                                   (''USER_COLOUR'', colour, None),
                                   (''USER_ICON'', user_icon, Some PARSE_MODE_NONE),
                                   (''NAME'', html_escape (display_name (author m)), None),
                                   (''BOT_TAG'', is_bot, Some PARSE_MODE_NONE),
                                   (''TIMESTAMP'', message_created_at self, None),
                                   (''DEFAULT_TIMESTAMP'', default_timestamp, Some PARSE_MODE_NONE),
                                   (''MESSAGE_ID'', str_nat (msg_id m), None),
                                   (''MESSAGE_CONTENT'', content m, Some PARSE_MODE_NONE),
                                   (''EMBEDS'', self_embeds self, Some PARSE_MODE_NONE),
                                   (''ATTACHMENTS'', self_attachments self, Some PARSE_MODE_NONE),
                                   (''COMPONENTS'', self_components self, Some PARSE_MODE_NONE),
                                   (''EMOJI'', self_reactions self, Some PARSE_MODE_NONE)]) (\<lambda>h.
                       io_return (True, self\<lparr>message_html := message_html self @ h\<rparr>)))))))))))"

definition build_message_template :: "env \<Rightarrow> MessageConstruct \<Rightarrow> MessageConstruct io" where
  "build_message_template env self =
     io_bind (generate_message_divider env False self) (\<lambda>(started, self).
       if started then io_return self
       else
         io_bind (read_message (message self)) (\<lambda>m.
         io_bind (io_lift (last_word (message_created_at self))) (\<lambda>time.
         io_bind (await_fill_out env message_body
                    [(''MESSAGE_ID'', str_nat (msg_id m), None),
                     (''MESSAGE_CONTENT'', content m, Some PARSE_MODE_NONE),
                     (''EMBEDS'', self_embeds self, Some PARSE_MODE_NONE),
                     (''ATTACHMENTS'', self_attachments self, Some PARSE_MODE_NONE),
                     (''COMPONENTS'', self_components self, Some PARSE_MODE_NONE),
                     (''EMOJI'', self_reactions self, Some PARSE_MODE_NONE),
                     (''TIMESTAMP'', message_created_at self, Some PARSE_MODE_NONE),
                     (''TIME'', time, Some PARSE_MODE_NONE)]) (\<lambda>h.
         io_return (self\<lparr>message_html := message_html self @ h\<rparr>)))))"

definition build_pin_template :: "env \<Rightarrow> MessageConstruct \<Rightarrow> MessageConstruct io" where
  "build_pin_template env self =
     io_bind (read_message (message self)) (\<lambda>m.
     io_bind (gather_user_colour env (Some (author m))) (\<lambda>colour.
       case message_reference m of
         Reference r \<Rightarrow>
           io_bind (await_fill_out env message_pin
                      [(''PIN_URL'', pinned_message_icon env, Some PARSE_MODE_NONE),
                       (''USER_COLOUR'', colour, None),
                       (''NAME'', html_escape (display_name (author m)), None),
                       (''NAME_TAG'', tag (author m), Some PARSE_MODE_NONE),
                       (''MESSAGE_ID'', str_nat (msg_id m), Some PARSE_MODE_NONE),
                       (''REF_MESSAGE_ID'', str_nat (ref_message_id r), Some PARSE_MODE_NONE)]) (\<lambda>h.
           io_return (self\<lparr>message_html := message_html self @ h\<rparr>))
       | NoReference \<Rightarrow> io_raise AttributeError
       | ReferenceMarkup s \<Rightarrow> io_raise AttributeError))"

definition build_thread_template :: "env \<Rightarrow> MessageConstruct \<Rightarrow> MessageConstruct io" where
  "build_thread_template env self =
     io_bind (read_message (message self)) (\<lambda>m.
     io_bind (gather_user_colour env (Some (author m))) (\<lambda>colour.
     io_bind (await_fill_out env message_thread
                [(''THREAD_URL'', thread_channel_icon env, Some PARSE_MODE_NONE),
                 (''THREAD_NAME'', content m, Some PARSE_MODE_NONE),
                 (''USER_COLOUR'', colour, None),
                 (''NAME'', html_escape (display_name (author m)), None),
                 (''NAME_TAG'', tag (author m), Some PARSE_MODE_NONE),
                 (''MESSAGE_ID'', str_nat (msg_id m), Some PARSE_MODE_NONE)]) (\<lambda>h.
     io_return (self\<lparr>message_html := message_html self @ h\<rparr>))))"

text \<open>
  \<open>build_remove\<close> and \<open>build_add\<close> differ in the template and the icon only, which
  \<open>build_recipient\<close> takes as arguments.
\<close>

definition build_recipient :: "template \<Rightarrow> string \<Rightarrow> env \<Rightarrow> MessageConstruct \<Rightarrow> MessageConstruct io" where
  "build_recipient t url env self =
     io_bind (read_message (message self)) (\<lambda>m.
       case mention_ids m of
         [] \<Rightarrow> io_raise IndexError
       | i # rest \<Rightarrow>
           io_bind (await_fetch_member env i) (\<lambda>removed_member.
           io_bind (gather_user_colour env (Some (author m))) (\<lambda>colour.
           io_bind (gather_user_colour env removed_member) (\<lambda>recipient_colour.
             case removed_member of
               None \<Rightarrow> io_raise AttributeError
             | Some rm \<Rightarrow>
                 io_bind (await_fill_out env t
                            [(''THREAD_URL'', url, Some PARSE_MODE_NONE),
                             (''USER_COLOUR'', colour, None),
                             (''NAME'', html_escape (display_name (author m)), None),
                             (''NAME_TAG'', tag (author m), Some PARSE_MODE_NONE),
                             (''RECIPIENT_USER_COLOUR'', recipient_colour, None),
                             (''RECIPIENT_NAME'', html_escape (display_name rm), None),
                             (''RECIPIENT_NAME_TAG'', tag rm, Some PARSE_MODE_NONE),
                             (''MESSAGE_ID'', str_nat (msg_id m), Some PARSE_MODE_NONE)]) (\<lambda>h.
                 io_return (self\<lparr>message_html := message_html self @ h\<rparr>))))))"

definition build_remove :: "env \<Rightarrow> MessageConstruct \<Rightarrow> MessageConstruct io" where
  "build_remove env self = build_recipient message_thread_remove (thread_remove_recipient env) env self"

definition build_add :: "env \<Rightarrow> MessageConstruct \<Rightarrow> MessageConstruct io" where
  "build_add env self = build_recipient message_thread_add (thread_add_recipient env) env self"

definition build_message :: "env \<Rightarrow> MessageConstruct \<Rightarrow> MessageConstruct io" where
  "build_message env self =
     io_bind (build_content env self) (\<lambda>self.
     io_bind (build_reference env self) (\<lambda>self.
     io_bind (build_interaction env self) (\<lambda>self.
     io_bind (build_assets env self) (\<lambda>self.
     io_bind (build_message_template env self) (\<lambda>self.
     build_meta_data env self)))))"

definition build_pin :: "env \<Rightarrow> MessageConstruct \<Rightarrow> MessageConstruct io" where
  "build_pin env self =
     io_bind (generate_message_divider env True self) (\<lambda>(started, self). build_pin_template env self)"

definition build_thread :: "env \<Rightarrow> MessageConstruct \<Rightarrow> MessageConstruct io" where
  "build_thread env self =
     io_bind (generate_message_divider env True self) (\<lambda>(started, self). build_thread_template env self)"

definition build_thread_remove :: "env \<Rightarrow> MessageConstruct \<Rightarrow> MessageConstruct io" where
  "build_thread_remove env self =
     io_bind (generate_message_divider env True self) (\<lambda>(started, self). build_remove env self)"

definition build_thread_add :: "env \<Rightarrow> MessageConstruct \<Rightarrow> MessageConstruct io" where
  "build_thread_add env self =
     io_bind (generate_message_divider env True self) (\<lambda>(started, self). build_add env self)"

definition construct_message :: "env \<Rightarrow> MessageConstruct \<Rightarrow> (string \<times> (nat \<Rightarrow> meta option)) io" where
  "construct_message env self =
     io_bind (read_message (message self)) (\<lambda>m.
     io_bind (if msg_type m = CHANNEL_PINNED_MESSAGE then build_pin env self
              else if msg_type m = THREAD_CREATED then build_thread env self
              else if msg_type m = RECIPIENT_REMOVE then build_thread_remove env self
              else if msg_type m = RECIPIENT_ADD then build_thread_add env self
              else build_message env self) (\<lambda>self.
     io_return (message_html self, meta_data self)))"

section \<open>The transcript assembler\<close>

text \<open>\<open>{message.id: message for message in messages}\<close>: a later entry replaces an earlier one.\<close>

definition make_message_dict :: "(nat \<Rightarrow> Message) \<Rightarrow> nat list \<Rightarrow> nat \<Rightarrow> nat option" where
  "make_message_dict h messages = map_of (rev (map (\<lambda>a. (msg_id (h a), a)) messages))"

text \<open>The address of the object a fetch creates: none of the list's.\<close>

definition fresh_address :: "nat list \<Rightarrow> nat" where
  "fresh_address messages = Suc (fold max messages 0)"

text \<open>The loop of \<open>gather_messages\<close>.\<close>

fun gather_loop ::
  "env \<Rightarrow> string \<Rightarrow> bool \<Rightarrow> (nat \<Rightarrow> nat option) \<Rightarrow> nat list \<Rightarrow> nat option \<Rightarrow> string
   \<Rightarrow> (nat \<Rightarrow> meta option) \<Rightarrow> (string \<times> (nat \<Rightarrow> meta option)) io" where
  "gather_loop env tz mil dict [] previous html md = io_return (html, md)"
| "gather_loop env tz mil dict (a # rest) previous html md =
     io_bind (MessageConstruct_init env a previous tz mil md dict) (\<lambda>self.
     io_bind (construct_message env self) (\<lambda>(content_html, md').
     gather_loop env tz mil dict rest (Some a) (html @ content_html) md'))"

text \<open>
  The replacement of the first message of a thread by its parent: \<open>messages[0] = message\<close>
  puts the fetched object in the list, and its \<open>message_reference\<close> is set to \<open>None\<close>.
\<close>

definition thread_parent :: "env \<Rightarrow> nat list \<Rightarrow> nat list io" where
  "thread_parent env messages =
     (case messages of
        [] \<Rightarrow> io_raise IndexError
      | a # rest \<Rightarrow>
          io_bind (read_message a) (\<lambda>m.
            if sublist ''thread'' (channel_type m) \<and> reference_truthy (message_reference m) then
              (case message_reference m of
                 Reference r \<Rightarrow>
                   io_bind (await_fetch_channel env (ref_channel_id r)) (\<lambda>channel.
                     case channel of
                       None \<Rightarrow> io_raise AttributeError
                     | Some c \<Rightarrow>
                         io_bind (await_fetch_message env c (ref_message_id r)) (\<lambda>fetched.
                           case fetched of
                             None \<Rightarrow> io_raise AttributeError
                           | Some parent \<Rightarrow>
                               (\<lambda>s. Inr (fresh_address messages # rest,
                                          s\<lparr>heap := (heap s)(fresh_address messages :=
                                                      parent\<lparr>message_reference := NoReference\<rparr>)\<rparr>))))
               | ReferenceMarkup str \<Rightarrow> io_raise AttributeError
               | NoReference \<Rightarrow> io_return messages)
            else io_return messages))"

text \<open>
  \<open>gather_messages\<close>: the list of message objects is in the state's heap; the result
  carries the list as the caller finds it afterwards.
\<close>

definition gather_messages ::
  "env \<Rightarrow> nat list \<Rightarrow> string \<Rightarrow> bool \<Rightarrow> ((string \<times> (nat \<Rightarrow> meta option)) \<times> nat list) io" where
  "gather_messages env messages tz mil =
     (\<lambda>s. (let message_dict = make_message_dict (heap s) messages in
           io_bind (thread_parent env messages) (\<lambda>messages'.
           io_bind (gather_loop env tz mil message_dict messages' None [] Map.empty) (\<lambda>(message_html, md).
           io_return ((message_html @ ''</div>'', md), messages'))) s))"

section \<open>Observations on a run\<close>

text \<open>
  The value of \<open>started\<close> in \<open>build_message_template\<close> when \<open>build_message\<close> runs: the
  steps of \<open>build_message\<close> up to the call of \<open>generate_message_divider\<close>.
\<close>

definition starts_new_block :: "env \<Rightarrow> MessageConstruct \<Rightarrow> bool io" where
  "starts_new_block env self =
     io_bind (build_content env self) (\<lambda>self.
     io_bind (build_reference env self) (\<lambda>self.
     io_bind (build_interaction env self) (\<lambda>self.
     io_bind (build_assets env self) (\<lambda>self.
     io_bind (generate_message_divider env False self) (\<lambda>(started, self).
     io_return started)))))"

text \<open>The reply-reference of \<open>m\<close> is one that \<open>build_reference\<close> clears after a failed fetch.\<close>

definition reference_cleared :: "env \<Rightarrow> MessageConstruct \<Rightarrow> Message \<Rightarrow> bool" where
  "reference_cleared env self m =
     (case message_reference m of
        Reference r \<Rightarrow>
          message_dict self (ref_message_id r) = None
          \<and> fetch_message env (channel_id m) (ref_message_id r) = Inl HTTPException
      | NoReference \<Rightarrow> False
      | ReferenceMarkup s \<Rightarrow> False)"

text \<open>The banners the engine renders are not the empty string.\<close>

definition banners_nonempty :: "env \<Rightarrow> bool" where
  "banners_nonempty env =
     ((\<forall>subs. fill_out env message_reference_template subs \<noteq> [])
      \<and> (\<forall>subs. fill_out env message_interaction subs \<noteq> []))"

text \<open>The four notice types, which \<open>construct_message\<close> builds with \<open>channel_audit=True\<close>.\<close>

definition notice_type :: "message_type \<Rightarrow> bool" where
  "notice_type t =
     (t = CHANNEL_PINNED_MESSAGE \<or> t = THREAD_CREATED \<or> t = RECIPIENT_REMOVE \<or> t = RECIPIENT_ADD)"

text \<open>The template of the line a notice is shown as.\<close>

definition notice_template :: "message_type \<Rightarrow> template" where
  "notice_template t =
     (case t of
        CHANNEL_PINNED_MESSAGE \<Rightarrow> message_pin
      | THREAD_CREATED \<Rightarrow> message_thread
      | RECIPIENT_REMOVE \<Rightarrow> message_thread_remove
      | RECIPIENT_ADD \<Rightarrow> message_thread_add
      | DEFAULT \<Rightarrow> message_body
      | OTHER_MESSAGE_TYPE n \<Rightarrow> message_body)"

text \<open>
  The markup \<open>self'\<close> has gathered is that of \<open>self\<close>, then the closing fragment if \<open>close\<close>,
  then what the engine made of the template \<open>t\<close>.
\<close>

definition appended :: "env \<Rightarrow> bool \<Rightarrow> template \<Rightarrow> MessageConstruct \<Rightarrow> MessageConstruct \<Rightarrow> bool" where
  "appended env close t self self' =
     (\<exists>subs. message_html self' =
        message_html self @ (if close then fill_out env end_message [] else []) @ fill_out env t subs)"

text \<open>
  Two messages agree on every attribute but \<open>content\<close>, \<open>message_reference\<close> and
  \<open>interaction\<close>; two states do when the messages at every address do.
\<close>

definition same_identity :: "Message \<Rightarrow> Message \<Rightarrow> bool" where
  "same_identity m m' =
     (msg_id m' = msg_id m \<and> author m' = author m \<and> created_at m' = created_at m
      \<and> edited_timestamp m' = edited_timestamp m \<and> msg_type m' = msg_type m
      \<and> embeds m' = embeds m \<and> attachments m' = attachments m \<and> components m' = components m
      \<and> reactions m' = reactions m \<and> webhook_id m' = webhook_id m
      \<and> mention_ids m' = mention_ids m \<and> channel_id m' = channel_id m
      \<and> channel_type m' = channel_type m)"

definition frame :: "state \<Rightarrow> state \<Rightarrow> bool" where
  "frame s s' = (\<forall>a. same_identity (heap s a) (heap s' a))"

text \<open>How often the trace holds an event that satisfies \<open>P\<close>.\<close>

definition occurrences :: "(event \<Rightarrow> bool) \<Rightarrow> state \<Rightarrow> nat" where
  "occurrences P s = length (filter P (trace s))"

definition is_end_message :: "event \<Rightarrow> bool" where
  "is_end_message ev = (ev = FillOut end_message)"

definition is_start_message :: "event \<Rightarrow> bool" where
  "is_start_message ev = (ev = FillOut start_message)"

definition is_fetch_message :: "event \<Rightarrow> bool" where
  "is_fetch_message ev = (case ev of FetchMessage c i \<Rightarrow> True | FetchMember i \<Rightarrow> False
                          | FetchChannel c \<Rightarrow> False | FillOut t \<Rightarrow> False)"

text \<open>The count an author has in the per-author map (none without an entry).\<close>

definition message_count :: "(nat \<Rightarrow> meta option) \<Rightarrow> nat \<Rightarrow> nat" where
  "message_count md uid = (case md uid of None \<Rightarrow> 0 | Some entry \<Rightarrow> meta_count entry)"

text \<open>The messages of a list that \<open>uid\<close> wrote, all of them and those that are no notice.\<close>

definition authored :: "(nat \<Rightarrow> Message) \<Rightarrow> nat \<Rightarrow> nat list \<Rightarrow> nat list" where
  "authored h uid messages = filter (\<lambda>a. user_id (author (h a)) = uid) messages"

definition authored_plain :: "(nat \<Rightarrow> Message) \<Rightarrow> nat \<Rightarrow> nat list \<Rightarrow> nat list" where
  "authored_plain h uid messages =
     filter (\<lambda>a. user_id (author (h a)) = uid \<and> \<not> notice_type (msg_type (h a))) messages"

text \<open>
  The value a timestamp stands for when it is rendered: itself when it carries a time
  zone, and its reading in UTC when it carries none.
\<close>

definition utc_if_naive :: "datetime \<Rightarrow> datetime" where
  "utc_if_naive t = (case tzinfo t of None \<Rightarrow> t\<lparr>tzinfo := Some 0\<rparr> | Some off \<Rightarrow> t)"

text \<open>The text a timestamp is rendered as, in the builder's zone and a given format.\<close>

definition rendered :: "env \<Rightarrow> MessageConstruct \<Rightarrow> string \<Rightarrow> datetime \<Rightarrow> string" where
  "rendered env self fmt t = strftime env fmt (astimezone env (pytz_timezone self) (utc_if_naive t))"

text \<open>
  The timestamps of \<open>msg\<close> carry a time zone exactly when the creation timestamp of \<open>m\<close>
  does. The library derives every timestamp of a message from its data with a time zone,
  so any two of its messages agree in this.
\<close>

definition same_clock :: "Message \<Rightarrow> Message \<Rightarrow> bool" where
  "same_clock m msg =
     ((tzinfo (created_at msg) = None) = (tzinfo (created_at m) = None)
      \<and> (case edited_timestamp msg of
           None \<Rightarrow> True
         | Some e \<Rightarrow> (tzinfo e = None) = (tzinfo (created_at m) = None)))"

text \<open>The roles of a member that count for the colour: not the guild's default role, and coloured.\<close>

definition coloured_roles :: "env \<Rightarrow> User \<Rightarrow> Role list" where
  "coloured_roles env m =
     filter (\<lambda>r. role_id r \<noteq> guild_id env \<and> color_value (color r) \<noteq> 0) (roles m)"

text \<open>
  What a run leaves alone: \<open>steady P s s'\<close> when \<open>s'\<close> differs from \<open>s\<close> in the three
  attributes at most and has the same events that satisfy \<open>P\<close>; \<open>io_keeps R m\<close> when
  every returning run of \<open>m\<close> relates its first state to its last by \<open>R\<close>.
\<close>

definition steady :: "(event \<Rightarrow> bool) \<Rightarrow> state \<Rightarrow> state \<Rightarrow> bool" where
  "steady P s s' = (frame s s' \<and> filter P (trace s') = filter P (trace s))"

definition io_keeps :: "(state \<Rightarrow> state \<Rightarrow> bool) \<Rightarrow> 'a io \<Rightarrow> bool" where
  "io_keeps R m = (\<forall>s x s'. m s = Inr (x, s') \<longrightarrow> R s s')"

text \<open>
  \<open>io_yields Q m\<close> when every value \<open>m\<close> returns satisfies \<open>Q\<close>; \<open>same_builder\<close> relates
  a builder to one that differs from it in the markup it has gathered at most.
\<close>

definition io_yields :: "('a \<Rightarrow> bool) \<Rightarrow> 'a io \<Rightarrow> bool" where
  "io_yields Q m = (\<forall>s x s'. m s = Inr (x, s') \<longrightarrow> Q x)"

definition same_builder :: "MessageConstruct \<Rightarrow> MessageConstruct \<Rightarrow> bool" where
  "same_builder self self' =
     (message self' = message self \<and> previous_message self' = previous_message self
      \<and> pytz_timezone self' = pytz_timezone self \<and> military_time self' = military_time self
      \<and> message_dict self' = message_dict self \<and> time_format self' = time_format self
      \<and> message_created_at self' = message_created_at self \<and> meta_data self' = meta_data self)"

text \<open>Every entry of a per-author map counts at least one message.\<close>

definition counts_positive :: "(nat \<Rightarrow> meta option) \<Rightarrow> bool" where
  "counts_positive md = (\<forall>uid. md uid = None \<or> 0 < message_count md uid)"

section \<open>A small guild\<close>

definition utc :: "int \<Rightarrow> datetime" where
  "utc t = \<lparr>wall = t * 1000000, tzinfo = Some 0\<rparr>"

definition plain_user :: "nat \<Rightarrow> string \<Rightarrow> User" where
  "plain_user i name =
     \<lparr>user_id = i, username = name, display_name = name, tag = name, user_bot = False,
      verified_bot = False, avatar_url = ''a.png'', user_created_at = utc 0, joined_at = None,
      roles = []\<rparr>"

definition red :: Role where
  "red = \<lparr>role_id = 5, position = 2, color = \<lparr>color_value = 16711680, hex = ''#ff0000''\<rparr>, icon = None\<rparr>"

definition blue :: Role where
  "blue = \<lparr>role_id = 6, position = 2, color = \<lparr>color_value = 255, hex = ''#0000ff''\<rparr>, icon = None\<rparr>"

definition plain_role :: Role where
  "plain_role = \<lparr>role_id = 7, position = 3, color = \<lparr>color_value = 0, hex = ''#000000''\<rparr>, icon = None\<rparr>"

definition everyone :: Role where
  "everyone = \<lparr>role_id = 1, position = 0, color = \<lparr>color_value = 65280, hex = ''#00ff00''\<rparr>, icon = None\<rparr>"

definition alice :: User where
  "alice = (plain_user 10 ''alice'')\<lparr>roles := [everyone, red, plain_role, blue]\<rparr>"

definition bob :: User where
  "bob = plain_user 11 ''bob''"

definition text_message :: "nat \<Rightarrow> User \<Rightarrow> string \<Rightarrow> int \<Rightarrow> Message" where
  "text_message i a c t =
     \<lparr>msg_id = i, author = a, content = c, created_at = utc t, edited_timestamp = None,
      msg_type = DEFAULT, message_reference = NoReference, interaction = NoInteraction,
      embeds = [], attachments = [], components = [], reactions = [], webhook_id = None,
      mention_ids = [], channel_id = 3, channel_type = ''ChannelType.GUILD_TEXT''\<rparr>"

text \<open>
  Guild 1: alice is a member, nobody else is; no message can be fetched (not found);
  the engine answers with a one-letter mark of the template.
\<close>

definition template_mark :: "template \<Rightarrow> string" where
  "template_mark t =
     (case t of message_body \<Rightarrow> ''b'' | message_pin \<Rightarrow> ''p'' | message_thread \<Rightarrow> ''t''
      | message_content \<Rightarrow> ''c'' | message_reference_template \<Rightarrow> ''r''
      | message_interaction \<Rightarrow> ''i'' | start_message \<Rightarrow> ''S'' | end_message \<Rightarrow> ''E''
      | message_thread_remove \<Rightarrow> ''-'' | message_thread_add \<Rightarrow> ''+'')"

definition guild :: env where
  "guild =
     \<lparr>guild_id = 1,
      fetch_member = (\<lambda>i. if i = 10 then Inr (Some alice) else Inr None),
      fetch_message = (\<lambda>c i. Inl NotFound),
      fetch_channel = (\<lambda>c. Inr (Some c)),
      fill_out = (\<lambda>t subs. template_mark t),
      embed_flow = (\<lambda>x. x), attachment_flow = (\<lambda>x. x), component_flow = (\<lambda>x. x),
      reaction_flow = (\<lambda>x. x),
      strftime = (\<lambda>fmt t. ''12:00''),
      utcoffset = (\<lambda>name t. 0),
      system_utcoffset = (\<lambda>t. 0),
      bot_tag = ''BOT'', bot_tag_verified = ''VERIFIED'',
      message_reference_unknown = ''deleted'',
      reference_attachment_icon = ''att.svg'', interaction_command_icon = ''cmd.svg'',
      pinned_message_icon = ''pin.svg'', thread_channel_icon = ''thread.svg'',
      thread_remove_recipient = ''remove.svg'', thread_add_recipient = ''add.svg''\<rparr>"

text \<open>A message of bob, edited a minute after it was written.\<close>

definition edited_message :: Message where
  "edited_message = (text_message 100 bob ''hi'' 0)\<lparr>edited_timestamp := Some (utc 60)\<rparr>"

text \<open>The same guild when a fetch finds no message and returns \<open>None\<close>, as the library's does.\<close>

definition guild_absent :: env where
  "guild_absent = guild\<lparr>fetch_message := (\<lambda>c i. Inr None)\<rparr>"

text \<open>The same guild when every fetch of a message raises \<open>e\<close>.\<close>

definition guild_failing :: "exn \<Rightarrow> env" where
  "guild_failing e = guild\<lparr>fetch_message := (\<lambda>c i. Inl e)\<rparr>"

text \<open>A reply by alice to message 99, which is in no list.\<close>

definition reply_message :: Message where
  "reply_message =
     (text_message 101 alice ''re'' 60)
       \<lparr>message_reference := Reference \<lparr>ref_message_id = 99, ref_channel_id = 3\<rparr>\<rparr>"

text \<open>The builder \<open>MessageConstruct_init\<close> makes in this guild for the message at \<open>a\<close>.\<close>

definition builder :: "nat \<Rightarrow> nat option \<Rightarrow> (nat \<Rightarrow> nat option) \<Rightarrow> MessageConstruct" where
  "builder a p dict =
     \<lparr>message = a, previous_message = p, pytz_timezone = ''UTC'', military_time = True,
      message_dict = dict, time_format = ''%A, %e %B %Y %H:%M'',
      message_created_at = ''12:00'', message_edited_at = [], meta_data = Map.empty,
      message_html = [], self_embeds = [], self_reactions = [], self_components = [],
      self_attachments = [], audit = False\<rparr>"

text \<open>A pin notice by bob, for message 100.\<close>

definition pin_message :: Message where
  "pin_message =
     (text_message 102 bob [] 120)
       \<lparr>msg_type := CHANNEL_PINNED_MESSAGE,
        message_reference := Reference \<lparr>ref_message_id = 100, ref_channel_id = 3\<rparr>\<rparr>"

text \<open>A member-added notice by bob for user 12, who is no member of the guild.\<close>

definition add_message :: Message where
  "add_message = (text_message 103 bob [] 180)\<lparr>msg_type := RECIPIENT_ADD, mention_ids := [12]\<rparr>"

text \<open>A reply by alice to message 100, the first of the list.\<close>

definition answer_message :: Message where
  "answer_message =
     (text_message 101 alice ''re'' 60)
       \<lparr>message_reference := Reference \<lparr>ref_message_id = 100, ref_channel_id = 3\<rparr>\<rparr>"

text \<open>
  The first message of a public thread, with the two texts \<open>str\<close> gives the library's
  channel type (the second from Python 3.11 on), and a guild that can fetch the message
  it replies to.
\<close>

definition thread_starter :: Message where
  "thread_starter = reply_message\<lparr>channel_type := ''ChannelType.GUILD_PUBLIC_THREAD''\<rparr>"

definition thread_starter_numeric :: Message where
  "thread_starter_numeric = reply_message\<lparr>channel_type := ''11''\<rparr>"

definition thread_guild :: env where
  "thread_guild = guild\<lparr>fetch_message := (\<lambda>c i. Inr (Some (text_message 99 alice ''parent'' 0)))\<rparr>"

text \<open>A heap from a list of messages: address \<open>k\<close> holds the \<open>k\<close>-th, every other address the first.\<close>

definition heap_of :: "Message list \<Rightarrow> nat \<Rightarrow> Message" where
  "heap_of ms a = (if a < length ms then ms ! a else hd ms)"

definition start_state :: "Message list \<Rightarrow> state" where
  "start_state ms = \<lparr>heap = heap_of ms, trace = []\<rparr>"

section \<open>Running a computation\<close>

lemma io_bindE:
  assumes "io_bind m f s = Inr r"
  obtains x s1 where "m s = Inr (x, s1)" and "f x s1 = Inr r"
  using assms by (auto simp: io_bind_def split: sum.splits)

lemmas io_simps = io_bind_def io_return_def io_raise_def io_lift_def read_message_def
  set_content_def set_message_reference_def set_interaction_def log_event_def
  await_fetch_member_def await_fetch_message_def await_fetch_channel_def await_fill_out_def

section \<open>The colour resolver\<close>

lemma find_first_is_greatest:
  "sorted_wrt (\<lambda>x y. f y \<le> f x) ys \<Longrightarrow> find P ys = Some r \<Longrightarrow> r' \<in> set ys \<Longrightarrow> P r'
   \<Longrightarrow> f r' \<le> (f r :: 'k :: linorder)"
  by (induction ys) (auto split: if_splits)

lemma rev_sort_key_descending: "sorted_wrt (\<lambda>x y. f y \<le> f x) (rev (sort_key f xs))"
  using sorted_sort_key [of f xs] by (simp add: sorted_wrt_rev sorted_map)

lemma role_key_le:
  "role_key r' \<le> role_key r \<longleftrightarrow>
     position r' < position r \<or> (position r' = position r \<and> role_id r' \<le> role_id r)"
  by (auto simp: role_key_def less_eq_prod_def)

lemma set_sorted_roles: "set (sorted_roles env m) = {r \<in> set (roles m). role_id r \<noteq> guild_id env}"
  by (auto simp: sorted_roles_def)

lemma user_colour_none:
  assumes "coloured_roles env m = []"
  shows "user_colour env (Some m) = ''#FFFFFF''"
proof -
  have "\<not> (\<exists>x. x \<in> set (rev (sorted_roles env m)) \<and> color_value (color x) \<noteq> 0)"
    using assms by (auto simp: set_sorted_roles coloured_roles_def filter_empty_conv)
  then have "find (\<lambda>r. color_value (color r) \<noteq> 0) (rev (sorted_roles env m)) = None"
    unfolding find_None_iff by blast
  then show ?thesis by (simp add: user_colour_def)
qed

lemma user_colour_some:
  assumes "coloured_roles env m \<noteq> []"
  shows "\<exists>r \<in> set (coloured_roles env m).
           (\<forall>r' \<in> set (coloured_roles env m). role_key r' \<le> role_key r)
           \<and> user_colour env (Some m) = (if hex (color r) \<noteq> ''#000000'' then hex (color r) else ''#FFFFFF'')"
proof -
  let ?P = "\<lambda>r. color_value (color r) \<noteq> 0"
  let ?ys = "rev (sorted_roles env m)"
  from assms obtain q where q: "q \<in> set (coloured_roles env m)"
    by (cases "coloured_roles env m") auto
  have in_ys: "x \<in> set ?ys \<and> ?P x \<longleftrightarrow> x \<in> set (coloured_roles env m)" for x
    by (auto simp: set_sorted_roles coloured_roles_def)
  have "\<exists>x. x \<in> set ?ys \<and> ?P x"
    using q in_ys by blast
  then have "find ?P ?ys \<noteq> None"
    unfolding find_None_iff by blast
  then obtain r where r: "find ?P ?ys = Some r"
    by blast
  from r have "r \<in> set ?ys \<and> ?P r"
    unfolding find_Some_iff by (metis nth_mem)
  then have r_in: "r \<in> set (coloured_roles env m)"
    using in_ys by blast
  have greatest: "role_key r' \<le> role_key r" if "r' \<in> set (coloured_roles env m)" for r'
  proof -
    from that in_ys have "r' \<in> set ?ys" "?P r'"
      by blast+
    with find_first_is_greatest [where f = role_key, OF _ r] show ?thesis
      unfolding sorted_roles_def using rev_sort_key_descending [of role_key] by blast
  qed
  have "user_colour env (Some m) = (if hex (color r) \<noteq> ''#000000'' then hex (color r) else ''#FFFFFF'')"
    using r by (simp add: user_colour_def Let_def)
  with r_in greatest show ?thesis by blast
qed

lemma gather_user_colour_apply:
  "gather_user_colour env (Some a) s =
     (case fetch_member env (user_id a) of
        Inl e \<Rightarrow> Inl e
      | Inr member \<Rightarrow> Inr (''color: '' @ user_colour env member @ '';'',
                         s\<lparr>trace := trace s @ [FetchMember (user_id a)]\<rparr>))"
  by (simp add: gather_user_colour_def gather_member_def io_simps split: sum.splits)

lemma gather_user_icon_apply:
  "gather_user_icon env (Some a) s =
     (case fetch_member env (user_id a) of
        Inl e \<Rightarrow> Inl e
      | Inr member \<Rightarrow> Inr (user_icon env member, s\<lparr>trace := trace s @ [FetchMember (user_id a)]\<rparr>))"
  by (simp add: gather_user_icon_def gather_member_def io_simps split: sum.splits)

text \<open>
  C9. The colour resolver looks the author up in the guild. Without a member it answers
  white, and the icon resolver the empty string, and neither raises. With a member it
  answers white when no role other than the guild's default one has a colour, and
  otherwise the colour of such a role that no other such role outranks: none has a
  higher position, and none of the same position a greater id.
\<close>

theorem gather_user_colour_highest_role:
  "(fetch_member env (user_id a) = Inr None \<longrightarrow>
      gather_user_colour env (Some a) s
        = Inr (''color: #FFFFFF;'', s\<lparr>trace := trace s @ [FetchMember (user_id a)]\<rparr>)
      \<and> gather_user_icon env (Some a) s
        = Inr ([], s\<lparr>trace := trace s @ [FetchMember (user_id a)]\<rparr>))
   \<and> (fetch_member env (user_id a) = Inr (Some m) \<and> coloured_roles env m = [] \<longrightarrow>
      gather_user_colour env (Some a) s
        = Inr (''color: #FFFFFF;'', s\<lparr>trace := trace s @ [FetchMember (user_id a)]\<rparr>))
   \<and> (fetch_member env (user_id a) = Inr (Some m) \<and> coloured_roles env m \<noteq> []
       \<and> (\<forall>r \<in> set (roles m). color_value (color r) \<noteq> 0 \<longrightarrow> hex (color r) \<noteq> ''#000000'') \<longrightarrow>
      (\<exists>r \<in> set (coloured_roles env m).
         (\<forall>r' \<in> set (coloured_roles env m).
            position r' < position r \<or> (position r' = position r \<and> role_id r' \<le> role_id r))
         \<and> gather_user_colour env (Some a) s
             = Inr (''color: '' @ hex (color r) @ '';'', s\<lparr>trace := trace s @ [FetchMember (user_id a)]\<rparr>)))"
proof (intro conjI impI)
  assume "fetch_member env (user_id a) = Inr None"
  then show "gather_user_colour env (Some a) s
        = Inr (''color: #FFFFFF;'', s\<lparr>trace := trace s @ [FetchMember (user_id a)]\<rparr>)"
    by (simp add: gather_user_colour_apply user_colour_def)
next
  assume "fetch_member env (user_id a) = Inr None"
  then show "gather_user_icon env (Some a) s
        = Inr ([], s\<lparr>trace := trace s @ [FetchMember (user_id a)]\<rparr>)"
    by (simp add: gather_user_icon_apply user_icon_def)
next
  assume "fetch_member env (user_id a) = Inr (Some m) \<and> coloured_roles env m = []"
  then show "gather_user_colour env (Some a) s
        = Inr (''color: #FFFFFF;'', s\<lparr>trace := trace s @ [FetchMember (user_id a)]\<rparr>)"
    by (simp add: gather_user_colour_apply user_colour_none)
next
  assume h: "fetch_member env (user_id a) = Inr (Some m) \<and> coloured_roles env m \<noteq> []
       \<and> (\<forall>r \<in> set (roles m). color_value (color r) \<noteq> 0 \<longrightarrow> hex (color r) \<noteq> ''#000000'')"
  then obtain r where r: "r \<in> set (coloured_roles env m)"
      "\<forall>r' \<in> set (coloured_roles env m). role_key r' \<le> role_key r"
      "user_colour env (Some m) = (if hex (color r) \<noteq> ''#000000'' then hex (color r) else ''#FFFFFF'')"
    using user_colour_some [of env m] by blast
  from r(1) h have "hex (color r) \<noteq> ''#000000''"
    by (simp add: coloured_roles_def)
  with r(3) h have "gather_user_colour env (Some a) s
             = Inr (''color: '' @ hex (color r) @ '';'', s\<lparr>trace := trace s @ [FetchMember (user_id a)]\<rparr>)"
    by (simp add: gather_user_colour_apply)
  with r(1,2) show "\<exists>r \<in> set (coloured_roles env m).
         (\<forall>r' \<in> set (coloured_roles env m).
            position r' < position r \<or> (position r' = position r \<and> role_id r' \<le> role_id r))
         \<and> gather_user_colour env (Some a) s
             = Inr (''color: '' @ hex (color r) @ '';'', s\<lparr>trace := trace s @ [FetchMember (user_id a)]\<rparr>)"
    unfolding role_key_le by blast
qed

lemma guild_simps:
  "guild_id guild = 1" "fetch_member guild i = (if i = 10 then Inr (Some alice) else Inr None)"
  "fetch_message guild c i = Inl NotFound" "fetch_channel guild c = Inr (Some c)"
  "fill_out guild t subs = template_mark t" "strftime guild fmt d = ''12:00''"
  "embed_flow guild x = x" "attachment_flow guild x = x" "component_flow guild x = x"
  "reaction_flow guild x = x" "message_reference_unknown guild = ''deleted''"
  by (simp_all add: guild_def)

lemma role_simps:
  "role_id red = 5" "position red = 2" "color red = \<lparr>color_value = 16711680, hex = ''#ff0000''\<rparr>"
  "role_id blue = 6" "position blue = 2" "color blue = \<lparr>color_value = 255, hex = ''#0000ff''\<rparr>"
  "role_id plain_role = 7" "position plain_role = 3" "color plain_role = \<lparr>color_value = 0, hex = ''#000000''\<rparr>"
  "role_id everyone = 1" "position everyone = 0" "color everyone = \<lparr>color_value = 65280, hex = ''#00ff00''\<rparr>"
  by (simp_all add: red_def blue_def plain_role_def everyone_def)

lemma user_simps:
  "user_id alice = 10" "roles alice = [everyone, red, plain_role, blue]" "user_id bob = 11"
  by (simp_all add: alice_def bob_def plain_user_def)

theorem gather_user_colour_highest_role_witness:
  "gather_user_colour guild (Some bob) (start_state []) = Inr (''color: #FFFFFF;'', \<lparr>heap = heap_of [], trace = [FetchMember 11]\<rparr>)
   \<and> coloured_roles guild alice = [red, blue]
   \<and> gather_user_colour guild (Some alice) (start_state []) = Inr (''color: #0000ff;'', \<lparr>heap = heap_of [], trace = [FetchMember 10]\<rparr>)"
proof -
  have c: "coloured_roles guild alice = [red, blue]"
    by (simp add: coloured_roles_def guild_simps role_simps user_simps)
  have w: "\<forall>r \<in> set (roles alice). color_value (color r) \<noteq> 0 \<longrightarrow> hex (color r) \<noteq> ''#000000''"
    by (simp add: role_simps user_simps)
  have f: "fetch_member guild (user_id alice) = Inr (Some alice)" "fetch_member guild (user_id bob) = Inr None"
    by (simp_all add: guild_simps user_simps)
  note t = gather_user_colour_highest_role [where env = guild and a = alice and m = alice and s = "start_state []"]
  from t c w f(1) have "gather_user_colour guild (Some alice) (start_state [])
      = Inr (''color: #0000ff;'', (start_state [])\<lparr>trace := trace (start_state []) @ [FetchMember (user_id alice)]\<rparr>)"
    by (auto simp: role_simps)
  moreover from gather_user_colour_highest_role [where env = guild and a = bob and m = alice and s = "start_state []"] f(2)
  have "gather_user_colour guild (Some bob) (start_state [])
      = Inr (''color: #FFFFFF;'', (start_state [])\<lparr>trace := trace (start_state []) @ [FetchMember (user_id bob)]\<rparr>)"
    by blast
  ultimately show ?thesis using c by (simp add: start_state_def user_simps)
qed

section \<open>What the steps leave alone\<close>

lemma frame_refl: "frame s s"
  by (simp add: frame_def same_identity_def)

lemma frame_trans: "frame s t \<Longrightarrow> frame t u \<Longrightarrow> frame s u"
  by (simp add: frame_def same_identity_def)

lemma steady_refl: "steady P s s"
  by (simp add: steady_def frame_refl)

lemma steady_trans: "steady P s t \<Longrightarrow> steady P t u \<Longrightarrow> steady P s u"
  by (auto simp: steady_def intro: frame_trans)

lemma keeps_return: "io_keeps (steady P) (io_return x)"
  by (simp add: io_keeps_def io_return_def steady_refl)

lemma keeps_raise: "io_keeps R (io_raise e)"
  by (simp add: io_keeps_def io_raise_def)

lemma keeps_lift: "io_keeps (steady P) (io_lift r)"
  by (auto simp: io_keeps_def io_lift_def steady_refl split: sum.splits)

lemma keeps_read: "io_keeps (steady P) (read_message a)"
  by (simp add: io_keeps_def read_message_def steady_refl)

lemma keeps_bind:
  assumes "io_keeps (steady P) m" and "\<And>x. io_keeps (steady P) (f x)"
  shows "io_keeps (steady P) (io_bind m f)"
  unfolding io_keeps_def
proof (intro allI impI)
  fix s y s'
  assume "io_bind m f s = Inr (y, s')"
  then obtain x s1 where "m s = Inr (x, s1)" and "f x s1 = Inr (y, s')"
    by (auto simp: io_bind_def split: sum.splits)
  with assms have "steady P s s1" and "steady P s1 s'"
    unfolding io_keeps_def by blast+
  then show "steady P s s'"
    by (rule steady_trans)
qed

lemma keeps_set_content: "io_keeps (steady P) (set_content a v)"
  by (simp add: io_keeps_def set_content_def steady_def frame_def same_identity_def)

lemma keeps_set_message_reference: "io_keeps (steady P) (set_message_reference a v)"
  by (simp add: io_keeps_def set_message_reference_def steady_def frame_def same_identity_def)

lemma keeps_set_interaction: "io_keeps (steady P) (set_interaction a v)"
  by (simp add: io_keeps_def set_interaction_def steady_def frame_def same_identity_def)

lemma keeps_log: "\<not> P ev \<Longrightarrow> io_keeps (steady P) (log_event ev)"
  by (simp add: io_keeps_def log_event_def steady_def frame_def same_identity_def)

lemma keeps_assign_message_reference: "io_keeps (steady P) (assign_message_reference a v)"
  by (cases v) (simp_all add: assign_message_reference_def keeps_set_message_reference keeps_raise)

lemmas keeps_intros = keeps_bind keeps_return keeps_raise keeps_lift keeps_read keeps_set_content
  keeps_set_message_reference keeps_assign_message_reference keeps_set_interaction keeps_log

lemma keeps_default_timestamp: "io_keeps (steady P) (default_timestamp env self m)"
  unfolding default_timestamp_def
  by (auto intro!: keeps_intros)

lemma keeps_fetch_member: "\<not> P (FetchMember i) \<Longrightarrow> io_keeps (steady P) (await_fetch_member env i)"
  unfolding await_fetch_member_def by (intro keeps_intros)

lemma keeps_fill: "\<not> P (FillOut t) \<Longrightarrow> io_keeps (steady P) (await_fill_out env t subs)"
  unfolding await_fill_out_def by (intro keeps_intros)

lemma keeps_gather_user_colour:
  "(\<And>i. \<not> P (FetchMember i)) \<Longrightarrow> io_keeps (steady P) (gather_user_colour env a)"
  unfolding gather_user_colour_def gather_member_def
  by (auto intro!: keeps_intros keeps_fetch_member split: option.split)

lemma keeps_gather_user_icon:
  "(\<And>i. \<not> P (FetchMember i)) \<Longrightarrow> io_keeps (steady P) (gather_user_icon env a)"
  unfolding gather_user_icon_def gather_member_def
  by (auto intro!: keeps_intros keeps_fetch_member split: option.split)

lemma keeps_to_local_time_str: "io_keeps (steady P) (to_local_time_str env self t)"
  unfolding to_local_time_str_def
  by (auto intro!: keeps_intros)

lemma keeps_set_time: "io_keeps (steady P) (set_time env self m)"
  unfolding set_time_def
  by (auto intro!: keeps_intros keeps_to_local_time_str split: option.split)

lemma keeps_init: "io_keeps (steady P) (MessageConstruct_init env a p tz mil md dict)"
  unfolding MessageConstruct_init_def Let_def
  by (auto intro!: keeps_intros keeps_set_time)

lemma keeps_build_meta_data: "io_keeps (steady P) (build_meta_data env self)"
  unfolding build_meta_data_def Let_def
  by (auto intro!: keeps_intros split: option.split)

lemma keeps_build_content:
  "\<not> P (FillOut message_content) \<Longrightarrow> io_keeps (steady P) (build_content env self)"
  unfolding build_content_def Let_def
  by (auto intro!: keeps_intros keeps_fill)

lemma keeps_reference_banner:
  "(\<And>i. \<not> P (FetchMember i)) \<Longrightarrow> \<not> P (FillOut message_reference_template)
   \<Longrightarrow> io_keeps (steady P) (reference_banner env self r msg loc)"
  unfolding reference_banner_def Let_def
  by (auto intro!: keeps_intros keeps_fill keeps_gather_user_colour keeps_set_time split: option.split)

lemma keeps_build_interaction:
  "(\<And>i. \<not> P (FetchMember i)) \<Longrightarrow> \<not> P (FillOut message_interaction)
   \<Longrightarrow> io_keeps (steady P) (build_interaction env self)"
  unfolding build_interaction_def Let_def
  by (auto intro!: keeps_intros keeps_fill keeps_gather_user_colour split: interaction_slot.split)

lemma keeps_build_assets: "io_keeps (steady P) (build_assets env self)"
  unfolding build_assets_def Let_def
  by (auto intro!: keeps_intros)

lemma keeps_build_reference:
  "(\<And>i. \<not> P (FetchMember i)) \<Longrightarrow> (\<And>c i. \<not> P (FetchMessage c i))
   \<Longrightarrow> \<not> P (FillOut message_reference_template)
   \<Longrightarrow> io_keeps (steady P) (build_reference env self)"
  unfolding build_reference_def
  by (auto intro!: keeps_intros keeps_reference_banner
      split: reference_slot.split option.split sum.split)

lemma keeps_check: "io_keeps (steady P) (generate_message_divider_check self)"
  unfolding generate_message_divider_check_def
  by (auto intro!: keeps_intros split: option.split)

lemma keeps_generate_message_divider:
  "(\<And>i. \<not> P (FetchMember i)) \<Longrightarrow> \<not> P (FillOut end_message) \<Longrightarrow> \<not> P (FillOut start_message)
   \<Longrightarrow> io_keeps (steady P) (generate_message_divider env channel_audit self)"
  unfolding generate_message_divider_def Let_def
  by (auto intro!: keeps_intros keeps_fill keeps_check keeps_gather_user_colour
        keeps_gather_user_icon keeps_default_timestamp split: option.split)

lemma keeps_build_message_template:
  "(\<And>i. \<not> P (FetchMember i)) \<Longrightarrow> \<not> P (FillOut end_message) \<Longrightarrow> \<not> P (FillOut start_message)
   \<Longrightarrow> \<not> P (FillOut message_body)
   \<Longrightarrow> io_keeps (steady P) (build_message_template env self)"
  unfolding build_message_template_def
  by (auto intro!: keeps_intros keeps_fill keeps_generate_message_divider)

lemma keeps_build_pin_template:
  "(\<And>i. \<not> P (FetchMember i)) \<Longrightarrow> \<not> P (FillOut message_pin)
   \<Longrightarrow> io_keeps (steady P) (build_pin_template env self)"
  unfolding build_pin_template_def
  by (auto intro!: keeps_intros keeps_fill keeps_gather_user_colour split: reference_slot.split)

lemma keeps_build_thread_template:
  "(\<And>i. \<not> P (FetchMember i)) \<Longrightarrow> \<not> P (FillOut message_thread)
   \<Longrightarrow> io_keeps (steady P) (build_thread_template env self)"
  unfolding build_thread_template_def
  by (auto intro!: keeps_intros keeps_fill keeps_gather_user_colour)

lemma keeps_build_recipient:
  "(\<And>i. \<not> P (FetchMember i)) \<Longrightarrow> \<not> P (FillOut t)
   \<Longrightarrow> io_keeps (steady P) (build_recipient t url env self)"
  unfolding build_recipient_def
  by (auto intro!: keeps_intros keeps_fill keeps_gather_user_colour keeps_fetch_member
      split: list.split option.split)

text \<open>No step of a builder touches an attribute other than the three.\<close>

lemma keeps_construct_message: "io_keeps (steady (\<lambda>ev. False)) (construct_message env self)"
  unfolding construct_message_def build_message_def build_pin_def build_thread_def
    build_thread_remove_def build_thread_add_def build_remove_def build_add_def
  by (auto intro!: keeps_intros keeps_build_content keeps_build_reference keeps_build_interaction
        keeps_build_assets keeps_build_message_template keeps_build_meta_data
        keeps_generate_message_divider keeps_build_pin_template keeps_build_thread_template
        keeps_build_recipient)

lemma construct_message_frame:
  "construct_message env self s = Inr (r, s') \<Longrightarrow> frame s s'"
  using keeps_construct_message [of env self] unfolding io_keeps_def steady_def by blast

lemma init_state: "MessageConstruct_init env a p tz mil md dict s = Inr (self, s') \<Longrightarrow> s' = s"
  by (auto simp: MessageConstruct_init_def set_time_def to_local_time_str_def io_simps Let_def
      split: sum.splits option.splits if_splits)

lemma gather_loop_ConsE:
  assumes "gather_loop env tz mil dict (a # ms) p html md s = Inr (r, s')"
  obtains self c md' s2 where
    "MessageConstruct_init env a p tz mil md dict s = Inr (self, s)"
    "construct_message env self s = Inr ((c, md'), s2)"
    "gather_loop env tz mil dict ms (Some a) (html @ c) md' s2 = Inr (r, s')"
proof -
  from assms obtain self s1 where i: "MessageConstruct_init env a p tz mil md dict s = Inr (self, s1)"
    and rest: "io_bind (construct_message env self) (\<lambda>(content_html, md').
        gather_loop env tz mil dict ms (Some a) (html @ content_html) md') s1 = Inr (r, s')"
    unfolding gather_loop.simps by (erule io_bindE)
  from rest obtain x s2 where c: "construct_message env self s1 = Inr (x, s2)"
    and l: "(case x of (content_html, md') \<Rightarrow>
        gather_loop env tz mil dict ms (Some a) (html @ content_html) md') s2 = Inr (r, s')"
    by (erule io_bindE)
  from i have "s1 = s" by (rule init_state)
  with i c l that show thesis
    by (cases x) auto
qed

lemma gather_loop_frame:
  "gather_loop env tz mil dict ms p html md s = Inr (r, s') \<Longrightarrow> frame s s'"
proof (induction ms arbitrary: p html md s)
  case Nil
  then show ?case by (simp add: io_return_def frame_refl)
next
  case (Cons a ms)
  from Cons.prems obtain self c md' s2 where
      c: "construct_message env self s = Inr ((c, md'), s2)"
    and l: "gather_loop env tz mil dict ms (Some a) (html @ c) md' s2 = Inr (r, s')"
    by (rule gather_loop_ConsE)
  from construct_message_frame [OF c] Cons.IH [OF l] show ?case
    by (blast intro: frame_trans)
qed

section \<open>The small guild, evaluated\<close>

lemma guild_failing_simps:
  "guild_id (guild_failing e) = 1"
  "fetch_member (guild_failing e) i = (if i = 10 then Inr (Some alice) else Inr None)"
  "fetch_message (guild_failing e) c i = Inl e" "fetch_channel (guild_failing e) c = Inr (Some c)"
  "fill_out (guild_failing e) t subs = template_mark t" "strftime (guild_failing e) fmt d = ''12:00''"
  "embed_flow (guild_failing e) x = x" "attachment_flow (guild_failing e) x = x"
  "component_flow (guild_failing e) x = x" "reaction_flow (guild_failing e) x = x"
  "message_reference_unknown (guild_failing e) = ''deleted''"
  by (simp_all add: guild_failing_def guild_def)

lemma text_message_simps:
  "msg_id (text_message i a c t) = i" "author (text_message i a c t) = a"
  "content (text_message i a c t) = c" "created_at (text_message i a c t) = utc t"
  "edited_timestamp (text_message i a c t) = None" "msg_type (text_message i a c t) = DEFAULT"
  "message_reference (text_message i a c t) = NoReference"
  "interaction (text_message i a c t) = NoInteraction" "embeds (text_message i a c t) = []"
  "attachments (text_message i a c t) = []" "components (text_message i a c t) = []"
  "reactions (text_message i a c t) = []" "webhook_id (text_message i a c t) = None"
  "mention_ids (text_message i a c t) = []" "channel_id (text_message i a c t) = 3"
  "channel_type (text_message i a c t) = ''ChannelType.GUILD_TEXT''"
  by (simp_all add: text_message_def)

lemma builder_simps:
  "message (builder a p dict) = a" "previous_message (builder a p dict) = p"
  "message_dict (builder a p dict) = dict" "pytz_timezone (builder a p dict) = ''UTC''"
  "meta_data (builder a p dict) = Map.empty" "message_html (builder a p dict) = []"
  "message_created_at (builder a p dict) = ''12:00''" "message_edited_at (builder a p dict) = []"
  "time_format (builder a p dict) = ''%A, %e %B %Y %H:%M''"
  "self_embeds (builder a p dict) = []" "self_attachments (builder a p dict) = []"
  "self_components (builder a p dict) = []" "self_reactions (builder a p dict) = []"
  by (simp_all add: builder_def)

lemma heap_start_state:
  "heap (start_state (m # ms)) 0 = m" "heap (start_state (m # m' # ms)) (Suc 0) = m'"
  "trace (start_state ms) = []"
  by (simp_all add: start_state_def heap_of_def)

lemma guild_text_is_no_thread: "\<not> sublist ''thread'' ''ChannelType.GUILD_TEXT''"
  by (simp add: sublist_code)

lemma user_alice_simps:
  "user_id alice = 10" "display_name alice = ''alice''" "username alice = ''alice''"
  "tag alice = ''alice''" "user_bot alice = False" "avatar_url alice = ''a.png''"
  "joined_at alice = None"
  by (simp_all add: alice_def plain_user_def)

lemma reply_message_simps:
  "message_reference reply_message = Reference \<lparr>ref_message_id = 99, ref_channel_id = 3\<rparr>"
  "channel_id reply_message = 3"
  by (simp_all add: reply_message_def text_message_simps)

lemma reply_message_fields:
  "author reply_message = alice" "content reply_message = ''re''"
  "created_at reply_message = utc 60" "msg_type reply_message = DEFAULT"
  "interaction reply_message = NoInteraction" "embeds reply_message = []"
  "attachments reply_message = []" "components reply_message = []" "reactions reply_message = []"
  "webhook_id reply_message = None" "msg_id reply_message = 101"
  "edited_timestamp reply_message = None" "mention_ids reply_message = []"
  "channel_type reply_message = ''ChannelType.GUILD_TEXT''"
  by (simp_all add: reply_message_def text_message_simps)

lemmas builder_defs = construct_message_def build_message_def build_content_def
  build_reference_def reference_banner_def build_interaction_def build_assets_def
  build_message_template_def generate_message_divider_def generate_message_divider_check_def
  build_meta_data_def gather_user_colour_def gather_user_icon_def gather_member_def
  reference_or_interaction_def MessageConstruct_init_def set_time_def to_local_time_str_def
  localize_def build_pin_def build_thread_def build_thread_add_def build_thread_remove_def
  build_add_def build_remove_def build_recipient_def build_pin_template_def
  build_thread_template_def default_timestamp_def assign_message_reference_def

section \<open>Reference resolution\<close>

lemma build_reference_absent:
  assumes "message_reference (heap s (message self)) = Reference r"
    and "message_dict self (ref_message_id r) = None"
  shows "build_reference env self s =
     (case fetch_message env (channel_id (heap s (message self))) (ref_message_id r) of
        Inl e \<Rightarrow>
          if e = NotFound then Inl AttributeError
          else if e = HTTPException
          then Inr (self, s\<lparr>trace := trace s @ [FetchMessage (channel_id (heap s (message self))) (ref_message_id r)],
                            heap := (heap s)(message self := (heap s (message self))
                              \<lparr>message_reference := ReferenceMarkup []\<rparr>)\<rparr>)
          else Inl e
      | Inr None \<Rightarrow> Inl AttributeError
      | Inr (Some msg) \<Rightarrow>
          reference_banner env self r msg None
            (s\<lparr>trace := trace s @ [FetchMessage (channel_id (heap s (message self))) (ref_message_id r)]\<rparr>))"
  using assms
  by (simp add: build_reference_def assign_message_reference_def is_HTTPException_def io_simps
      split: sum.splits option.splits)

text \<open>
  A reply to a message that is not in the map by id. A fetch that raises an
  \<open>HTTPException\<close> other than \<open>NotFound\<close> clears the attribute and \<open>build_reference\<close>
  returns; an exception outside \<open>HTTPException\<close> is not caught; every returning run has
  made exactly one fetch of a message, the one of the referenced id in the message's
  channel.
\<close>

lemma build_reference_fetch:
  assumes "message_reference (heap s (message self)) = Reference r"
    and "message_dict self (ref_message_id r) = None"
  shows "(fetch_message env (channel_id (heap s (message self))) (ref_message_id r) = Inl HTTPException \<longrightarrow>
            build_reference env self s =
              Inr (self, s\<lparr>trace := trace s @ [FetchMessage (channel_id (heap s (message self))) (ref_message_id r)],
                           heap := (heap s)(message self := (heap s (message self))
                              \<lparr>message_reference := ReferenceMarkup []\<rparr>)\<rparr>))
       \<and> (\<forall>e. fetch_message env (channel_id (heap s (message self))) (ref_message_id r) = Inl e
              \<and> \<not> is_HTTPException e \<longrightarrow> build_reference env self s = Inl e)
       \<and> (\<forall>self' s'. build_reference env self s = Inr (self', s') \<longrightarrow>
            filter is_fetch_message (trace s') =
              filter is_fetch_message (trace s)
              @ [FetchMessage (channel_id (heap s (message self))) (ref_message_id r)])"
proof (intro conjI allI impI)
  assume "fetch_message env (channel_id (heap s (message self))) (ref_message_id r) = Inl HTTPException"
  then show "build_reference env self s =
              Inr (self, s\<lparr>trace := trace s @ [FetchMessage (channel_id (heap s (message self))) (ref_message_id r)],
                           heap := (heap s)(message self := (heap s (message self))
                              \<lparr>message_reference := ReferenceMarkup []\<rparr>)\<rparr>)"
    by (simp add: build_reference_absent [OF assms])
next
  fix e
  assume "fetch_message env (channel_id (heap s (message self))) (ref_message_id r) = Inl e
              \<and> \<not> is_HTTPException e"
  then show "build_reference env self s = Inl e"
    by (simp add: build_reference_absent [OF assms] is_HTTPException_def)
next
  fix self' s'
  let ?ev = "FetchMessage (channel_id (heap s (message self))) (ref_message_id r)"
  let ?s1 = "s\<lparr>trace := trace s @ [?ev]\<rparr>"
  assume run: "build_reference env self s = Inr (self', s')"
  have "filter is_fetch_message (trace s') = filter is_fetch_message (trace ?s1)"
  proof (cases "fetch_message env (channel_id (heap s (message self))) (ref_message_id r)")
    case (Inl e)
    with run show ?thesis
      by (auto simp: build_reference_absent [OF assms] split: if_splits)
  next
    case (Inr fetched)
    with run obtain msg where "reference_banner env self r msg None ?s1 = Inr (self', s')"
      by (cases fetched) (auto simp: build_reference_absent [OF assms])
    moreover have "io_keeps (steady is_fetch_message) (reference_banner env self r msg None)"
      by (rule keeps_reference_banner) (simp_all add: is_fetch_message_def)
    ultimately show ?thesis
      unfolding io_keeps_def steady_def by blast
  qed
  then show "filter is_fetch_message (trace s') = filter is_fetch_message (trace s) @ [?ev]"
    by (simp add: is_fetch_message_def)
qed

lemma guild_absent_simps:
  "guild_id guild_absent = 1"
  "fetch_member guild_absent i = (if i = 10 then Inr (Some alice) else Inr None)"
  "fetch_message guild_absent c i = Inr None"
  "fill_out guild_absent t subs = template_mark t"
  "embed_flow guild_absent x = x" "attachment_flow guild_absent x = x"
  "component_flow guild_absent x = x" "reaction_flow guild_absent x = x"
  "strftime guild_absent fmt d = ''12:00''" "utcoffset guild_absent name w = 0"
  by (simp_all add: guild_absent_def guild_def)

text \<open>
  C3 fails on the code, where the claim is right. Alice replies to message 99, which is
  in no list and which the guild cannot find. When the fetch raises \<open>NotFound\<close>,
  \<open>build_reference\<close> clears the attribute and then assigns the fixed banner by a plain
  assignment, which raises \<open>AttributeError\<close>; when the fetch returns \<open>None\<close>, reading
  the author of the fetched message raises \<open>AttributeError\<close>. In neither case is the
  banner stored, and the error leaves the assembler.
\<close>

theorem build_reference_not_found_raises:
  "message_reference (heap (start_state [reply_message]) 0)
     = Reference \<lparr>ref_message_id = 99, ref_channel_id = 3\<rparr>
   \<and> message_dict (builder 0 None Map.empty) 99 = None
   \<and> fetch_message guild 3 99 = Inl NotFound
   \<and> build_reference guild (builder 0 None Map.empty) (start_state [reply_message])
       = Inl AttributeError
   \<and> gather_messages guild [0] ''UTC'' True (start_state [reply_message]) = Inl AttributeError
   \<and> fetch_message guild_absent 3 99 = Inr None
   \<and> build_reference guild_absent (builder 0 None Map.empty) (start_state [reply_message])
       = Inl AttributeError
   \<and> gather_messages guild_absent [0] ''UTC'' True (start_state [reply_message])
       = Inl AttributeError"
proof -
  have a: "message_reference (heap (start_state [reply_message]) 0)
     = Reference \<lparr>ref_message_id = 99, ref_channel_id = 3\<rparr>"
    by (simp add: heap_start_state reply_message_simps)
  have b: "message_dict (builder 0 None Map.empty) 99 = None"
    by (simp add: builder_simps)
  have c: "fetch_message guild 3 99 = Inl NotFound" "fetch_message guild_absent 3 99 = Inr None"
    by (simp_all add: guild_simps guild_absent_simps)
  have d: "build_reference guild (builder 0 None Map.empty) (start_state [reply_message])
       = Inl AttributeError"
    by (simp add: build_reference_def assign_message_reference_def io_simps builder_simps
        heap_start_state reply_message_simps guild_simps is_HTTPException_def)
  have e: "build_reference guild_absent (builder 0 None Map.empty) (start_state [reply_message])
       = Inl AttributeError"
    by (simp add: build_reference_def io_simps builder_simps heap_start_state
        reply_message_simps guild_absent_simps)
  have f: "gather_messages guild [0] ''UTC'' True (start_state [reply_message]) = Inl AttributeError"
    by (simp add: gather_messages_def thread_parent_def make_message_dict_def io_simps
        builder_defs guild_simps reply_message_simps reply_message_fields user_alice_simps heap_start_state Let_def
        reference_truthy_def utc_def template_mark_def is_HTTPException_def
        guild_text_is_no_thread)
  have g: "gather_messages guild_absent [0] ''UTC'' True (start_state [reply_message])
       = Inl AttributeError"
    by (simp add: gather_messages_def thread_parent_def make_message_dict_def io_simps
        builder_defs guild_absent_simps reply_message_simps reply_message_fields user_alice_simps heap_start_state Let_def
        reference_truthy_def utc_def template_mark_def guild_text_is_no_thread)
  from a b c d e f g show ?thesis by simp
qed

section \<open>Timestamps\<close>

lemma utc_if_naive_cases:
  "tzinfo t = None \<Longrightarrow> utc_if_naive t = t\<lparr>tzinfo := Some 0\<rparr>"
  "tzinfo t \<noteq> None \<Longrightarrow> utc_if_naive t = t"
  by (auto simp: utc_if_naive_def)

lemma default_timestamp_apply:
  "default_timestamp env self m s = Inr (rendered env self ''%d-%m-%Y %H:%M'' (created_at m), s)"
  by (simp add: default_timestamp_def rendered_def utc_if_naive_def localize_def io_simps
      split: option.splits)

lemma to_local_time_str_apply:
  assumes "(tzinfo time = None) = (tzinfo (created_at (heap s (message self))) = None)"
  shows "to_local_time_str env self time s = Inr (rendered env self (time_format self) time, s)"
  using assms
  by (auto simp: to_local_time_str_def rendered_def utc_if_naive_def localize_def io_simps
      split: option.splits)

lemma set_time_apply:
  assumes "same_clock (heap s (message self)) msg"
  shows "set_time env self msg s =
     Inr ((rendered env self (time_format self) (created_at msg),
           case edited_timestamp msg of
             None \<Rightarrow> []
           | Some e \<Rightarrow> rendered env self (time_format self) e), s)"
proof -
  from assms have c: "(tzinfo (created_at msg) = None) = (tzinfo (created_at (heap s (message self))) = None)"
    by (simp add: same_clock_def)
  show ?thesis
  proof (cases "edited_timestamp msg")
    case None
    then show ?thesis
      by (simp add: set_time_def io_bind_def io_return_def to_local_time_str_apply [OF c])
  next
    case (Some e)
    with assms have "(tzinfo e = None) = (tzinfo (created_at (heap s (message self))) = None)"
      by (simp add: same_clock_def)
    with Some show ?thesis
      by (simp add: set_time_def io_bind_def io_return_def to_local_time_str_apply [OF c]
          to_local_time_str_apply)
  qed
qed

text \<open>
  C5. A timestamp is rendered as the text of \<open>utc_if_naive\<close> of it, converted to the
  builder's zone: a timestamp that carries no time zone is read as UTC first, and one that
  carries a time zone is converted as it is. This holds

    \<^item> for the creation timestamp in the header of a block, whatever the message is;

    \<^item> for a timestamp \<open>to_local_time_str\<close> is given that carries a time zone exactly
      when the creation timestamp of the builder's message does;

    \<^item> for the creation and edit timestamps \<open>set_time\<close> renders, of the builder's own
      message and of a referenced message, under the same condition;

    \<^item> for the two texts a new builder holds.

  The condition is met by the messages of the library, whose timestamps all carry a time
  zone: \<open>to_local_time_str\<close> decides by the creation timestamp of the builder's message,
  not by the timestamp it converts.
\<close>

theorem timestamps_read_as_utc_when_naive:
  "(tzinfo t = None \<longrightarrow> utc_if_naive t = t\<lparr>tzinfo := Some 0\<rparr>)
   \<and> (tzinfo t \<noteq> None \<longrightarrow> utc_if_naive t = t)
   \<and> rendered env self fmt t = strftime env fmt (astimezone env (pytz_timezone self) (utc_if_naive t))
   \<and> default_timestamp env self m s = Inr (rendered env self ''%d-%m-%Y %H:%M'' (created_at m), s)
   \<and> ((tzinfo time = None) = (tzinfo (created_at (heap s (message self))) = None) \<longrightarrow>
        to_local_time_str env self time s = Inr (rendered env self (time_format self) time, s))
   \<and> (same_clock (heap s (message self)) msg \<longrightarrow>
        set_time env self msg s =
          Inr ((rendered env self (time_format self) (created_at msg),
                case edited_timestamp msg of
                  None \<Rightarrow> []
                | Some e \<Rightarrow> rendered env self (time_format self) e), s))
   \<and> (same_clock (heap s a) (heap s a) \<longrightarrow>
        (\<exists>new. MessageConstruct_init env a prev tz mil md dict s = Inr (new, s)
           \<and> message new = a \<and> pytz_timezone new = tz
           \<and> message_created_at new = rendered env new (time_format new) (created_at (heap s a))
           \<and> message_edited_at new =
               (case edited_timestamp (heap s a) of
                  None \<Rightarrow> []
                | Some e \<Rightarrow> rendered env new (time_format new) e)))"
proof (intro conjI impI)
  assume "same_clock (heap s a) (heap s a)"
  then show "\<exists>new. MessageConstruct_init env a prev tz mil md dict s = Inr (new, s)
           \<and> message new = a \<and> pytz_timezone new = tz
           \<and> message_created_at new = rendered env new (time_format new) (created_at (heap s a))
           \<and> message_edited_at new =
               (case edited_timestamp (heap s a) of
                  None \<Rightarrow> []
                | Some e \<Rightarrow> rendered env new (time_format new) e)"
    by (simp add: MessageConstruct_init_def Let_def io_bind_def io_return_def read_message_def
        set_time_apply rendered_def cong: option.case_cong)
next
  show "rendered env self fmt t = strftime env fmt (astimezone env (pytz_timezone self) (utc_if_naive t))"
    by (simp add: rendered_def)
qed (simp_all add: utc_if_naive_cases default_timestamp_apply to_local_time_str_apply
       set_time_apply)

lemma edited_message_simps:
  "created_at edited_message = utc 0" "edited_timestamp edited_message = Some (utc 60)"
  by (simp_all add: edited_message_def text_message_simps)

theorem timestamps_read_as_utc_when_naive_witness:
  "tzinfo (utc 60) \<noteq> None \<and> utc_if_naive (utc 60) = utc 60
   \<and> tzinfo \<lparr>wall = 60000000, tzinfo = None\<rparr> = None
   \<and> utc_if_naive \<lparr>wall = 60000000, tzinfo = None\<rparr> = utc 60
   \<and> same_clock edited_message edited_message
   \<and> default_timestamp guild (builder 0 None Map.empty) edited_message (start_state [edited_message])
       = Inr (''12:00'', start_state [edited_message])
   \<and> to_local_time_str guild (builder 0 None Map.empty) (utc 60) (start_state [edited_message])
       = Inr (''12:00'', start_state [edited_message])
   \<and> set_time guild (builder 0 None Map.empty) edited_message (start_state [edited_message])
       = Inr ((''12:00'', ''12:00''), start_state [edited_message])
   \<and> (\<exists>new. MessageConstruct_init guild 0 None ''UTC'' True Map.empty Map.empty
                 (start_state [edited_message]) = Inr (new, start_state [edited_message])
          \<and> message_created_at new = ''12:00'' \<and> message_edited_at new = ''12:00'')"
proof -
  have c: "same_clock edited_message edited_message"
    by (simp add: same_clock_def edited_message_simps utc_def)
  have h: "heap (start_state [edited_message]) 0 = edited_message"
    by (simp add: heap_start_state)
  have n: "tzinfo (utc 60) \<noteq> None" "tzinfo \<lparr>wall = 60000000, tzinfo = None\<rparr> = None"
    by (simp_all add: utc_def)
  have e: "(tzinfo (utc 60) = None) =
      (tzinfo (created_at (heap (start_state [edited_message]) (message (builder 0 None Map.empty)))) = None)"
    by (simp add: builder_simps h edited_message_simps utc_def)
  note inst = timestamps_read_as_utc_when_naive [where t = "utc 60" and env = guild
      and self = "builder 0 None Map.empty" and m = edited_message
      and s = "start_state [edited_message]" and time = "utc 60" and msg = edited_message
      and a = 0 and prev = None and tz = "''UTC''" and mil = True and md = Map.empty
      and dict = Map.empty]
  note inst' = timestamps_read_as_utc_when_naive [where t = "\<lparr>wall = 60000000, tzinfo = None\<rparr>"]
  from inst n(1) have 1: "utc_if_naive (utc 60) = utc 60" by simp
  from inst' n(2) have 2: "utc_if_naive \<lparr>wall = 60000000, tzinfo = None\<rparr> = utc 60"
    by (simp add: utc_def)
  from inst have 3: "default_timestamp guild (builder 0 None Map.empty) edited_message
      (start_state [edited_message]) = Inr (''12:00'', start_state [edited_message])"
    by (simp add: guild_simps rendered_def)
  from inst e have 4: "to_local_time_str guild (builder 0 None Map.empty) (utc 60)
      (start_state [edited_message]) = Inr (''12:00'', start_state [edited_message])"
    by (simp add: guild_simps rendered_def)
  from inst c have 5: "set_time guild (builder 0 None Map.empty) edited_message
      (start_state [edited_message]) = Inr ((''12:00'', ''12:00''), start_state [edited_message])"
    by (simp add: guild_simps builder_simps h edited_message_simps rendered_def)
  from inst c have 6: "\<exists>new. MessageConstruct_init guild 0 None ''UTC'' True Map.empty Map.empty
                 (start_state [edited_message]) = Inr (new, start_state [edited_message])
          \<and> message_created_at new = ''12:00'' \<and> message_edited_at new = ''12:00''"
    by (auto simp: guild_simps h edited_message_simps rendered_def)
  from n c 1 2 3 4 5 6 show ?thesis by simp
qed

section \<open>The assembler\<close>

text \<open>
  C10. On the empty list \<open>gather_messages\<close> raises \<open>IndexError\<close>. When it returns, the
  list was not empty and the markup is the markup of the loop followed by one
  \<open></div>\<close>.
\<close>

theorem gather_messages_needs_a_message:
  "gather_messages env [] tz mil s = Inl IndexError
   \<and> (gather_messages env messages tz mil s = Inr (((html, md), messages'), s') \<longrightarrow>
        messages \<noteq> []
        \<and> (\<exists>s1 body. thread_parent env messages s = Inr (messages', s1)
             \<and> gather_loop env tz mil (make_message_dict (heap s) messages) messages' None [] Map.empty s1
                 = Inr ((body, md), s')
             \<and> html = body @ ''</div>''))"
proof (intro conjI impI)
  show empty: "gather_messages env [] tz mil s = Inl IndexError"
    by (simp add: gather_messages_def thread_parent_def io_simps)
  assume run: "gather_messages env messages tz mil s = Inr (((html, md), messages'), s')"
  with empty show "messages \<noteq> []"
    by auto
  from run show "\<exists>s1 body. thread_parent env messages s = Inr (messages', s1)
             \<and> gather_loop env tz mil (make_message_dict (heap s) messages) messages' None [] Map.empty s1
                 = Inr ((body, md), s')
             \<and> html = body @ ''</div>''"
    by (auto simp: gather_messages_def Let_def io_bind_def io_return_def split: sum.splits)
qed

lemma user_bob_simps:
  "user_id bob = 11" "display_name bob = ''bob''" "username bob = ''bob''" "tag bob = ''bob''"
  "user_bot bob = False" "avatar_url bob = ''a.png''" "joined_at bob = None"
  by (simp_all add: bob_def plain_user_def)

lemma single_message_run:
  "\<exists>md s'. gather_messages guild [0] ''UTC'' True (start_state [text_message 100 bob ''hi'' 0])
     = Inr (((''S</div>'', md), [0]), s')"
  by (simp add: gather_messages_def thread_parent_def io_simps builder_defs guild_simps
      text_message_simps user_bob_simps heap_start_state Let_def reference_truthy_def
      interaction_truthy_def utc_def template_mark_def)

theorem gather_messages_needs_a_message_witness:
  "\<exists>md s'. gather_messages guild [0] ''UTC'' True (start_state [text_message 100 bob ''hi'' 0])
       = Inr (((''S</div>'', md), [0]), s')
     \<and> [0] \<noteq> ([] :: nat list)
     \<and> (\<exists>s1 body. thread_parent guild [0] (start_state [text_message 100 bob ''hi'' 0]) = Inr ([0], s1)
          \<and> gather_loop guild ''UTC'' True
               (make_message_dict (heap (start_state [text_message 100 bob ''hi'' 0])) [0]) [0] None []
               Map.empty s1 = Inr ((body, md), s')
          \<and> ''S</div>'' = body @ ''</div>'')"
proof -
  from single_message_run obtain md s' where
    run: "gather_messages guild [0] ''UTC'' True (start_state [text_message 100 bob ''hi'' 0])
       = Inr (((''S</div>'', md), [0]), s')"
    by blast
  from gather_messages_needs_a_message [of guild "''UTC''" True
      "start_state [text_message 100 bob ''hi'' 0]" "[0]" "''S</div>''" md "[0]" s'] run
  show ?thesis by blast
qed

section \<open>What the steps return\<close>

lemma yields_return: "Q x \<Longrightarrow> io_yields Q (io_return x)"
  by (simp add: io_yields_def io_return_def)

lemma yields_raise: "io_yields Q (io_raise e)"
  by (simp add: io_yields_def io_raise_def)

lemma yields_bind: "(\<And>x. io_yields Q (f x)) \<Longrightarrow> io_yields Q (io_bind m f)"
  unfolding io_yields_def io_bind_def by (auto split: sum.splits)

lemma yields_bind_after:
  "io_yields P m \<Longrightarrow> (\<And>x. P x \<Longrightarrow> io_yields Q (f x)) \<Longrightarrow> io_yields Q (io_bind m f)"
  unfolding io_yields_def io_bind_def by (auto split: sum.splits) blast

lemma same_builder_refl: "same_builder self self"
  by (simp add: same_builder_def)

lemma same_builder_trans: "same_builder a b \<Longrightarrow> same_builder b c \<Longrightarrow> same_builder a c"
  by (simp add: same_builder_def)

lemmas yields_intros = yields_bind yields_return yields_raise

lemma yields_build_content: "io_yields (same_builder self) (build_content env self)"
  unfolding build_content_def Let_def
  by (auto intro!: yields_intros simp: same_builder_def)

lemma yields_reference_banner: "io_yields (same_builder self) (reference_banner env self r msg loc)"
  unfolding reference_banner_def Let_def
  by (auto intro!: yields_intros simp: same_builder_def)

lemma yields_build_reference: "io_yields (same_builder self) (build_reference env self)"
  unfolding build_reference_def
  by (auto intro!: yields_intros yields_reference_banner simp: same_builder_refl
      split: reference_slot.split option.split sum.split)

lemma yields_build_interaction: "io_yields (same_builder self) (build_interaction env self)"
  unfolding build_interaction_def Let_def
  by (auto intro!: yields_intros simp: same_builder_def split: interaction_slot.split)

lemma yields_build_assets: "io_yields (same_builder self) (build_assets env self)"
  unfolding build_assets_def Let_def
  by (auto intro!: yields_intros simp: same_builder_def)

lemma divider_same_builder:
  "generate_message_divider env channel_audit self s = Inr ((started, self'), s')
   \<Longrightarrow> same_builder self self'"
  by (auto simp: generate_message_divider_def io_simps Let_def same_builder_def
        gather_user_colour_apply gather_user_icon_apply default_timestamp_apply
      split: sum.splits option.splits if_splits prod.splits)

lemma yields_generate_message_divider:
  "io_yields (\<lambda>(started, self'). same_builder self self') (generate_message_divider env channel_audit self)"
  unfolding io_yields_def using divider_same_builder by fastforce

lemma yields_build_message_template: "io_yields (same_builder self) (build_message_template env self)"
  unfolding build_message_template_def
  by (rule yields_bind_after [OF yields_generate_message_divider])
     (auto intro!: yields_intros simp: same_builder_def)

lemma yields_build_pin_template: "io_yields (same_builder self) (build_pin_template env self)"
  unfolding build_pin_template_def
  by (auto intro!: yields_intros simp: same_builder_def split: reference_slot.split)

lemma yields_build_thread_template: "io_yields (same_builder self) (build_thread_template env self)"
  unfolding build_thread_template_def
  by (auto intro!: yields_intros simp: same_builder_def)

lemma yields_build_recipient: "io_yields (same_builder self) (build_recipient t url env self)"
  unfolding build_recipient_def
  by (auto intro!: yields_intros simp: same_builder_def split: list.split option.split)

lemma yields_after_divider:
  assumes "\<And>self'. io_yields (same_builder self') (f self')"
  shows "io_yields (same_builder self)
           (io_bind (generate_message_divider env True self) (\<lambda>(started, self'). f self'))"
  unfolding io_yields_def
proof (intro allI impI)
  fix s x s'
  assume "io_bind (generate_message_divider env True self) (\<lambda>(started, self'). f self') s = Inr (x, s')"
  then obtain y s1 where d: "generate_message_divider env True self s = Inr (y, s1)"
    and r: "(case y of (started, self') \<Rightarrow> f self') s1 = Inr (x, s')"
    by (erule io_bindE)
  obtain started self1 where y: "y = (started, self1)"
    by (cases y)
  from d y have "same_builder self self1"
    by (auto dest: divider_same_builder)
  moreover from r y assms [of self1] have "same_builder self1 x"
    unfolding io_yields_def by auto
  ultimately show "same_builder self x"
    by (rule same_builder_trans)
qed

lemma yields_notice:
  "io_yields (same_builder self) (build_pin env self)"
  "io_yields (same_builder self) (build_thread env self)"
  "io_yields (same_builder self) (build_thread_remove env self)"
  "io_yields (same_builder self) (build_thread_add env self)"
  unfolding build_pin_def build_thread_def build_thread_remove_def build_thread_add_def
    build_remove_def build_add_def
  by (intro yields_after_divider yields_build_pin_template yields_build_thread_template
        yields_build_recipient)+

section \<open>The per-author map\<close>

lemma keeps_frame: "io_keeps (steady (\<lambda>ev. False)) m \<Longrightarrow> m s = Inr (x, s') \<Longrightarrow> frame s s'"
  unfolding io_keeps_def steady_def by blast

lemma yields_same_builder: "io_yields (same_builder self) m \<Longrightarrow> m s = Inr (self', s') \<Longrightarrow> same_builder self self'"
  unfolding io_yields_def by blast

lemma build_message_steps:
  assumes "build_message env self s = Inr (self', s')"
  obtains self5 s5 where "same_builder self self5" "frame s s5"
    "build_meta_data env self5 s5 = Inr (self', s')"
proof -
  from assms obtain self1 s1 where 1: "build_content env self s = Inr (self1, s1)"
    and r1: "io_bind (build_reference env self1) (\<lambda>self.
       io_bind (build_interaction env self) (\<lambda>self.
       io_bind (build_assets env self) (\<lambda>self.
       io_bind (build_message_template env self) (\<lambda>self.
       build_meta_data env self)))) s1 = Inr (self', s')"
    unfolding build_message_def by (erule io_bindE)
  from r1 obtain self2 s2 where 2: "build_reference env self1 s1 = Inr (self2, s2)"
    and r2: "io_bind (build_interaction env self2) (\<lambda>self.
       io_bind (build_assets env self) (\<lambda>self.
       io_bind (build_message_template env self) (\<lambda>self.
       build_meta_data env self))) s2 = Inr (self', s')"
    by (erule io_bindE)
  from r2 obtain self3 s3 where 3: "build_interaction env self2 s2 = Inr (self3, s3)"
    and r3: "io_bind (build_assets env self3) (\<lambda>self.
       io_bind (build_message_template env self) (\<lambda>self.
       build_meta_data env self)) s3 = Inr (self', s')"
    by (erule io_bindE)
  from r3 obtain self4 s4 where 4: "build_assets env self3 s3 = Inr (self4, s4)"
    and r4: "io_bind (build_message_template env self4) (\<lambda>self.
       build_meta_data env self) s4 = Inr (self', s')"
    by (erule io_bindE)
  from r4 obtain self5 s5 where 5: "build_message_template env self4 s4 = Inr (self5, s5)"
    and r5: "build_meta_data env self5 s5 = Inr (self', s')"
    by (erule io_bindE)
  have "same_builder self self1" "same_builder self1 self2" "same_builder self2 self3"
    "same_builder self3 self4" "same_builder self4 self5"
    using 1 2 3 4 5 yields_build_content yields_build_reference yields_build_interaction
      yields_build_assets yields_build_message_template
    by (blast intro: yields_same_builder)+
  then have b: "same_builder self self5"
    by (blast intro: same_builder_trans)
  have "frame s s1" "frame s1 s2" "frame s2 s3" "frame s3 s4" "frame s4 s5"
    using 1 2 3 4 5
      keeps_build_content [of "\<lambda>ev. False"] keeps_build_reference [of "\<lambda>ev. False"]
      keeps_build_interaction [of "\<lambda>ev. False"] keeps_build_assets [of "\<lambda>ev. False"]
      keeps_build_message_template [of "\<lambda>ev. False"]
    by (blast intro: keeps_frame)+
  then have "frame s s5"
    by (blast intro: frame_trans)
  with b r5 that show thesis
    by blast
qed

lemma counts_positive_update:
  "counts_positive md \<Longrightarrow> 0 < meta_count entry \<Longrightarrow> counts_positive (md(uid \<mapsto> entry))"
  by (simp add: counts_positive_def message_count_def)

lemma build_meta_data_count:
  assumes "build_meta_data env self s = Inr (self', s')"
  shows "message_count (meta_data self') uid =
           message_count (meta_data self) uid
           + (if user_id (author (heap s (message self))) = uid then 1 else 0)"
    and "counts_positive (meta_data self) \<Longrightarrow> counts_positive (meta_data self')"
proof -
  show "message_count (meta_data self') uid =
           message_count (meta_data self) uid
           + (if user_id (author (heap s (message self))) = uid then 1 else 0)"
    using assms
    by (auto simp: build_meta_data_def io_simps Let_def message_count_def split: option.splits)
  assume "counts_positive (meta_data self)"
  with assms show "counts_positive (meta_data self')"
    by (auto simp: build_meta_data_def io_simps Let_def split: option.splits
        intro!: counts_positive_update)
qed

lemma notice_same_builder:
  assumes "notice_type (msg_type (heap s (message self)))"
    and "construct_message env self s = Inr ((h, md'), s')"
  shows "md' = meta_data self"
proof -
  from assms(2) obtain self' s1 where
    "(if msg_type (heap s (message self)) = CHANNEL_PINNED_MESSAGE then build_pin env self
      else if msg_type (heap s (message self)) = THREAD_CREATED then build_thread env self
      else if msg_type (heap s (message self)) = RECIPIENT_REMOVE then build_thread_remove env self
      else if msg_type (heap s (message self)) = RECIPIENT_ADD then build_thread_add env self
      else build_message env self) s = Inr (self', s1)" and "md' = meta_data self'"
    by (auto simp: construct_message_def io_simps split: sum.splits)
  with assms(1) yields_notice [of self env] show ?thesis
    by (auto simp: notice_type_def same_builder_def dest: yields_same_builder split: if_splits)
qed

lemma plain_build_message:
  assumes "\<not> notice_type (msg_type (heap s (message self)))"
    and "construct_message env self s = Inr ((h, md'), s')"
  obtains self' where "build_message env self s = Inr (self', s')" "md' = meta_data self'"
  using assms
  by (auto simp: construct_message_def io_simps notice_type_def split: sum.splits if_splits)

lemma construct_message_count:
  assumes "construct_message env self s = Inr ((h, md'), s')"
  shows "message_count md' uid =
           message_count (meta_data self) uid
           + (if user_id (author (heap s (message self))) = uid
                 \<and> \<not> notice_type (msg_type (heap s (message self))) then 1 else 0)"
    and "counts_positive (meta_data self) \<Longrightarrow> counts_positive md'"
proof -
  show "message_count md' uid =
           message_count (meta_data self) uid
           + (if user_id (author (heap s (message self))) = uid
                 \<and> \<not> notice_type (msg_type (heap s (message self))) then 1 else 0)"
  proof (cases "notice_type (msg_type (heap s (message self)))")
    case True
    with notice_same_builder [OF True assms] show ?thesis by simp
  next
    case False
    from plain_build_message [OF False assms] obtain self' where
      bm: "build_message env self s = Inr (self', s')" and md: "md' = meta_data self'"
      by blast
    from bm obtain self5 s5 where b: "same_builder self self5" and f: "frame s s5"
      and m: "build_meta_data env self5 s5 = Inr (self', s')"
      by (rule build_message_steps)
    from f have "author (heap s5 (message self)) = author (heap s (message self))"
      by (simp add: frame_def same_identity_def)
    with build_meta_data_count(1) [OF m, of uid] b False md show ?thesis
      by (simp add: same_builder_def)
  qed
  assume pos: "counts_positive (meta_data self)"
  show "counts_positive md'"
  proof (cases "notice_type (msg_type (heap s (message self)))")
    case True
    with notice_same_builder [OF True assms] pos show ?thesis by simp
  next
    case False
    from plain_build_message [OF False assms] obtain self' where
      bm: "build_message env self s = Inr (self', s')" and md: "md' = meta_data self'"
      by blast
    from bm obtain self5 s5 where b: "same_builder self self5"
      and m: "build_meta_data env self5 s5 = Inr (self', s')"
      by (rule build_message_steps)
    with build_meta_data_count(2) [OF m] pos md show ?thesis
      by (simp add: same_builder_def)
  qed
qed

lemma init_fields:
  assumes "MessageConstruct_init env a p tz mil md dict s = Inr (self, s')"
  shows "message self = a" "previous_message self = p" "meta_data self = md"
    "message_dict self = dict" "pytz_timezone self = tz"
  using assms
  by (auto simp: MessageConstruct_init_def io_simps Let_def split: sum.splits prod.splits)

lemma authored_plain_frame: "frame s s' \<Longrightarrow> authored_plain (heap s') uid ms = authored_plain (heap s) uid ms"
  by (simp add: authored_plain_def frame_def same_identity_def)

lemma gather_loop_count:
  assumes "gather_loop env tz mil dict ms p html md s = Inr ((h, md'), s')"
  shows "message_count md' uid = message_count md uid + length (authored_plain (heap s) uid ms)
         \<and> (counts_positive md \<longrightarrow> counts_positive md')"
  using assms
proof (induction ms arbitrary: p html md s)
  case Nil
  then show ?case by (simp add: io_return_def authored_plain_def)
next
  case (Cons a ms)
  from Cons.prems obtain self c md1 s2 where
      i: "MessageConstruct_init env a p tz mil md dict s = Inr (self, s)"
    and c: "construct_message env self s = Inr ((c, md1), s2)"
    and l: "gather_loop env tz mil dict ms (Some a) (html @ c) md1 s2 = Inr ((h, md'), s')"
    by (rule gather_loop_ConsE)
  from construct_message_frame [OF c] have f: "frame s s2" .
  note n = construct_message_count [OF c, unfolded init_fields [OF i]]
  from Cons.IH [OF l] n(1) [of uid] n(2) authored_plain_frame [OF f, of uid ms]
  show ?case
    by (auto simp: authored_plain_def)
qed

lemma fold_max_upper: "x \<in> set ms \<Longrightarrow> x \<le> fold max ms (k :: nat)"
proof (induction ms arbitrary: k)
  case Nil
  then show ?case by simp
next
  case (Cons m ms)
  have "max m k \<le> fold max ms (max m k)"
    by (induction ms arbitrary: k m) (auto intro: order_trans [OF max.cobounded2])
  with Cons show ?case
    by (auto intro: order_trans [OF max.cobounded1])
qed

lemma fresh_address_fresh: "fresh_address ms \<notin> set ms"
  using fold_max_upper [of "fresh_address ms" ms 0] by (auto simp: fresh_address_def)

lemma thread_parent_cases:
  assumes "thread_parent env messages s = Inr (messages', s1)"
  shows "messages \<noteq> [] \<and> tl messages' = tl messages
         \<and> (hd messages' = hd messages \<or> hd messages' = fresh_address messages)
         \<and> (\<forall>a. a \<noteq> fresh_address messages \<longrightarrow> heap s1 a = heap s a)"
  using assms
  by (auto simp: thread_parent_def io_simps
      split: list.splits if_splits reference_slot.splits sum.splits option.splits)

lemma gather_messages_steps:
  assumes "gather_messages env messages tz mil s = Inr (((html, md), messages'), s')"
  obtains s1 body where "thread_parent env messages s = Inr (messages', s1)"
    "gather_loop env tz mil (make_message_dict (heap s) messages) messages' None [] Map.empty s1
       = Inr ((body, md), s')"
    "html = body @ ''</div>''"
  using assms
  by (auto simp: gather_messages_def Let_def io_bind_def io_return_def split: sum.splits)

text \<open>
  C2, as amended. When the assembler returns, the per-author map has an entry for exactly
  the authors of the messages of the processed list that are no notice (pin,
  thread-created, member added or removed), and the entry's count is the number of such
  messages by that author. A notice counts for nobody.
\<close>

theorem gather_messages_counts_plain_messages:
  assumes "gather_messages env messages tz mil s = Inr (((html, md), messages'), s')"
  shows "(authored_plain (heap s') uid messages' = [] \<longrightarrow> md uid = None)
         \<and> (authored_plain (heap s') uid messages' \<noteq> [] \<longrightarrow>
              (\<exists>entry. md uid = Some entry
                 \<and> meta_count entry = length (authored_plain (heap s') uid messages')))"
proof -
  from assms obtain s1 body where
    l: "gather_loop env tz mil (make_message_dict (heap s) messages) messages' None [] Map.empty s1
       = Inr ((body, md), s')"
    by (rule gather_messages_steps)
  from gather_loop_frame [OF l] have "authored_plain (heap s') uid messages' = authored_plain (heap s1) uid messages'"
    by (rule authored_plain_frame)
  moreover have "message_count Map.empty uid = 0" "counts_positive Map.empty"
    by (simp_all add: message_count_def counts_positive_def)
  with gather_loop_count [OF l, of uid]
  have "message_count md uid = length (authored_plain (heap s1) uid messages')"
    and cp: "counts_positive md"
    by simp_all
  ultimately have n: "message_count md uid = length (authored_plain (heap s') uid messages')"
    by simp
  from cp have p: "md uid = None \<or> 0 < message_count md uid"
    by (simp add: counts_positive_def)
  show ?thesis
  proof (cases "md uid")
    case None
    with n show ?thesis by (simp add: message_count_def)
  next
    case (Some entry)
    with n p show ?thesis by (simp add: message_count_def)
  qed
qed

lemma single_message_run_heap:
  "\<exists>md s'. gather_messages guild [0] ''UTC'' True (start_state [text_message 100 bob ''hi'' 0])
       = Inr (((''S</div>'', md), [0]), s')
     \<and> user_id (author (heap s' 0)) = 11 \<and> msg_type (heap s' 0) = DEFAULT"
  by (simp add: gather_messages_def thread_parent_def io_simps builder_defs guild_simps
      text_message_simps user_bob_simps heap_start_state Let_def reference_truthy_def
      interaction_truthy_def utc_def template_mark_def)

theorem gather_messages_counts_plain_messages_witness:
  "\<exists>md s'. gather_messages guild [0] ''UTC'' True (start_state [text_message 100 bob ''hi'' 0])
       = Inr (((''S</div>'', md), [0]), s')
     \<and> authored_plain (heap s') 11 [0] = [0]
     \<and> (\<exists>entry. md 11 = Some entry \<and> meta_count entry = 1)
     \<and> md 10 = None"
proof -
  from single_message_run_heap obtain md s' where
    run: "gather_messages guild [0] ''UTC'' True (start_state [text_message 100 bob ''hi'' 0])
       = Inr (((''S</div>'', md), [0]), s')"
    and h: "user_id (author (heap s' 0)) = 11" "msg_type (heap s' 0) = DEFAULT"
    by blast
  from h have a: "authored_plain (heap s') 11 [0] = [0]" "authored_plain (heap s') 10 [0] = []"
    by (simp_all add: authored_plain_def notice_type_def)
  from gather_messages_counts_plain_messages [OF run, of 11]
    gather_messages_counts_plain_messages [OF run, of 10] a
  have "\<exists>entry. md 11 = Some entry \<and> meta_count entry = 1" "md 10 = None"
    by simp_all
  with run a show ?thesis by blast
qed

lemma pin_message_simps:
  "msg_id pin_message = 102" "author pin_message = bob" "content pin_message = []"
  "created_at pin_message = utc 120" "edited_timestamp pin_message = None"
  "msg_type pin_message = CHANNEL_PINNED_MESSAGE"
  "message_reference pin_message = Reference \<lparr>ref_message_id = 100, ref_channel_id = 3\<rparr>"
  "channel_type pin_message = ''ChannelType.GUILD_TEXT''"
  by (simp_all add: pin_message_def text_message_simps)

text \<open>
  C2 as stated fails: bob wrote the one message of the list, a pin notice, and the map
  has no entry for him.
\<close>

theorem pin_notice_not_counted_counterexample:
  "\<exists>html md s'. gather_messages guild [0] ''UTC'' True (start_state [pin_message])
       = Inr (((html, md), [0]), s')
     \<and> authored (heap s') 11 [0] = [0]
     \<and> md 11 = None"
  by (simp add: gather_messages_def thread_parent_def io_simps builder_defs guild_simps
      pin_message_simps user_bob_simps heap_start_state Let_def reference_truthy_def
      utc_def template_mark_def authored_def guild_text_is_no_thread)

section \<open>Member notices\<close>

lemma gather_user_colour_None: "gather_user_colour env None s = Inl AttributeError"
  by (simp add: gather_user_colour_def gather_member_def io_simps)

lemma divider_audit:
  "generate_message_divider env True self s =
     (case previous_message self of
        None \<Rightarrow> Inr ((False, self\<lparr>audit := True\<rparr>), s)
      | Some p \<Rightarrow>
          Inr ((False, self\<lparr>message_html := message_html self @ fill_out env end_message [],
                              audit := True\<rparr>),
               s\<lparr>trace := trace s @ [FillOut end_message]\<rparr>))"
  by (simp add: generate_message_divider_def io_simps split: option.splits)

lemma divider_audit_fields:
  assumes "generate_message_divider env True self s = Inr ((started, self1), s1)"
  shows "message self1 = message self" "heap s1 = heap s"
    "\<exists>evs. trace s1 = trace s @ evs"
  using assms by (auto simp: divider_audit split: option.splits)

lemma build_recipient_returns:
  assumes "build_recipient t url env self s = Inr (self', s')"
  shows "\<exists>i rest u. mention_ids (heap s (message self)) = i # rest
           \<and> fetch_member env i = Inr (Some u) \<and> FetchMember i \<in> set (trace s')"
  using assms
  by (auto simp: build_recipient_def io_simps gather_user_colour_apply gather_user_colour_None
      split: list.splits sum.splits option.splits)

lemma recipient_construct:
  assumes "msg_type (heap s (message self)) = RECIPIENT_REMOVE
           \<or> msg_type (heap s (message self)) = RECIPIENT_ADD"
    and "construct_message env self s = Inr (r, s')"
  obtains started self1 s1 t url self' where
    "generate_message_divider env True self s = Inr ((started, self1), s1)"
    "build_recipient t url env self1 s1 = Inr (self', s')"
  using assms
  by (auto simp: construct_message_def build_thread_remove_def build_thread_add_def
        build_remove_def build_add_def io_bind_def io_return_def read_message_def
      split: sum.splits if_splits)

lemma recipient_needs_member:
  assumes "msg_type (heap s (message self)) = RECIPIENT_REMOVE
           \<or> msg_type (heap s (message self)) = RECIPIENT_ADD"
    and "construct_message env self s = Inr (r, s')"
  shows "\<exists>i rest u. mention_ids (heap s (message self)) = i # rest
           \<and> fetch_member env i = Inr (Some u) \<and> FetchMember i \<in> set (trace s')"
proof -
  from assms obtain started self1 s1 t url self' where
    d: "generate_message_divider env True self s = Inr ((started, self1), s1)" and
    b: "build_recipient t url env self1 s1 = Inr (self', s')"
    by (rule recipient_construct)
  from build_recipient_returns [OF b] divider_audit_fields(1,2) [OF d] show ?thesis
    by simp
qed

lemma gather_loop_needs_members:
  assumes "gather_loop env tz mil dict ms p html md s = Inr (r, s')"
    and "a \<in> set ms"
    and "msg_type (heap s a) = RECIPIENT_REMOVE \<or> msg_type (heap s a) = RECIPIENT_ADD"
  shows "\<exists>i rest u. mention_ids (heap s a) = i # rest \<and> fetch_member env i = Inr (Some u)"
  using assms
proof (induction ms arbitrary: p html md s)
  case Nil
  then show ?case by simp
next
  case (Cons b ms)
  from Cons.prems(1) obtain self c md1 s2 where
      i: "MessageConstruct_init env b p tz mil md dict s = Inr (self, s)"
    and c: "construct_message env self s = Inr ((c, md1), s2)"
    and l: "gather_loop env tz mil dict ms (Some b) (html @ c) md1 s2 = Inr (r, s')"
    by (rule gather_loop_ConsE)
  show ?case
  proof (cases "a = b")
    case True
    with recipient_needs_member [OF _ c] Cons.prems(3) init_fields(1) [OF i] show ?thesis
      by auto
  next
    case False
    with Cons.prems(2) have "a \<in> set ms" by simp
    moreover from construct_message_frame [OF c]
    have "msg_type (heap s2 a) = msg_type (heap s a)" "mention_ids (heap s2 a) = mention_ids (heap s a)"
      by (simp_all add: frame_def same_identity_def)
    ultimately show ?thesis
      using Cons.IH [OF l] Cons.prems(3) by simp
  qed
qed

text \<open>
  C7. A member-added or member-removed notice takes the first id of the message's mention
  list and fetches that member from the guild. When the fetch raises or finds no member,
  the construction of the message raises; a construction that returns has fetched a
  member. And the assembler raises when the list it processes holds such a notice whose
  member cannot be fetched.
\<close>

theorem member_notice_needs_member:
  "(msg_type (heap s (message self)) = RECIPIENT_REMOVE
      \<or> msg_type (heap s (message self)) = RECIPIENT_ADD \<longrightarrow>
      (\<forall>i rest. mention_ids (heap s (message self)) = i # rest
          \<and> (fetch_member env i = Inr None \<or> (\<exists>e. fetch_member env i = Inl e)) \<longrightarrow>
          (\<exists>e. construct_message env self s = Inl e))
      \<and> (\<forall>r s'. construct_message env self s = Inr (r, s') \<longrightarrow>
          (\<exists>i rest u. mention_ids (heap s (message self)) = i # rest
              \<and> fetch_member env i = Inr (Some u) \<and> FetchMember i \<in> set (trace s'))))
   \<and> (thread_parent env messages s = Inr (messages', s1) \<and> a \<in> set messages'
        \<and> (msg_type (heap s1 a) = RECIPIENT_REMOVE \<or> msg_type (heap s1 a) = RECIPIENT_ADD)
        \<and> mention_ids (heap s1 a) = i # rest
        \<and> (fetch_member env i = Inr None \<or> (\<exists>e. fetch_member env i = Inl e)) \<longrightarrow>
        (\<exists>e. gather_messages env messages tz mil s = Inl e))"
proof (intro conjI impI allI)
  fix r s'
  assume "msg_type (heap s (message self)) = RECIPIENT_REMOVE
      \<or> msg_type (heap s (message self)) = RECIPIENT_ADD"
    and "construct_message env self s = Inr (r, s')"
  then show "\<exists>i rest u. mention_ids (heap s (message self)) = i # rest
              \<and> fetch_member env i = Inr (Some u) \<and> FetchMember i \<in> set (trace s')"
    by (rule recipient_needs_member)
next
  fix i rest
  assume t: "msg_type (heap s (message self)) = RECIPIENT_REMOVE
      \<or> msg_type (heap s (message self)) = RECIPIENT_ADD"
    and f: "mention_ids (heap s (message self)) = i # rest
          \<and> (fetch_member env i = Inr None \<or> (\<exists>e. fetch_member env i = Inl e))"
  show "\<exists>e. construct_message env self s = Inl e"
  proof (cases "construct_message env self s")
    case (Inl e)
    then show ?thesis by blast
  next
    case (Inr x)
    then obtain r s' where "construct_message env self s = Inr (r, s')"
      by (cases x) auto
    from recipient_needs_member [OF t this] f show ?thesis
      by auto
  qed
next
  assume h: "thread_parent env messages s = Inr (messages', s1) \<and> a \<in> set messages'
        \<and> (msg_type (heap s1 a) = RECIPIENT_REMOVE \<or> msg_type (heap s1 a) = RECIPIENT_ADD)
        \<and> mention_ids (heap s1 a) = i # rest
        \<and> (fetch_member env i = Inr None \<or> (\<exists>e. fetch_member env i = Inl e))"
  show "\<exists>e. gather_messages env messages tz mil s = Inl e"
  proof (cases "gather_messages env messages tz mil s")
    case (Inl e)
    then show ?thesis by blast
  next
    case (Inr x)
    then obtain html md ms s' where "gather_messages env messages tz mil s = Inr (((html, md), ms), s')"
      by (metis surj_pair)
    then obtain s1' body where
      t: "thread_parent env messages s = Inr (ms, s1')" and
      l: "gather_loop env tz mil (make_message_dict (heap s) messages) ms None [] Map.empty s1'
            = Inr ((body, md), s')"
      by (rule gather_messages_steps)
    from t h have "ms = messages'" "s1' = s1"
      by simp_all
    with gather_loop_needs_members [OF l, of a] h show ?thesis
      by auto
  qed
qed

lemma add_message_simps:
  "msg_type add_message = RECIPIENT_ADD" "mention_ids add_message = [12]"
  "message_reference add_message = NoReference"
  "channel_type add_message = ''ChannelType.GUILD_TEXT''"
  by (simp_all add: add_message_def text_message_simps)

theorem member_notice_needs_member_witness:
  "msg_type (heap (start_state [add_message]) (message (builder 0 None Map.empty))) = RECIPIENT_ADD
   \<and> mention_ids (heap (start_state [add_message]) (message (builder 0 None Map.empty))) = [12]
   \<and> fetch_member guild 12 = Inr None
   \<and> (\<exists>e. construct_message guild (builder 0 None Map.empty) (start_state [add_message]) = Inl e)
   \<and> thread_parent guild [0] (start_state [add_message]) = Inr ([0], start_state [add_message])
   \<and> (\<exists>e. gather_messages guild [0] ''UTC'' True (start_state [add_message]) = Inl e)"
proof -
  have t: "msg_type (heap (start_state [add_message]) (message (builder 0 None Map.empty))) = RECIPIENT_ADD"
    and m: "mention_ids (heap (start_state [add_message]) (message (builder 0 None Map.empty))) = [12]"
    and f: "fetch_member guild 12 = Inr None"
    by (simp_all add: heap_start_state builder_simps add_message_simps guild_simps)
  have p: "thread_parent guild [0] (start_state [add_message]) = Inr ([0], start_state [add_message])"
    by (simp add: thread_parent_def io_simps heap_start_state add_message_simps reference_truthy_def)
  note inst = member_notice_needs_member [where env = guild and self = "builder 0 None Map.empty"
      and s = "start_state [add_message]" and messages = "[0]" and messages' = "[0]"
      and ?s1.0 = "start_state [add_message]" and a = 0 and i = 12 and rest = "[]"
      and tz = "''UTC''" and mil = True]
  from inst t m f have "\<exists>e. construct_message guild (builder 0 None Map.empty) (start_state [add_message]) = Inl e"
    by blast
  moreover from inst p m t f have "\<exists>e. gather_messages guild [0] ''UTC'' True (start_state [add_message]) = Inl e"
    by (simp add: builder_simps)
  ultimately show ?thesis
    using t m f p by blast
qed

section \<open>Closing a block\<close>

lemma check_state: "generate_message_divider_check self s = Inr (b, s1) \<Longrightarrow> s1 = s"
  by (auto simp: generate_message_divider_check_def io_simps split: option.splits if_splits sum.splits)

lemma divider_plain_events:
  assumes "generate_message_divider env False self s = Inr ((started, self'), s')"
  shows "filter is_end_message (trace s') =
           filter is_end_message (trace s)
           @ (if started \<and> previous_message self \<noteq> None then [FillOut end_message] else [])"
    and "filter is_start_message (trace s') =
           filter is_start_message (trace s) @ (if started then [FillOut start_message] else [])"
  using assms
  by (auto simp: generate_message_divider_def io_bind_def io_return_def io_lift_def
        read_message_def log_event_def await_fill_out_def Let_def default_timestamp_apply
        gather_user_colour_apply gather_user_icon_apply is_end_message_def is_start_message_def
      dest!: check_state
      split: sum.splits option.splits if_splits prod.splits)

lemma keeps_events:
  "io_keeps (steady P) m \<Longrightarrow> m s = Inr (x, s') \<Longrightarrow> filter P (trace s') = filter P (trace s)"
  unfolding io_keeps_def steady_def by blast

lemma not_end_message [simp]:
  "\<not> is_end_message (FetchMember i)" "\<not> is_end_message (FetchMessage c i)"
  "t \<noteq> end_message \<Longrightarrow> \<not> is_end_message (FillOut t)"
  by (simp_all add: is_end_message_def)

lemma not_start_message [simp]:
  "\<not> is_start_message (FetchMember i)" "\<not> is_start_message (FetchMessage c i)"
  "t \<noteq> start_message \<Longrightarrow> \<not> is_start_message (FillOut t)"
  by (simp_all add: is_start_message_def)

lemma after_audit_events:
  assumes "io_bind (generate_message_divider env True self) (\<lambda>(started, self1). f self1) s = Inr (self', s')"
    and "\<And>self1. io_keeps (steady is_end_message) (f self1)"
    and "\<And>self1. io_keeps (steady is_start_message) (f self1)"
  shows "occurrences is_start_message s' = occurrences is_start_message s
         \<and> occurrences is_end_message s' =
             occurrences is_end_message s + (if previous_message self = None then 0 else 1)"
proof -
  from assms(1) obtain y s1 where d: "generate_message_divider env True self s = Inr (y, s1)"
    and r: "(case y of (started, self1) \<Rightarrow> f self1) s1 = Inr (self', s')"
    by (erule io_bindE)
  obtain started self1 where y: "y = (started, self1)"
    by (cases y)
  from r y have "f self1 s1 = Inr (self', s')"
    by simp
  with assms(2,3) have "filter is_end_message (trace s') = filter is_end_message (trace s1)"
    "filter is_start_message (trace s') = filter is_start_message (trace s1)"
    by (blast intro: keeps_events)+
  moreover from d y have "trace s1 = trace s @ (if previous_message self = None then [] else [FillOut end_message])"
    by (auto simp: divider_audit split: option.splits)
  ultimately show ?thesis
    by (simp add: occurrences_def is_end_message_def is_start_message_def)
qed

lemma notice_events:
  assumes "notice_type (msg_type (heap s (message self)))"
    and "construct_message env self s = Inr (r, s')"
  shows "occurrences is_start_message s' = occurrences is_start_message s
         \<and> occurrences is_end_message s' =
             occurrences is_end_message s + (if previous_message self = None then 0 else 1)"
proof -
  from assms(2) obtain self' where
    b: "(if msg_type (heap s (message self)) = CHANNEL_PINNED_MESSAGE then build_pin env self
      else if msg_type (heap s (message self)) = THREAD_CREATED then build_thread env self
      else if msg_type (heap s (message self)) = RECIPIENT_REMOVE then build_thread_remove env self
      else if msg_type (heap s (message self)) = RECIPIENT_ADD then build_thread_add env self
      else build_message env self) s = Inr (self', s')"
    by (auto simp: construct_message_def io_simps split: sum.splits)
  from assms(1) consider
      "msg_type (heap s (message self)) = CHANNEL_PINNED_MESSAGE"
    | "msg_type (heap s (message self)) = THREAD_CREATED"
    | "msg_type (heap s (message self)) = RECIPIENT_REMOVE"
    | "msg_type (heap s (message self)) = RECIPIENT_ADD"
    by (auto simp: notice_type_def)
  then show ?thesis
  proof cases
    case 1
    with b have "build_pin env self s = Inr (self', s')" by simp
    then show ?thesis
      unfolding build_pin_def
      by (rule after_audit_events) (rule keeps_build_pin_template; simp)+
  next
    case 2
    with b have "build_thread env self s = Inr (self', s')" by simp
    then show ?thesis
      unfolding build_thread_def
      by (rule after_audit_events) (rule keeps_build_thread_template; simp)+
  next
    case 3
    with b have "build_thread_remove env self s = Inr (self', s')" by simp
    then show ?thesis
      unfolding build_thread_remove_def build_remove_def
      by (rule after_audit_events) (rule keeps_build_recipient; simp)+
  next
    case 4
    with b have "build_thread_add env self s = Inr (self', s')" by simp
    then show ?thesis
      unfolding build_thread_add_def build_add_def
      by (rule after_audit_events) (rule keeps_build_recipient; simp)+
  qed
qed

lemma build_message_run:
  assumes "build_message env self s = Inr (self', s')"
  obtains self1 s1 self2 s2 self3 s3 self4 s4 self5 s5 where
    "build_content env self s = Inr (self1, s1)"
    "build_reference env self1 s1 = Inr (self2, s2)"
    "build_interaction env self2 s2 = Inr (self3, s3)"
    "build_assets env self3 s3 = Inr (self4, s4)"
    "build_message_template env self4 s4 = Inr (self5, s5)"
    "build_meta_data env self5 s5 = Inr (self', s')"
proof -
  from assms obtain self1 s1 where 1: "build_content env self s = Inr (self1, s1)"
    and r1: "io_bind (build_reference env self1) (\<lambda>self.
       io_bind (build_interaction env self) (\<lambda>self.
       io_bind (build_assets env self) (\<lambda>self.
       io_bind (build_message_template env self) (\<lambda>self.
       build_meta_data env self)))) s1 = Inr (self', s')"
    unfolding build_message_def by (erule io_bindE)
  from r1 obtain self2 s2 where 2: "build_reference env self1 s1 = Inr (self2, s2)"
    and r2: "io_bind (build_interaction env self2) (\<lambda>self.
       io_bind (build_assets env self) (\<lambda>self.
       io_bind (build_message_template env self) (\<lambda>self.
       build_meta_data env self))) s2 = Inr (self', s')"
    by (erule io_bindE)
  from r2 obtain self3 s3 where 3: "build_interaction env self2 s2 = Inr (self3, s3)"
    and r3: "io_bind (build_assets env self3) (\<lambda>self.
       io_bind (build_message_template env self) (\<lambda>self.
       build_meta_data env self)) s3 = Inr (self', s')"
    by (erule io_bindE)
  from r3 obtain self4 s4 where 4: "build_assets env self3 s3 = Inr (self4, s4)"
    and r4: "io_bind (build_message_template env self4) (\<lambda>self.
       build_meta_data env self) s4 = Inr (self', s')"
    by (erule io_bindE)
  from r4 obtain self5 s5 where 5: "build_message_template env self4 s4 = Inr (self5, s5)"
    and 6: "build_meta_data env self5 s5 = Inr (self', s')"
    by (erule io_bindE)
  from 1 2 3 4 5 6 that show thesis
    by blast
qed

text \<open>The steps before the header leave the gathered markup alone, and so does the last.\<close>

lemma html_build_content:
  "io_yields (\<lambda>self'. message_html self' = message_html self) (build_content env self)"
  unfolding build_content_def Let_def
  by (auto intro!: yields_intros)

lemma html_reference_banner:
  "io_yields (\<lambda>self'. message_html self' = message_html self) (reference_banner env self r msg loc)"
  unfolding reference_banner_def Let_def
  by (auto intro!: yields_intros)

lemma html_build_reference:
  "io_yields (\<lambda>self'. message_html self' = message_html self) (build_reference env self)"
  unfolding build_reference_def
  by (auto intro!: yields_intros html_reference_banner
      split: reference_slot.split option.split sum.split)

lemma html_build_interaction:
  "io_yields (\<lambda>self'. message_html self' = message_html self) (build_interaction env self)"
  unfolding build_interaction_def Let_def
  by (auto intro!: yields_intros split: interaction_slot.split)

lemma html_build_assets:
  "io_yields (\<lambda>self'. message_html self' = message_html self) (build_assets env self)"
  unfolding build_assets_def Let_def
  by (auto intro!: yields_intros)

lemma html_build_meta_data:
  "io_yields (\<lambda>self'. message_html self' = message_html self) (build_meta_data env self)"
  unfolding build_meta_data_def Let_def
  by (auto intro!: yields_intros split: option.split)

lemma yields_apply: "io_yields Q m \<Longrightarrow> m s = Inr (x, s') \<Longrightarrow> Q x"
  unfolding io_yields_def by blast

text \<open>What the header and the lines of the notices add to the markup, and to no message.\<close>

lemma fill_ex: "\<exists>subs. fill_out env t xs = fill_out env t subs"
  by (rule exI) (rule refl)

lemma divider_plain_html:
  assumes "generate_message_divider env False self s = Inr ((started, self'), s')"
  shows "started \<Longrightarrow> appended env (previous_message self \<noteq> None) start_message self self'"
    and "\<not> started \<Longrightarrow> self' = self"
    and "heap s' = heap s"
  using assms
  by (auto simp: generate_message_divider_def appended_def io_bind_def io_return_def io_lift_def
        read_message_def log_event_def await_fill_out_def Let_def default_timestamp_apply fill_ex
        gather_user_colour_apply gather_user_icon_apply
      dest!: check_state
      split: sum.splits option.splits if_splits prod.splits)

lemma build_message_template_block:
  assumes "build_message_template env self s = Inr (self', s')"
  obtains started self1 s1 where
    "generate_message_divider env False self s = Inr ((started, self1), s1)"
    "appended env (started \<and> previous_message self \<noteq> None)
       (if started then start_message else message_body) self self'"
    "filter is_end_message (trace s') =
       filter is_end_message (trace s)
       @ (if started \<and> previous_message self \<noteq> None then [FillOut end_message] else [])"
    "filter is_start_message (trace s') =
       filter is_start_message (trace s) @ (if started then [FillOut start_message] else [])"
    "heap s' = heap s"
proof -
  from assms obtain y s1 where d: "generate_message_divider env False self s = Inr (y, s1)"
    and r: "(case y of (started, self) \<Rightarrow>
       if started then io_return self
       else
         io_bind (read_message (message self)) (\<lambda>m.
         io_bind (io_lift (last_word (message_created_at self))) (\<lambda>time.
         io_bind (await_fill_out env message_body
                    [(''MESSAGE_ID'', str_nat (msg_id m), None),
                     (''MESSAGE_CONTENT'', content m, Some PARSE_MODE_NONE),
                     (''EMBEDS'', self_embeds self, Some PARSE_MODE_NONE),
                     (''ATTACHMENTS'', self_attachments self, Some PARSE_MODE_NONE),
                     (''COMPONENTS'', self_components self, Some PARSE_MODE_NONE),
                     (''EMOJI'', self_reactions self, Some PARSE_MODE_NONE),
                     (''TIMESTAMP'', message_created_at self, Some PARSE_MODE_NONE),
                     (''TIME'', time, Some PARSE_MODE_NONE)]) (\<lambda>h.
         io_return (self\<lparr>message_html := message_html self @ h\<rparr>))))) s1 = Inr (self', s')"
    unfolding build_message_template_def by (erule io_bindE)
  obtain started self1 where y: "y = (started, self1)"
    by (cases y)
  note d' = d [unfolded y]
  have ev: "filter is_end_message (trace s') = filter is_end_message (trace s1)
      \<and> filter is_start_message (trace s') = filter is_start_message (trace s1)
      \<and> heap s' = heap s1"
    using r y
    by (auto simp: io_simps is_end_message_def is_start_message_def split: if_splits sum.splits)
  have html: "appended env (started \<and> previous_message self \<noteq> None)
       (if started then start_message else message_body) self self'"
  proof (cases started)
    case True
    with r y have "self' = self1" by (simp add: io_return_def)
    with divider_plain_html(1) [OF d' True] True show ?thesis by simp
  next
    case False
    from divider_plain_html(2) [OF d' False] have "self1 = self" .
    with r y False show ?thesis
      by (auto simp: appended_def io_simps fill_ex split: sum.splits)
  qed
  from divider_plain_events [OF d'] divider_plain_html(3) [OF d'] ev html d' that show thesis
    by simp
qed

lemma pin_template_html:
  assumes "build_pin_template env self s = Inr (self', s')"
  shows "appended env False message_pin self self'" and "heap s' = heap s"
  using assms
  by (auto simp: build_pin_template_def appended_def io_simps gather_user_colour_apply fill_ex
      split: sum.splits reference_slot.splits)

lemma thread_template_html:
  assumes "build_thread_template env self s = Inr (self', s')"
  shows "appended env False message_thread self self'" and "heap s' = heap s"
  using assms
  by (auto simp: build_thread_template_def appended_def io_simps gather_user_colour_apply fill_ex
      split: sum.splits)

lemma recipient_html:
  assumes "build_recipient t url env self s = Inr (self', s')"
  shows "appended env False t self self'" and "heap s' = heap s"
  using assms
  by (auto simp: build_recipient_def appended_def io_simps gather_user_colour_apply
        gather_user_colour_None fill_ex
      split: list.splits sum.splits option.splits)

lemma appended_after_audit:
  assumes "io_bind (generate_message_divider env True self) (\<lambda>(started, self1). f self1) s = Inr (self', s')"
    and "\<And>self1 s1. f self1 s1 = Inr (self', s') \<Longrightarrow> appended env False t self1 self' \<and> heap s' = heap s1"
  shows "appended env (previous_message self \<noteq> None) t self self'" and "heap s' = heap s"
proof -
  from assms(1) obtain y s1 where d: "generate_message_divider env True self s = Inr (y, s1)"
    and r: "(case y of (started, self1) \<Rightarrow> f self1) s1 = Inr (self', s')"
    by (erule io_bindE)
  obtain started self1 where y: "y = (started, self1)"
    by (cases y)
  from r y have "f self1 s1 = Inr (self', s')"
    by simp
  from assms(2) [OF this] have a: "appended env False t self1 self'" and h: "heap s' = heap s1"
    by simp_all
  from d y have "message_html self1 =
      message_html self @ (if previous_message self \<noteq> None then fill_out env end_message [] else [])"
    and "heap s1 = heap s"
    by (auto simp: divider_audit split: option.splits)
  with a h show "appended env (previous_message self \<noteq> None) t self self'" and "heap s' = heap s"
    by (auto simp: appended_def)
qed

lemma notice_html:
  assumes "notice_type (msg_type (heap s (message self)))"
    and "construct_message env self s = Inr ((html, md), s')"
  shows "\<exists>subs. html = message_html self
            @ (if previous_message self \<noteq> None then fill_out env end_message [] else [])
            @ fill_out env (notice_template (msg_type (heap s (message self)))) subs"
    and "heap s' = heap s"
proof -
  from assms(2) obtain self' where
    b: "(if msg_type (heap s (message self)) = CHANNEL_PINNED_MESSAGE then build_pin env self
      else if msg_type (heap s (message self)) = THREAD_CREATED then build_thread env self
      else if msg_type (heap s (message self)) = RECIPIENT_REMOVE then build_thread_remove env self
      else if msg_type (heap s (message self)) = RECIPIENT_ADD then build_thread_add env self
      else build_message env self) s = Inr (self', s')" and h: "html = message_html self'"
    by (auto simp: construct_message_def io_simps split: sum.splits)
  from assms(1) consider
      "msg_type (heap s (message self)) = CHANNEL_PINNED_MESSAGE"
    | "msg_type (heap s (message self)) = THREAD_CREATED"
    | "msg_type (heap s (message self)) = RECIPIENT_REMOVE"
    | "msg_type (heap s (message self)) = RECIPIENT_ADD"
    by (auto simp: notice_type_def)
  then have "appended env (previous_message self \<noteq> None)
               (notice_template (msg_type (heap s (message self)))) self self'
             \<and> heap s' = heap s"
  proof cases
    case 1
    with b have "build_pin env self s = Inr (self', s')" by simp
    from appended_after_audit [OF this [unfolded build_pin_def], of message_pin] 1
    show ?thesis
      by (simp add: notice_template_def pin_template_html)
  next
    case 2
    with b have "build_thread env self s = Inr (self', s')" by simp
    from appended_after_audit [OF this [unfolded build_thread_def], of message_thread] 2
    show ?thesis
      by (simp add: notice_template_def thread_template_html)
  next
    case 3
    with b have "build_thread_remove env self s = Inr (self', s')" by simp
    from appended_after_audit [OF this [unfolded build_thread_remove_def build_remove_def],
        of message_thread_remove] 3
    show ?thesis
      by (simp add: notice_template_def recipient_html)
  next
    case 4
    with b have "build_thread_add env self s = Inr (self', s')" by simp
    from appended_after_audit [OF this [unfolded build_thread_add_def build_add_def],
        of message_thread_add] 4
    show ?thesis
      by (simp add: notice_template_def recipient_html)
  qed
  with h show "\<exists>subs. html = message_html self
            @ (if previous_message self \<noteq> None then fill_out env end_message [] else [])
            @ fill_out env (notice_template (msg_type (heap s (message self)))) subs"
    and "heap s' = heap s"
    by (auto simp: appended_def)
qed

lemma build_message_block:
  assumes "build_message env self s = Inr (self', s')"
  shows "\<exists>started s1 subs.
       starts_new_block env self s = Inr (started, s1)
       \<and> message_html self' = message_html self
            @ (if started \<and> previous_message self \<noteq> None then fill_out env end_message [] else [])
            @ fill_out env (if started then start_message else message_body) subs
       \<and> occurrences is_end_message s' =
            occurrences is_end_message s + (if started \<and> previous_message self \<noteq> None then 1 else 0)
       \<and> occurrences is_start_message s' =
            occurrences is_start_message s + (if started then 1 else 0)"
proof -
  from assms obtain self1 s1 self2 s2 self3 s3 self4 s4 self5 s5 where
    1: "build_content env self s = Inr (self1, s1)" and
    2: "build_reference env self1 s1 = Inr (self2, s2)" and
    3: "build_interaction env self2 s2 = Inr (self3, s3)" and
    4: "build_assets env self3 s3 = Inr (self4, s4)" and
    5: "build_message_template env self4 s4 = Inr (self5, s5)" and
    6: "build_meta_data env self5 s5 = Inr (self', s')"
    by (rule build_message_run)
  have "same_builder self self1" "same_builder self1 self2" "same_builder self2 self3"
    "same_builder self3 self4"
    using 1 2 3 4 yields_build_content yields_build_reference yields_build_interaction
      yields_build_assets
    by (blast intro: yields_same_builder)+
  then have p: "previous_message self4 = previous_message self"
    by (simp add: same_builder_def)
  have h4: "message_html self4 = message_html self"
    using yields_apply [OF html_build_content 1] yields_apply [OF html_build_reference 2]
      yields_apply [OF html_build_interaction 3] yields_apply [OF html_build_assets 4]
    by simp
  have h6: "message_html self' = message_html self5"
    using yields_apply [OF html_build_meta_data 6] by simp
  have e: "filter is_end_message (trace s4) = filter is_end_message (trace s)"
    using keeps_events [OF keeps_build_content 1, of is_end_message]
      keeps_events [OF keeps_build_reference 2, of is_end_message]
      keeps_events [OF keeps_build_interaction 3, of is_end_message]
      keeps_events [OF keeps_build_assets 4, of is_end_message]
    by simp
  have b: "filter is_start_message (trace s4) = filter is_start_message (trace s)"
    using keeps_events [OF keeps_build_content 1, of is_start_message]
      keeps_events [OF keeps_build_reference 2, of is_start_message]
      keeps_events [OF keeps_build_interaction 3, of is_start_message]
      keeps_events [OF keeps_build_assets 4, of is_start_message]
    by simp
  have m: "filter is_end_message (trace s') = filter is_end_message (trace s5)"
    "filter is_start_message (trace s') = filter is_start_message (trace s5)"
    using keeps_events [OF keeps_build_meta_data 6] by blast+
  from 5 obtain started selfd sd where
    d: "generate_message_divider env False self4 s4 = Inr ((started, selfd), sd)" and
    a: "appended env (started \<and> previous_message self4 \<noteq> None)
       (if started then start_message else message_body) self4 self5" and
    te: "filter is_end_message (trace s5) =
       filter is_end_message (trace s4)
       @ (if started \<and> previous_message self4 \<noteq> None then [FillOut end_message] else [])" and
    ts: "filter is_start_message (trace s5) =
       filter is_start_message (trace s4) @ (if started then [FillOut start_message] else [])"
    by (rule build_message_template_block)
  from 1 2 3 4 d have run: "starts_new_block env self s = Inr (started, sd)"
    by (simp add: starts_new_block_def io_bind_def io_return_def)
  from a p h4 h6 obtain subs where
    html: "message_html self' = message_html self
            @ (if started \<and> previous_message self \<noteq> None then fill_out env end_message [] else [])
            @ fill_out env (if started then start_message else message_body) subs"
    by (auto simp: appended_def)
  from te ts e b m p have
    "occurrences is_end_message s' =
       occurrences is_end_message s + (if started \<and> previous_message self \<noteq> None then 1 else 0)"
    "occurrences is_start_message s' = occurrences is_start_message s + (if started then 1 else 0)"
    by (simp_all add: occurrences_def)
  with run html show ?thesis
    by blast
qed

text \<open>
  C6. The markup a construction returns is the markup the builder held, then the closing
  fragment where one is due, then the one fragment of the message itself; and the engine
  has been asked for the closing fragment as often as it is in that markup.

    \<^item> For a notice (pin, thread-created, member added or removed) the closing fragment
      is there exactly when the message has a previous one, whatever the predicate would
      say, and no header is made: \<open>generate_message_divider\<close> with \<open>channel_audit=True\<close>
      never evaluates the predicate.

    \<^item> For any other message the closing fragment is there exactly when the message
      starts a block and has a previous one; a message that starts a block gets the
      header, and one that continues a block its body only.

  So no closing fragment precedes a message without a previous one, and none is put
  twice.
\<close>

theorem construct_message_closes_block_once:
  "(construct_message env self s = Inr ((html, md), s') \<longrightarrow>
      (notice_type (msg_type (heap s (message self))) \<longrightarrow>
         (\<exists>subs. html = message_html self
             @ (if previous_message self \<noteq> None then fill_out env end_message [] else [])
             @ fill_out env (notice_template (msg_type (heap s (message self)))) subs)
         \<and> occurrences is_end_message s' =
             occurrences is_end_message s + (if previous_message self \<noteq> None then 1 else 0)
         \<and> occurrences is_start_message s' = occurrences is_start_message s)
      \<and> (\<not> notice_type (msg_type (heap s (message self))) \<longrightarrow>
         (\<exists>started s1 subs.
            starts_new_block env self s = Inr (started, s1)
            \<and> html = message_html self
                @ (if started \<and> previous_message self \<noteq> None then fill_out env end_message [] else [])
                @ fill_out env (if started then start_message else message_body) subs
            \<and> occurrences is_end_message s' =
                occurrences is_end_message s
                + (if started \<and> previous_message self \<noteq> None then 1 else 0)
            \<and> occurrences is_start_message s' =
                occurrences is_start_message s + (if started then 1 else 0))))
   \<and> (\<exists>self1 s1. generate_message_divider env True self s = Inr ((False, self1), s1)
         \<and> message_html self1 =
             message_html self
             @ (if previous_message self \<noteq> None then fill_out env end_message [] else [])
         \<and> occurrences is_end_message s1 =
             occurrences is_end_message s + (if previous_message self \<noteq> None then 1 else 0))"
proof (intro conjI impI)
  assume run: "construct_message env self s = Inr ((html, md), s')"
  {
    assume n: "notice_type (msg_type (heap s (message self)))"
    from notice_html(1) [OF n run]
    show "\<exists>subs. html = message_html self
             @ (if previous_message self \<noteq> None then fill_out env end_message [] else [])
             @ fill_out env (notice_template (msg_type (heap s (message self)))) subs" .
    from notice_events [OF n run]
    show "occurrences is_end_message s' =
             occurrences is_end_message s + (if previous_message self \<noteq> None then 1 else 0)"
      and "occurrences is_start_message s' = occurrences is_start_message s"
      by simp_all
  }
  {
    assume plain: "\<not> notice_type (msg_type (heap s (message self)))"
    from plain_build_message [OF this run] obtain self' where
      b: "build_message env self s = Inr (self', s')"
      by blast
    from run b plain have "html = message_html self'"
      by (auto simp: construct_message_def notice_type_def io_simps split: sum.splits if_splits)
    with build_message_block [OF b]
    show "\<exists>started s1 subs.
            starts_new_block env self s = Inr (started, s1)
            \<and> html = message_html self
                @ (if started \<and> previous_message self \<noteq> None then fill_out env end_message [] else [])
                @ fill_out env (if started then start_message else message_body) subs
            \<and> occurrences is_end_message s' =
                occurrences is_end_message s
                + (if started \<and> previous_message self \<noteq> None then 1 else 0)
            \<and> occurrences is_start_message s' =
                occurrences is_start_message s + (if started then 1 else 0)"
      by simp
  }
next
  show "\<exists>self1 s1. generate_message_divider env True self s = Inr ((False, self1), s1)
         \<and> message_html self1 =
             message_html self
             @ (if previous_message self \<noteq> None then fill_out env end_message [] else [])
         \<and> occurrences is_end_message s1 =
             occurrences is_end_message s + (if previous_message self \<noteq> None then 1 else 0)"
    by (auto simp: divider_audit occurrences_def is_end_message_def split: option.splits)
qed

lemma pin_after_text_run:
  "\<exists>md s'. construct_message guild (builder 1 (Some 0) Map.empty)
             (start_state [text_message 100 bob ''hi'' 0, pin_message]) = Inr ((''Ep'', md), s')
     \<and> trace s' = [FillOut end_message, FetchMember 11, FillOut message_pin]"
  by (simp add: io_simps builder_defs guild_simps builder_simps pin_message_simps
      user_bob_simps heap_start_state Let_def template_mark_def)

lemma second_message_run:
  "\<exists>md s'. construct_message guild (builder 1 (Some 0) Map.empty)
             (start_state [text_message 100 bob ''hi'' 0, text_message 101 bob ''ho'' 60])
       = Inr ((''b'', md), s')"
  by (simp add: io_simps builder_defs guild_simps builder_simps last_word_def is_space_def
      text_message_simps user_bob_simps heap_start_state Let_def reference_truthy_def
      interaction_truthy_def utc_def template_mark_def datetime_gt_def add_timedelta_def
      four_minutes_def)

theorem construct_message_closes_block_once_witness:
  "(\<exists>md s'. construct_message guild (builder 1 (Some 0) Map.empty)
             (start_state [text_message 100 bob ''hi'' 0, pin_message]) = Inr ((''Ep'', md), s')
      \<and> notice_type (msg_type (heap (start_state [text_message 100 bob ''hi'' 0, pin_message])
                                 (message (builder 1 (Some 0) Map.empty))))
      \<and> (\<exists>subs. ''Ep'' = fill_out guild end_message [] @ fill_out guild message_pin subs)
      \<and> occurrences is_end_message s' = 1
      \<and> occurrences is_start_message s' = 0)
   \<and> (\<exists>md s' s1. construct_message guild (builder 1 (Some 0) Map.empty)
             (start_state [text_message 100 bob ''hi'' 0, text_message 101 bob ''ho'' 60])
           = Inr ((''b'', md), s')
      \<and> starts_new_block guild (builder 1 (Some 0) Map.empty)
             (start_state [text_message 100 bob ''hi'' 0, text_message 101 bob ''ho'' 60])
           = Inr (False, s1)
      \<and> occurrences is_end_message s' = 0
      \<and> occurrences is_start_message s' = 0)"
proof -
  let ?b = "builder 1 (Some 0) Map.empty"
  let ?s = "start_state [text_message 100 bob ''hi'' 0, pin_message]"
  let ?t = "start_state [text_message 100 bob ''hi'' 0, text_message 101 bob ''ho'' 60]"
  from pin_after_text_run obtain md s' where
    run: "construct_message guild ?b ?s = Inr ((''Ep'', md), s')"
    by blast
  have n: "notice_type (msg_type (heap ?s (message ?b)))"
    and nt: "notice_template (msg_type (heap ?s (message ?b))) = message_pin"
    and p: "previous_message ?b \<noteq> None" "message_html ?b = []"
    by (simp_all add: builder_simps heap_start_state pin_message_simps notice_type_def
        notice_template_def)
  have z: "occurrences is_end_message ?s = 0" "occurrences is_start_message ?s = 0"
    "occurrences is_end_message ?t = 0" "occurrences is_start_message ?t = 0"
    by (simp_all add: occurrences_def heap_start_state)
  from construct_message_closes_block_once [of guild ?b ?s "''Ep''" md s'] run n
  have "(\<exists>subs. ''Ep'' = message_html ?b
             @ (if previous_message ?b \<noteq> None then fill_out guild end_message [] else [])
             @ fill_out guild (notice_template (msg_type (heap ?s (message ?b)))) subs)
         \<and> occurrences is_end_message s' =
             occurrences is_end_message ?s + (if previous_message ?b \<noteq> None then 1 else 0)
         \<and> occurrences is_start_message s' = occurrences is_start_message ?s"
    by blast
  with p nt z have first: "(\<exists>subs. ''Ep'' = fill_out guild end_message [] @ fill_out guild message_pin subs)
      \<and> occurrences is_end_message s' = 1 \<and> occurrences is_start_message s' = 0"
    by simp
  from second_message_run obtain md2 s2 where
    run2: "construct_message guild ?b ?t = Inr ((''b'', md2), s2)"
    by blast
  have n2: "\<not> notice_type (msg_type (heap ?t (message ?b)))"
    by (simp add: builder_simps heap_start_state text_message_simps notice_type_def)
  from construct_message_closes_block_once [of guild ?b ?t "''b''" md2 s2] run2 n2
  obtain started s1 subs where
    st: "starts_new_block guild ?b ?t = Inr (started, s1)" and
    html: "''b'' = message_html ?b
                @ (if started \<and> previous_message ?b \<noteq> None then fill_out guild end_message [] else [])
                @ fill_out guild (if started then start_message else message_body) subs" and
    ce: "occurrences is_end_message s2 =
                occurrences is_end_message ?t
                + (if started \<and> previous_message ?b \<noteq> None then 1 else 0)" and
    cs: "occurrences is_start_message s2 =
                occurrences is_start_message ?t + (if started then 1 else 0)"
    by blast
  from html p have "\<not> started"
    by (auto simp: guild_simps template_mark_def split: if_splits)
  with st ce cs z have second: "starts_new_block guild ?b ?t = Inr (False, s1)
      \<and> occurrences is_end_message s2 = 0 \<and> occurrences is_start_message s2 = 0"
    by simp
  from run n first run2 second show ?thesis
    by blast
qed

section \<open>The first message of a thread\<close>

lemma thread_guild_simps:
  "guild_id thread_guild = 1"
  "fetch_member thread_guild i = (if i = 10 then Inr (Some alice) else Inr None)"
  "fetch_channel thread_guild c = Inr (Some c)"
  "fetch_message thread_guild c i = Inr (Some (text_message 99 alice ''parent'' 0))"
  "fill_out thread_guild t subs = template_mark t" "strftime thread_guild fmt d = ''12:00''"
  "embed_flow thread_guild x = x" "attachment_flow thread_guild x = x"
  "component_flow thread_guild x = x" "reaction_flow thread_guild x = x"
  by (simp_all add: thread_guild_def guild_def)

lemma thread_starter_simps:
  "channel_type thread_starter = ''ChannelType.GUILD_PUBLIC_THREAD''"
  "message_reference thread_starter = Reference \<lparr>ref_message_id = 99, ref_channel_id = 3\<rparr>"
  "channel_id thread_starter = 3"
  "author thread_starter = alice" "content thread_starter = ''re''"
  "created_at thread_starter = utc 60" "msg_type thread_starter = DEFAULT"
  "interaction thread_starter = NoInteraction" "embeds thread_starter = []"
  "attachments thread_starter = []" "components thread_starter = []"
  "reactions thread_starter = []" "webhook_id thread_starter = None"
  "msg_id thread_starter = 101" "edited_timestamp thread_starter = None"
  by (simp_all add: thread_starter_def reply_message_simps reply_message_fields)

lemma thread_starter_numeric_simps:
  "channel_type thread_starter_numeric = ''11''"
  "message_reference thread_starter_numeric = Reference \<lparr>ref_message_id = 99, ref_channel_id = 3\<rparr>"
  by (simp_all add: thread_starter_numeric_def reply_message_simps)

lemma thread_text_has_no_thread:
  "\<not> sublist ''thread'' ''ChannelType.GUILD_PUBLIC_THREAD''" "\<not> sublist ''thread'' ''11''"
  by (simp_all add: sublist_code)

lemma thread_starter_run:
  "\<exists>html md s'. gather_messages thread_guild [0] ''UTC'' True (start_state [thread_starter])
       = Inr (((html, md), [0]), s')
     \<and> trace s' = [FillOut message_content, FetchMessage 3 99, FetchMember 10,
                    FillOut message_reference_template, FetchMember 10, FetchMember 10,
                    FillOut start_message]
     \<and> message_reference (heap s' 0) = ReferenceMarkup ''r''"
  by (simp add: gather_messages_def thread_parent_def make_message_dict_def io_simps builder_defs
      thread_guild_simps thread_starter_simps text_message_simps user_alice_simps
      heap_start_state Let_def reference_truthy_def interaction_truthy_def utc_def
      template_mark_def thread_text_has_no_thread)

text \<open>
  C4 fails on the code, where the claim is right. The first message of the list is in a
  public thread and replies to message 99, which the guild can fetch. The text of the
  channel type holds no lower-case \<open>thread\<close>, so the assembler substitutes nothing: the
  list it returns still starts with the message it was given, no channel has been
  fetched, and the message is built as a reply, with a banner for message 99.
\<close>

theorem thread_first_message_not_replaced:
  "channel_type (heap (start_state [thread_starter]) 0) = ''ChannelType.GUILD_PUBLIC_THREAD''
   \<and> message_reference (heap (start_state [thread_starter]) 0)
       = Reference \<lparr>ref_message_id = 99, ref_channel_id = 3\<rparr>
   \<and> fetch_message thread_guild 3 99 = Inr (Some (text_message 99 alice ''parent'' 0))
   \<and> thread_parent thread_guild [0] (start_state [thread_starter])
       = Inr ([0], start_state [thread_starter])
   \<and> (\<exists>html md s'. gather_messages thread_guild [0] ''UTC'' True (start_state [thread_starter])
           = Inr (((html, md), [0]), s')
         \<and> FetchChannel 3 \<notin> set (trace s')
         \<and> FillOut message_reference_template \<in> set (trace s')
         \<and> message_reference (heap s' 0) = ReferenceMarkup ''r'')
   \<and> channel_type (heap (start_state [thread_starter_numeric]) 0) = ''11''
   \<and> thread_parent thread_guild [0] (start_state [thread_starter_numeric])
       = Inr ([0], start_state [thread_starter_numeric])"
proof -
  have a: "thread_parent thread_guild [0] (start_state [thread_starter])
       = Inr ([0], start_state [thread_starter])"
    by (simp add: thread_parent_def io_simps heap_start_state thread_starter_simps
        thread_text_has_no_thread)
  have b: "thread_parent thread_guild [0] (start_state [thread_starter_numeric])
       = Inr ([0], start_state [thread_starter_numeric])"
    by (simp add: thread_parent_def io_simps heap_start_state thread_starter_numeric_simps
        thread_text_has_no_thread)
  from thread_starter_run obtain html md s' where
    "gather_messages thread_guild [0] ''UTC'' True (start_state [thread_starter])
       = Inr (((html, md), [0]), s')"
    "trace s' = [FillOut message_content, FetchMessage 3 99, FetchMember 10,
                 FillOut message_reference_template, FetchMember 10, FetchMember 10,
                 FillOut start_message]"
    "message_reference (heap s' 0) = ReferenceMarkup ''r''"
    by blast
  then have c: "\<exists>html md s'. gather_messages thread_guild [0] ''UTC'' True (start_state [thread_starter])
           = Inr (((html, md), [0]), s')
         \<and> FetchChannel 3 \<notin> set (trace s')
         \<and> FillOut message_reference_template \<in> set (trace s')
         \<and> message_reference (heap s' 0) = ReferenceMarkup ''r''"
    by auto
  from a b c show ?thesis
    by (simp add: heap_start_state thread_starter_simps thread_starter_numeric_simps
        thread_guild_simps)
qed

section \<open>The start of a block\<close>

lemma build_content_slots:
  assumes "build_content env self s = Inr (self1, s1)"
  shows "message_reference (heap s1 a) = message_reference (heap s a)"
    and "interaction (heap s1 a) = interaction (heap s a)"
  using assms
  by (auto simp: build_content_def io_simps Let_def split: if_splits)

lemma set_time_state: "set_time env self m s = Inr (x, s') \<Longrightarrow> s' = s"
  by (auto simp: set_time_def to_local_time_str_def io_simps split: sum.splits option.splits if_splits)

lemma reference_banner_result:
  assumes "reference_banner env self r msg loc s = Inr (self', s')"
  shows "\<exists>subs. message_reference (heap s' (message self))
           = ReferenceMarkup (fill_out env message_reference_template subs)"
    and "interaction (heap s' a) = interaction (heap s a)"
proof -
  from assms obtain colour sa where c: "gather_user_colour env (Some (author msg)) s = Inr (colour, sa)"
    and rest: "(let content' =
               (if content msg = [] \<and> \<not> interaction_truthy (interaction msg) then ''Click to see attachment''
                else if content msg = [] \<and> interaction_truthy (interaction msg) then ''Click to see command''
                else content msg);
             icon' =
               (if \<not> interaction_truthy (interaction msg) \<and> (embeds msg \<noteq> [] \<or> attachments msg \<noteq> [])
                then reference_attachment_icon env
                else if interaction_truthy (interaction msg) then interaction_command_icon env
                else [])
         in io_bind (case loc of Some b \<Rightarrow> set_content b content' | None \<Rightarrow> io_return ()) (\<lambda>u.
            io_bind (set_time env self msg) (\<lambda>(c, e).
              (let edited = (if e \<noteq> [] then set_edit_at e else e) in
               io_bind (await_fill_out env message_reference_template
                          [(''AVATAR_URL'', avatar_url (author msg), Some PARSE_MODE_NONE),
                           (''BOT_TAG'', gather_user_bot env (author msg), Some PARSE_MODE_NONE),
                           (''NAME_TAG'', tag (author msg), Some PARSE_MODE_NONE),
                           (''NAME'', html_escape (display_name (author msg)), None),
                           (''USER_COLOUR'', colour, Some PARSE_MODE_NONE),
                           (''CONTENT'', remove_all ''<br>'' 0 (remove_all [CHR 0x0A] 0 content'),
                            Some PARSE_MODE_REFERENCE),
                           (''EDIT'', edited, Some PARSE_MODE_NONE),
                           (''ICON'', icon', Some PARSE_MODE_NONE),
                           (''USER_ID'', str_nat (user_id (author msg)), Some PARSE_MODE_NONE),
                           (''MESSAGE_ID'', str_nat (ref_message_id r), Some PARSE_MODE_NONE)])
                 (\<lambda>new_reference.
               io_bind (set_message_reference (message self) (ReferenceMarkup new_reference)) (\<lambda>u.
               io_return self)))))) sa = Inr (self', s')"
    unfolding reference_banner_def Let_def by (erule io_bindE)
  from c have sa: "heap sa = heap s"
    by (auto simp: gather_user_colour_apply split: sum.splits)
  from rest sa show "\<exists>subs. message_reference (heap s' (message self))
           = ReferenceMarkup (fill_out env message_reference_template subs)"
    by (auto simp: Let_def io_bind_def io_return_def set_content_def set_message_reference_def
          await_fill_out_def log_event_def
        dest!: set_time_state split: sum.splits option.splits prod.splits)
  from rest sa show "interaction (heap s' a) = interaction (heap s a)"
    by (auto simp: Let_def io_bind_def io_return_def set_content_def set_message_reference_def
          await_fill_out_def log_event_def
        dest!: set_time_state split: sum.splits option.splits prod.splits)
qed

lemma build_reference_result:
  assumes "build_reference env self s = Inr (self', s')"
  shows "\<exists>x. message_reference (heap s' (message self)) = ReferenceMarkup x
           \<and> (banners_nonempty env \<longrightarrow>
                (x \<noteq> [] \<longleftrightarrow>
                   reference_truthy (message_reference (heap s (message self)))
                   \<and> \<not> reference_cleared env self (heap s (message self))))"
    and "interaction (heap s' a) = interaction (heap s a)"
proof -
  have ne: "fill_out env message_reference_template subs \<noteq> []" if "banners_nonempty env" for subs
    using that by (simp add: banners_nonempty_def)
  show "\<exists>x. message_reference (heap s' (message self)) = ReferenceMarkup x
           \<and> (banners_nonempty env \<longrightarrow>
                (x \<noteq> [] \<longleftrightarrow>
                   reference_truthy (message_reference (heap s (message self)))
                   \<and> \<not> reference_cleared env self (heap s (message self))))"
  proof (cases "message_reference (heap s (message self))")
    case NoReference
    with assms(1) show ?thesis
      by (auto simp: build_reference_def io_simps reference_truthy_def)
  next
    case (ReferenceMarkup str)
    with assms(1) show ?thesis
      by (auto simp: build_reference_def io_simps reference_truthy_def split: if_splits)
  next
    case (Reference r)
    show ?thesis
    proof (cases "message_dict self (ref_message_id r)")
      case (Some b)
      with Reference assms(1) have "reference_banner env self r (heap s b) (Some b) s = Inr (self', s')"
        by (simp add: build_reference_def io_simps)
      from reference_banner_result(1) [OF this] Reference Some show ?thesis
        by (auto simp: reference_truthy_def reference_cleared_def ne)
    next
      case None
      note absent = build_reference_absent [OF Reference None, of env]
      show ?thesis
      proof (cases "fetch_message env (channel_id (heap s (message self))) (ref_message_id r)")
        case (Inl e)
        with assms(1) absent Reference None show ?thesis
          by (auto simp: reference_truthy_def reference_cleared_def split: if_splits)
      next
        case (Inr fetched)
        with assms(1) absent obtain msg where
          "reference_banner env self r msg None
             (s\<lparr>trace := trace s @ [FetchMessage (channel_id (heap s (message self))) (ref_message_id r)]\<rparr>)
           = Inr (self', s')"
          by (cases fetched) auto
        from reference_banner_result(1) [OF this] Reference None Inr show ?thesis
          by (auto simp: reference_truthy_def reference_cleared_def ne)
      qed
    qed
  qed
  show "interaction (heap s' a) = interaction (heap s a)"
  proof (cases "message_reference (heap s (message self))")
    case NoReference
    with assms(1) show ?thesis
      by (auto simp: build_reference_def io_simps)
  next
    case (ReferenceMarkup str)
    with assms(1) show ?thesis
      by (auto simp: build_reference_def io_simps split: if_splits)
  next
    case (Reference r)
    show ?thesis
    proof (cases "message_dict self (ref_message_id r)")
      case (Some b)
      with Reference assms(1) have "reference_banner env self r (heap s b) (Some b) s = Inr (self', s')"
        by (simp add: build_reference_def io_simps)
      from reference_banner_result(2) [OF this] show ?thesis .
    next
      case None
      note absent = build_reference_absent [OF Reference None, of env]
      show ?thesis
      proof (cases "fetch_message env (channel_id (heap s (message self))) (ref_message_id r)")
        case (Inl e)
        with assms(1) absent show ?thesis
          by (auto split: if_splits)
      next
        case (Inr fetched)
        with assms(1) absent obtain msg where
          "reference_banner env self r msg None
             (s\<lparr>trace := trace s @ [FetchMessage (channel_id (heap s (message self))) (ref_message_id r)]\<rparr>)
           = Inr (self', s')"
          by (cases fetched) auto
        from reference_banner_result(2) [OF this, of a] show ?thesis
          by simp
      qed
    qed
  qed
qed

lemma build_interaction_result:
  assumes "build_interaction env self s = Inr (self', s')"
  shows "\<exists>y. interaction (heap s' (message self)) = InteractionMarkup y
           \<and> (banners_nonempty env \<longrightarrow>
                (y \<noteq> [] \<longleftrightarrow> interaction_truthy (interaction (heap s (message self)))))"
    and "message_reference (heap s' a) = message_reference (heap s a)"
proof -
  have ne: "fill_out env message_interaction subs \<noteq> []" if "banners_nonempty env" for subs
    using that by (simp add: banners_nonempty_def)
  from assms(1) show "\<exists>y. interaction (heap s' (message self)) = InteractionMarkup y
           \<and> (banners_nonempty env \<longrightarrow>
                (y \<noteq> [] \<longleftrightarrow> interaction_truthy (interaction (heap s (message self)))))"
    by (auto simp: build_interaction_def io_simps Let_def gather_user_colour_apply
          interaction_truthy_def ne
        split: interaction_slot.splits if_splits sum.splits)
  from assms(1) show "message_reference (heap s' a) = message_reference (heap s a)"
    by (auto simp: build_interaction_def io_simps Let_def gather_user_colour_apply
        split: interaction_slot.splits if_splits sum.splits)
qed

lemma build_assets_state: "build_assets env self s = Inr (self', s') \<Longrightarrow> s' = s"
  by (auto simp: build_assets_def io_simps Let_def)

lemma divider_started:
  assumes "generate_message_divider env False self s = Inr ((started, self'), s')"
  shows "generate_message_divider_check self s = Inr (started, s)"
  using assms
  by (auto simp: generate_message_divider_def io_bind_def io_return_def
      dest: check_state split: sum.splits if_splits prod.splits)

lemma check_value:
  assumes "generate_message_divider_check self s = Inr (b, s1)"
  shows "b \<longleftrightarrow>
     (case previous_message self of
        None \<Rightarrow> True
      | Some p \<Rightarrow>
          message_reference (heap s (message self)) \<noteq> ReferenceMarkup []
          \<or> msg_type (heap s p) \<noteq> DEFAULT
          \<or> interaction (heap s (message self)) \<noteq> InteractionMarkup []
          \<or> user_id (author (heap s p)) \<noteq> user_id (author (heap s (message self)))
          \<or> webhook_id (heap s (message self)) \<noteq> None
          \<or> datetime_gt (created_at (heap s (message self)))
               (add_timedelta (created_at (heap s p)) four_minutes) = Inr True)"
  using assms
  by (auto simp: generate_message_divider_check_def io_simps
      split: option.splits if_splits sum.splits)

lemma starts_new_block_steps:
  assumes "starts_new_block env self s = Inr (started, s')"
  obtains self1 s1 self2 s2 self3 s3 self4 self5 where
    "build_content env self s = Inr (self1, s1)"
    "build_reference env self1 s1 = Inr (self2, s2)"
    "build_interaction env self2 s2 = Inr (self3, s3)"
    "build_assets env self3 s3 = Inr (self4, s3)"
    "generate_message_divider env False self4 s3 = Inr ((started, self5), s')"
proof -
  from assms obtain self1 s1 where 1: "build_content env self s = Inr (self1, s1)"
    and r1: "io_bind (build_reference env self1) (\<lambda>self.
       io_bind (build_interaction env self) (\<lambda>self.
       io_bind (build_assets env self) (\<lambda>self.
       io_bind (generate_message_divider env False self) (\<lambda>(started, self).
       io_return started)))) s1 = Inr (started, s')"
    unfolding starts_new_block_def by (erule io_bindE)
  from r1 obtain self2 s2 where 2: "build_reference env self1 s1 = Inr (self2, s2)"
    and r2: "io_bind (build_interaction env self2) (\<lambda>self.
       io_bind (build_assets env self) (\<lambda>self.
       io_bind (generate_message_divider env False self) (\<lambda>(started, self).
       io_return started))) s2 = Inr (started, s')"
    by (erule io_bindE)
  from r2 obtain self3 s3 where 3: "build_interaction env self2 s2 = Inr (self3, s3)"
    and r3: "io_bind (build_assets env self3) (\<lambda>self.
       io_bind (generate_message_divider env False self) (\<lambda>(started, self).
       io_return started)) s3 = Inr (started, s')"
    by (erule io_bindE)
  from r3 obtain self4 s4 where 4: "build_assets env self3 s3 = Inr (self4, s4)"
    and r4: "io_bind (generate_message_divider env False self4) (\<lambda>(started, self).
       io_return started) s4 = Inr (started, s')"
    by (erule io_bindE)
  from 4 have s4: "s4 = s3"
    by (rule build_assets_state)
  from r4 obtain y where "generate_message_divider env False self4 s4 = Inr (y, s')"
    and "fst y = started"
    by (auto simp: io_bind_def io_return_def split: sum.splits prod.splits)
  then obtain self5 where 5: "generate_message_divider env False self4 s4 = Inr ((started, self5), s')"
    by (cases y) auto
  from 1 2 3 4 5 s4 that show thesis
    by blast
qed

text \<open>
  C1, as amended. A message built by \<open>build_message\<close> starts a new block exactly when it
  has no previous message, or its reply-reference was rendered as a banner rather than
  cleared after a failed fetch, or it carries an interaction, or the previous message's
  type is not the default one, or the two authors differ, or it has a webhook id, or it
  was created more than four minutes after the previous message. The banners the engine
  renders are taken not to be empty.
\<close>

theorem starts_new_block_iff:
  assumes "starts_new_block env self s = Inr (started, s')"
    and "banners_nonempty env"
  shows "started \<longleftrightarrow>
     (case previous_message self of
        None \<Rightarrow> True
      | Some p \<Rightarrow>
          (reference_truthy (message_reference (heap s (message self)))
             \<and> \<not> reference_cleared env self (heap s (message self)))
          \<or> interaction_truthy (interaction (heap s (message self)))
          \<or> msg_type (heap s p) \<noteq> DEFAULT
          \<or> user_id (author (heap s p)) \<noteq> user_id (author (heap s (message self)))
          \<or> webhook_id (heap s (message self)) \<noteq> None
          \<or> datetime_gt (created_at (heap s (message self)))
               (add_timedelta (created_at (heap s p)) four_minutes) = Inr True)"
proof -
  from assms(1) obtain self1 s1 self2 s2 self3 s3 self4 self5 where
    1: "build_content env self s = Inr (self1, s1)" and
    2: "build_reference env self1 s1 = Inr (self2, s2)" and
    3: "build_interaction env self2 s2 = Inr (self3, s3)" and
    4: "build_assets env self3 s3 = Inr (self4, s3)" and
    5: "generate_message_divider env False self4 s3 = Inr ((started, self5), s')"
    by (rule starts_new_block_steps)
  have b: "same_builder self self1" "same_builder self1 self2" "same_builder self2 self3"
    "same_builder self3 self4"
    using 1 2 3 4 yields_build_content yields_build_reference yields_build_interaction
      yields_build_assets
    by (blast intro: yields_same_builder)+
  then have m: "message self1 = message self" "message self2 = message self"
    "message self4 = message self" "previous_message self4 = previous_message self"
    and d: "message_dict self1 = message_dict self"
    by (simp_all add: same_builder_def)
  have "frame s s1" "frame s1 s2" "frame s2 s3"
    using 1 2 3
      keeps_build_content [of "\<lambda>ev. False"] keeps_build_reference [of "\<lambda>ev. False"]
      keeps_build_interaction [of "\<lambda>ev. False"]
    by (blast intro: keeps_frame)+
  then have f: "frame s s3" and f1: "frame s s1"
    by (blast intro: frame_trans)+
  have id: "msg_type (heap s3 a) = msg_type (heap s a)" "author (heap s3 a) = author (heap s a)"
    "webhook_id (heap s3 a) = webhook_id (heap s a)" "created_at (heap s3 a) = created_at (heap s a)" for a
    using f by (simp_all add: frame_def same_identity_def)
  have c1: "channel_id (heap s1 (message self)) = channel_id (heap s (message self))"
    using f1 by (simp add: frame_def same_identity_def)
  from build_reference_result(1) [OF 2] assms(2) m(1) obtain x where
    x: "message_reference (heap s2 (message self)) = ReferenceMarkup x"
    and xe: "x \<noteq> [] \<longleftrightarrow>
                reference_truthy (message_reference (heap s1 (message self)))
                \<and> \<not> reference_cleared env self1 (heap s1 (message self))"
    by auto
  have r0: "message_reference (heap s1 (message self)) = message_reference (heap s (message self))"
    by (rule build_content_slots(1) [OF 1])
  have "reference_cleared env self1 (heap s1 (message self)) = reference_cleared env self (heap s (message self))"
    by (simp add: reference_cleared_def r0 d c1 split: reference_slot.splits)
  with xe r0 have xe': "x \<noteq> [] \<longleftrightarrow>
                reference_truthy (message_reference (heap s (message self)))
                \<and> \<not> reference_cleared env self (heap s (message self))"
    by simp
  from build_interaction_result(2) [OF 3, of "message self"] x
  have ref3: "message_reference (heap s3 (message self)) = ReferenceMarkup x"
    by simp
  from build_interaction_result(1) [OF 3] assms(2) m(2) obtain y where
    y: "interaction (heap s3 (message self)) = InteractionMarkup y"
    and ye: "y \<noteq> [] \<longleftrightarrow> interaction_truthy (interaction (heap s2 (message self)))"
    by auto
  have "interaction (heap s2 (message self)) = interaction (heap s (message self))"
    using build_reference_result(2) [OF 2, of "message self"]
      build_content_slots(2) [OF 1, of "message self"] by simp
  with ye have ye': "y \<noteq> [] \<longleftrightarrow> interaction_truthy (interaction (heap s (message self)))"
    by simp
  from check_value [OF divider_started [OF 5]] m(3,4) ref3 y id xe' ye' show ?thesis
    by (auto split: option.splits)
qed

lemma banners_nonempty_guild: "banners_nonempty guild" "banners_nonempty (guild_failing e)"
  by (simp_all add: banners_nonempty_def guild_simps guild_failing_simps template_mark_def)

lemma answer_message_simps:
  "message_reference answer_message = Reference \<lparr>ref_message_id = 100, ref_channel_id = 3\<rparr>"
  "channel_id answer_message = 3"
  "author answer_message = alice" "content answer_message = ''re''"
  "created_at answer_message = utc 60" "msg_type answer_message = DEFAULT"
  "interaction answer_message = NoInteraction" "embeds answer_message = []"
  "attachments answer_message = []" "components answer_message = []"
  "reactions answer_message = []" "webhook_id answer_message = None"
  "msg_id answer_message = 101" "edited_timestamp answer_message = None"
  by (simp_all add: answer_message_def text_message_simps)

lemma answer_runs:
  "\<exists>started s'. starts_new_block guild (builder 1 (Some 0) [100 \<mapsto> 0])
       (start_state [text_message 100 alice ''hi'' 0, answer_message]) = Inr (started, s')"
  by (auto simp: starts_new_block_def io_simps builder_defs guild_simps builder_simps
      answer_message_simps text_message_simps user_alice_simps
      heap_start_state Let_def interaction_truthy_def utc_def
      template_mark_def user_colour_def user_icon_def sorted_roles_def datetime_gt_def
      add_timedelta_def four_minutes_def)

theorem starts_new_block_iff_witness:
  "\<exists>s'. starts_new_block guild (builder 1 (Some 0) [100 \<mapsto> 0])
       (start_state [text_message 100 alice ''hi'' 0, answer_message]) = Inr (True, s')
     \<and> banners_nonempty guild
     \<and> previous_message (builder 1 (Some 0) [100 \<mapsto> 0]) = Some 0
     \<and> reference_truthy (message_reference
          (heap (start_state [text_message 100 alice ''hi'' 0, answer_message]) 1))
     \<and> \<not> reference_cleared guild (builder 1 (Some 0) [100 \<mapsto> 0])
          (heap (start_state [text_message 100 alice ''hi'' 0, answer_message]) 1)"
proof -
  from answer_runs obtain started s' where
    run: "starts_new_block guild (builder 1 (Some 0) [100 \<mapsto> 0])
       (start_state [text_message 100 alice ''hi'' 0, answer_message]) = Inr (started, s')"
    by blast
  have r: "reference_truthy (message_reference
          (heap (start_state [text_message 100 alice ''hi'' 0, answer_message]) 1))"
    and c: "\<not> reference_cleared guild (builder 1 (Some 0) [100 \<mapsto> 0])
          (heap (start_state [text_message 100 alice ''hi'' 0, answer_message]) 1)"
    and p: "previous_message (builder 1 (Some 0) [100 \<mapsto> 0]) = Some 0"
    by (simp_all add: heap_start_state answer_message_simps reference_truthy_def
        reference_cleared_def guild_simps builder_simps)
  from starts_new_block_iff [OF run banners_nonempty_guild(1)] r c have "started"
    by (simp add: builder_simps)
  with run r c p banners_nonempty_guild(1) show ?thesis
    by auto
qed

text \<open>
  C1 as stated fails: alice's second message, one minute after her first, carries a
  reply-reference; the fetch of the referenced message raises an \<open>HTTPException\<close> other
  than \<open>NotFound\<close>, the reference is cleared, and the message continues the block.
\<close>

theorem cleared_reference_continues_block_counterexample:
  "\<exists>s'. starts_new_block (guild_failing HTTPException) (builder 1 (Some 0) Map.empty)
       (start_state [text_message 100 alice ''hi'' 0, reply_message]) = Inr (False, s')
     \<and> previous_message (builder 1 (Some 0) Map.empty) = Some 0
     \<and> message_reference (heap (start_state [text_message 100 alice ''hi'' 0, reply_message]) 1)
         = Reference \<lparr>ref_message_id = 99, ref_channel_id = 3\<rparr>"
  by (simp add: starts_new_block_def io_simps builder_defs guild_failing_simps builder_simps
      reply_message_simps reply_message_fields text_message_simps user_alice_simps
      heap_start_state Let_def is_HTTPException_def interaction_truthy_def utc_def
      template_mark_def datetime_gt_def add_timedelta_def four_minutes_def)

section \<open>Attributes written in place\<close>

lemma build_content_content:
  assumes "build_content env self s = Inr (self1, s1)"
  shows "content (heap s1 (message self)) =
     (if content (heap s (message self)) = [] then []
      else fill_out env message_content
             [(''MESSAGE_CONTENT'', html_escape (content (heap s (message self))),
               Some PARSE_MODE_MARKDOWN),
              (''EDIT'', (if message_edited_at self \<noteq> [] then set_edit_at (message_edited_at self)
                         else message_edited_at self), Some PARSE_MODE_NONE)])"
  using assms
  by (auto simp: build_content_def io_simps Let_def split: if_splits)

lemma build_meta_data_state: "build_meta_data env self s = Inr (self', s') \<Longrightarrow> s' = s"
  by (auto simp: build_meta_data_def io_simps Let_def split: option.splits)

lemma build_message_slots:
  assumes "build_message env self s = Inr (self', s')"
  shows "\<exists>x y. message_reference (heap s' (message self)) = ReferenceMarkup x
           \<and> interaction (heap s' (message self)) = InteractionMarkup y"
proof -
  from assms obtain self1 s1 self2 s2 self3 s3 self4 s4 self5 s5 where
    1: "build_content env self s = Inr (self1, s1)" and
    2: "build_reference env self1 s1 = Inr (self2, s2)" and
    3: "build_interaction env self2 s2 = Inr (self3, s3)" and
    4: "build_assets env self3 s3 = Inr (self4, s4)" and
    5: "build_message_template env self4 s4 = Inr (self5, s5)" and
    6: "build_meta_data env self5 s5 = Inr (self', s')"
    by (rule build_message_run)
  have "same_builder self self1" "same_builder self1 self2"
    using 1 2 yields_build_content yields_build_reference
    by (blast intro: yields_same_builder)+
  then have m: "message self1 = message self" "message self2 = message self"
    by (simp_all add: same_builder_def)
  from build_reference_result(1) [OF 2] m(1) obtain x where
    x: "message_reference (heap s2 (message self)) = ReferenceMarkup x"
    by auto
  from build_interaction_result(1) [OF 3] m(2) obtain y where
    y: "interaction (heap s3 (message self)) = InteractionMarkup y"
    by auto
  from build_interaction_result(2) [OF 3, of "message self"] x
  have x3: "message_reference (heap s3 (message self)) = ReferenceMarkup x"
    by simp
  from 4 have "s4 = s3"
    by (rule build_assets_state)
  moreover from 5 have "heap s5 = heap s4"
    by (rule build_message_template_block)
  moreover from 6 have "s' = s5"
    by (rule build_meta_data_state)
  ultimately have "heap s' = heap s3"
    by simp
  with x3 y show ?thesis
    by simp
qed

text \<open>
  C8, as amended. Building a message leaves every attribute of every message object as
  it was, except \<open>content\<close>, \<open>message_reference\<close> and \<open>interaction\<close>; and so does the
  assembler for every message of the list it is given. Those three are written in place:
  after a message that is no notice is built, its \<open>message_reference\<close> and its
  \<open>interaction\<close> hold strings where the library's objects were, and \<open>build_content\<close>
  has put the markup of the content template where a content that was not empty was.
  Building a notice writes to no message.
\<close>

theorem construct_message_keeps_identity:
  "(construct_message env self s = Inr (r, s') \<longrightarrow>
      (\<forall>a. same_identity (heap s a) (heap s' a))
      \<and> (notice_type (msg_type (heap s (message self))) \<longrightarrow> heap s' = heap s)
      \<and> (\<not> notice_type (msg_type (heap s (message self))) \<longrightarrow>
           (\<exists>x y. message_reference (heap s' (message self)) = ReferenceMarkup x
                \<and> interaction (heap s' (message self)) = InteractionMarkup y)))
   \<and> (build_content env self s = Inr (self1, s1) \<longrightarrow>
        content (heap s1 (message self)) =
          (if content (heap s (message self)) = [] then []
           else fill_out env message_content
                  [(''MESSAGE_CONTENT'', html_escape (content (heap s (message self))),
                    Some PARSE_MODE_MARKDOWN),
                   (''EDIT'', (if message_edited_at self \<noteq> [] then set_edit_at (message_edited_at self)
                              else message_edited_at self), Some PARSE_MODE_NONE)]))
   \<and> (gather_messages env messages tz mil s = Inr (r', s'') \<longrightarrow>
        (\<forall>a \<in> set messages. same_identity (heap s a) (heap s'' a)))"
proof (intro conjI impI ballI)
  assume "construct_message env self s = Inr (r, s')"
  then show "\<forall>a. same_identity (heap s a) (heap s' a)"
    using construct_message_frame [of env self s r s'] by (simp add: frame_def)
next
  assume run: "construct_message env self s = Inr (r, s')"
    and n: "notice_type (msg_type (heap s (message self)))"
  obtain html md where "r = (html, md)"
    by (cases r)
  with run have "construct_message env self s = Inr ((html, md), s')"
    by simp
  from notice_html(2) [OF n this] show "heap s' = heap s" .
next
  assume run: "construct_message env self s = Inr (r, s')"
    and n: "\<not> notice_type (msg_type (heap s (message self)))"
  obtain html md where "r = (html, md)"
    by (cases r)
  with run have "construct_message env self s = Inr ((html, md), s')"
    by simp
  from plain_build_message [OF n this] obtain self' where
    "build_message env self s = Inr (self', s')"
    by blast
  then show "\<exists>x y. message_reference (heap s' (message self)) = ReferenceMarkup x
                \<and> interaction (heap s' (message self)) = InteractionMarkup y"
    by (rule build_message_slots)
next
  assume "build_content env self s = Inr (self1, s1)"
  then show "content (heap s1 (message self)) =
          (if content (heap s (message self)) = [] then []
           else fill_out env message_content
                  [(''MESSAGE_CONTENT'', html_escape (content (heap s (message self))),
                    Some PARSE_MODE_MARKDOWN),
                   (''EDIT'', (if message_edited_at self \<noteq> [] then set_edit_at (message_edited_at self)
                              else message_edited_at self), Some PARSE_MODE_NONE)])"
    by (rule build_content_content)
next
  fix a
  assume run: "gather_messages env messages tz mil s = Inr (r', s'')" and a: "a \<in> set messages"
  obtain html md messages' where r': "r' = ((html, md), messages')"
    by (metis surj_pair)
  from run r' obtain s1 body where
    t: "thread_parent env messages s = Inr (messages', s1)" and
    l: "gather_loop env tz mil (make_message_dict (heap s) messages) messages' None [] Map.empty s1
       = Inr ((body, md), s'')"
    by (auto elim: gather_messages_steps)
  from a fresh_address_fresh [of messages] have "a \<noteq> fresh_address messages"
    by blast
  with thread_parent_cases [OF t] have "heap s1 a = heap s a"
    by simp
  moreover from gather_loop_frame [OF l] have "same_identity (heap s1 a) (heap s'' a)"
    by (simp add: frame_def)
  ultimately show "same_identity (heap s a) (heap s'' a)"
    by simp
qed

lemma single_construct_run:
  "\<exists>r s'. construct_message guild (builder 0 None Map.empty) (start_state [text_message 100 bob ''hi'' 0])
       = Inr (r, s')
     \<and> content (heap s' 0) = ''c''
     \<and> message_reference (heap s' 0) = ReferenceMarkup []
     \<and> interaction (heap s' 0) = InteractionMarkup []"
  by (simp add: io_simps builder_defs guild_simps builder_simps last_word_def is_space_def
      text_message_simps user_bob_simps heap_start_state Let_def reference_truthy_def
      interaction_truthy_def utc_def template_mark_def)

lemma pin_construct_run:
  "\<exists>r s'. construct_message guild (builder 1 (Some 0) Map.empty)
             (start_state [text_message 100 bob ''hi'' 0, pin_message]) = Inr (r, s')"
  using pin_after_text_run by blast

lemma single_content_run:
  "\<exists>s1. build_content guild (builder 0 None Map.empty) (start_state [text_message 100 bob ''hi'' 0])
     = Inr (builder 0 None Map.empty, s1)"
  by (simp add: build_content_def io_simps guild_simps builder_simps text_message_simps
      heap_start_state Let_def template_mark_def builder_def)

theorem construct_message_keeps_identity_witness:
  "(\<exists>r s'. construct_message guild (builder 0 None Map.empty)
              (start_state [text_message 100 bob ''hi'' 0]) = Inr (r, s')
      \<and> \<not> notice_type (msg_type (heap (start_state [text_message 100 bob ''hi'' 0])
                                    (message (builder 0 None Map.empty))))
      \<and> same_identity (text_message 100 bob ''hi'' 0) (heap s' 0)
      \<and> (\<exists>x y. message_reference (heap s' 0) = ReferenceMarkup x
                \<and> interaction (heap s' 0) = InteractionMarkup y))
   \<and> (\<exists>r s'. construct_message guild (builder 1 (Some 0) Map.empty)
              (start_state [text_message 100 bob ''hi'' 0, pin_message]) = Inr (r, s')
      \<and> notice_type (msg_type (heap (start_state [text_message 100 bob ''hi'' 0, pin_message])
                                  (message (builder 1 (Some 0) Map.empty))))
      \<and> heap s' = heap (start_state [text_message 100 bob ''hi'' 0, pin_message]))
   \<and> (\<exists>s1. build_content guild (builder 0 None Map.empty)
              (start_state [text_message 100 bob ''hi'' 0]) = Inr (builder 0 None Map.empty, s1)
      \<and> content (heap (start_state [text_message 100 bob ''hi'' 0]) 0) = ''hi''
      \<and> content (heap s1 0) = ''c'')"
proof -
  let ?b = "builder 0 None Map.empty"
  let ?s = "start_state [text_message 100 bob ''hi'' 0]"
  let ?c = "builder 1 (Some 0) Map.empty"
  let ?t = "start_state [text_message 100 bob ''hi'' 0, pin_message]"
  from single_construct_run obtain r s' where
    run: "construct_message guild ?b ?s = Inr (r, s')"
    by blast
  have n: "\<not> notice_type (msg_type (heap ?s (message ?b)))"
    by (simp add: builder_simps heap_start_state text_message_simps notice_type_def)
  from construct_message_keeps_identity [of guild ?b ?s r s'] run n
  have "same_identity (heap ?s 0) (heap s' 0)"
    and "\<exists>x y. message_reference (heap s' (message ?b)) = ReferenceMarkup x
                \<and> interaction (heap s' (message ?b)) = InteractionMarkup y"
    by blast+
  with run n have first: "\<exists>r s'. construct_message guild ?b ?s = Inr (r, s')
      \<and> \<not> notice_type (msg_type (heap ?s (message ?b)))
      \<and> same_identity (text_message 100 bob ''hi'' 0) (heap s' 0)
      \<and> (\<exists>x y. message_reference (heap s' 0) = ReferenceMarkup x
                \<and> interaction (heap s' 0) = InteractionMarkup y)"
    by (auto simp: heap_start_state builder_simps)
  from pin_construct_run obtain r2 s2 where
    run2: "construct_message guild ?c ?t = Inr (r2, s2)"
    by blast
  have n2: "notice_type (msg_type (heap ?t (message ?c)))"
    by (simp add: builder_simps heap_start_state pin_message_simps notice_type_def)
  from construct_message_keeps_identity [of guild ?c ?t r2 s2] run2 n2
  have "heap s2 = heap ?t"
    by blast
  with run2 n2 have second: "\<exists>r s'. construct_message guild ?c ?t = Inr (r, s')
      \<and> notice_type (msg_type (heap ?t (message ?c))) \<and> heap s' = heap ?t"
    by blast
  from single_content_run obtain s1 where
    run3: "build_content guild ?b ?s = Inr (?b, s1)"
    by blast
  from construct_message_keeps_identity [where env = guild and self = ?b and s = ?s
      and ?self1.0 = ?b and ?s1.0 = s1] run3
  have "content (heap s1 (message ?b)) =
          (if content (heap ?s (message ?b)) = [] then []
           else fill_out guild message_content
                  [(''MESSAGE_CONTENT'', html_escape (content (heap ?s (message ?b))),
                    Some PARSE_MODE_MARKDOWN),
                   (''EDIT'', (if message_edited_at ?b \<noteq> [] then set_edit_at (message_edited_at ?b)
                              else message_edited_at ?b), Some PARSE_MODE_NONE)])"
    by blast
  then have "content (heap s1 0) = ''c''"
    by (simp add: builder_simps heap_start_state text_message_simps guild_simps template_mark_def)
  with run3 have third: "\<exists>s1. build_content guild ?b ?s = Inr (?b, s1)
      \<and> content (heap ?s 0) = ''hi'' \<and> content (heap s1 0) = ''c''"
    by (auto simp: heap_start_state text_message_simps)
  from first second third show ?thesis
    by blast
qed

text \<open>
  C8 as stated fails: after its markup is built the message at address 0 has another
  content, and markup where its reference and its interaction were.
\<close>

theorem construct_message_mutates_counterexample:
  "\<exists>r s'. construct_message guild (builder 0 None Map.empty) (start_state [text_message 100 bob ''hi'' 0])
       = Inr (r, s')
     \<and> content (heap (start_state [text_message 100 bob ''hi'' 0]) 0) = ''hi''
     \<and> content (heap s' 0) = ''c''
     \<and> message_reference (heap (start_state [text_message 100 bob ''hi'' 0]) 0) = NoReference
     \<and> message_reference (heap s' 0) = ReferenceMarkup []
     \<and> interaction (heap (start_state [text_message 100 bob ''hi'' 0]) 0) = NoInteraction
     \<and> interaction (heap s' 0) = InteractionMarkup []"
  using single_construct_run by (simp add: heap_start_state text_message_simps)

end
